(* ===== verification/Prelude.thy ===== *)
theory Prelude
  imports Main "HOL-Library.AList"
begin

text \<open>
  Shared vocabulary of the development: the Python built-ins the repository's scripts
  rely on (\<open>str.strip\<close>, \<open>in\<close> on strings, \<open>str.split\<close>, indexing with
  negative indices, \<open>//\<close>, \<open>'{:x}'\<close> and \<open>str()\<close> formatting), the exceptions they
  raise as a datatype, and the lemmas about them that the component theories share.
  Dictionaries of the scripts are association lists updated with \<open>AList.update\<close>,
  which keeps Python's insertion order and overwrites a key in place.
\<close>

named_theorems py_simps "evaluation equations of the Python built-in models"

section \<open>Exceptions\<close>

datatype py_exc =
    IndexError
  | ZeroDivisionError
  | TypeError string
  | AttributeError string
  | FileNotFoundError string
  | TimeoutExpired
  | OSError string
  | KeyError "nat list"
  | UnicodeEncodeError

type_synonym 'a py_result = "py_exc + 'a"

text \<open>
  A Python statement sequence over a mutable state \<open>'s\<close>: it returns a value or
  raises, and in both cases the state is the one at that moment (effects before the
  raise persist, as Python's do).
\<close>

type_synonym ('s, 'a) pyst = "'s \<Rightarrow> ('a py_result) \<times> 's"

definition preturn :: "'a \<Rightarrow> ('s, 'a) pyst" where
  "preturn a s = (Inr a, s)"

definition praise :: "py_exc \<Rightarrow> ('s, 'a) pyst" where
  "praise e s = (Inl e, s)"

definition pbind :: "('s, 'a) pyst \<Rightarrow> ('a \<Rightarrow> ('s, 'b) pyst) \<Rightarrow> ('s, 'b) pyst" where
  "pbind m f s = (case m s of (Inl e, s') \<Rightarrow> (Inl e, s') | (Inr a, s') \<Rightarrow> f a s')"

definition pmodify :: "('s \<Rightarrow> 's) \<Rightarrow> ('s, unit) pyst" where
  "pmodify f s = (Inr (), f s)"

definition pget :: "('s \<Rightarrow> 'a) \<Rightarrow> ('s, 'a) pyst" where
  "pget f s = (Inr (f s), s)"

text \<open>\<open>for x in xs: body(x)\<close>, stopping at the first exception.\<close>

fun pfor :: "'a list \<Rightarrow> ('a \<Rightarrow> ('s, unit) pyst) \<Rightarrow> ('s, unit) pyst" where
  "pfor [] body = preturn ()"
| "pfor (x # xs) body = pbind (body x) (\<lambda>_. pfor xs body)"

text \<open>\<open>try: m except ...: h\<close>: the handler sees the exception and the state reached
  when it was raised.\<close>

definition ptry :: "('s, 'a) pyst \<Rightarrow> (py_exc \<Rightarrow> ('s, 'a) pyst) \<Rightarrow> ('s, 'a) pyst" where
  "ptry m h s = (case m s of (Inl e, s') \<Rightarrow> h e s' | (Inr a, s') \<Rightarrow> (Inr a, s'))"

section \<open>Strings\<close>

text \<open>\<open>str.isspace\<close> on the code points a \<open>char\<close> can hold (0..255): tab to carriage
  return, the four separator characters 0x1c..0x1f, space, NEL (0x85) and no-break
  space (0xa0).\<close>

definition py_space :: "char \<Rightarrow> bool" where
  "py_space c = (let n = (of_char c :: nat) in (9 \<le> n \<and> n \<le> 13) \<or> (28 \<le> n \<and> n \<le> 32) \<or> n = 133 \<or> n = 160)"

text \<open>\<open>s.strip()\<close>\<close>

definition py_strip :: "string \<Rightarrow> string" where
  "py_strip s = rev (dropWhile py_space (rev (dropWhile py_space s)))"

text \<open>\<open>sub in s\<close> for strings: \<open>sub\<close> occurs at some position of \<open>s\<close>.\<close>

fun py_in :: "string \<Rightarrow> string \<Rightarrow> bool" where
  "py_in sub [] = (sub = [])"
| "py_in sub (c # cs) = (take (length sub) (c # cs) = sub \<or> py_in sub cs)"

text \<open>
  \<open>s.split(sep)\<close> scans left to right, cutting at each occurrence of \<open>sep\<close>; the
  piece being read is accumulated reversed in \<open>acc\<close>. Every call site of the
  repository passes a non-empty literal separator (Python raises \<open>ValueError\<close> on
  an empty one).
\<close>

function split_from :: "string \<Rightarrow> string \<Rightarrow> string \<Rightarrow> string list" where
  "split_from sep acc [] = [rev acc]"
| "split_from sep acc (c # cs) =
     (if sep \<noteq> [] \<and> take (length sep) (c # cs) = sep
      then rev acc # split_from sep [] (drop (length sep) (c # cs))
      else split_from sep (c # acc) cs)"
  by pat_completeness auto
termination
  by (relation "measure (\<lambda>(sep, acc, s). length s)") auto

definition py_split :: "string \<Rightarrow> string \<Rightarrow> string list" where
  "py_split s sep = split_from sep [] s"

text \<open>\<open>sep.join(xs)\<close>\<close>

fun py_join :: "string \<Rightarrow> string list \<Rightarrow> string" where
  "py_join sep [] = []"
| "py_join sep [x] = x"
| "py_join sep (x # y # ys) = x @ sep @ py_join sep (y # ys)"

text \<open>\<open>xs[i]\<close>: a negative index counts from the end; out of range raises.\<close>

definition py_index :: "'a list \<Rightarrow> int \<Rightarrow> 'a py_result" where
  "py_index xs i =
     (if 0 \<le> i
      then (if nat i < length xs then Inr (xs ! nat i) else Inl IndexError)
      else (if nat (- i) \<le> length xs then Inr (xs ! (length xs - nat (- i))) else Inl IndexError))"

text \<open>\<open>a // b\<close> on Python ints: floor division, \<open>ZeroDivisionError\<close> on zero.\<close>

definition py_floordiv :: "int \<Rightarrow> int \<Rightarrow> int py_result" where
  "py_floordiv a b = (if b = 0 then Inl ZeroDivisionError else Inr (a div b))"

section \<open>Number formatting\<close>

definition hex_digit :: "nat \<Rightarrow> char" where
  "hex_digit d = (if d < 10 then char_of (48 + d) else char_of (87 + d))"

definition hex_value :: "char \<Rightarrow> nat" where
  "hex_value c = (let n = (of_char c :: nat) in if n < 58 then n - 48 else n - 87)"

text \<open>\<open>format(n, 'x')\<close>: lowercase hexadecimal without prefix.\<close>

fun hex_of_nat :: "nat \<Rightarrow> string" where
  "hex_of_nat n = (if n < 16 then [hex_digit n] else hex_of_nat (n div 16) @ [hex_digit (n mod 16)])"

text \<open>\<open>f"{n:0wx}"\<close>: zero-padded on the left to width \<open>w\<close>, never truncated.\<close>

definition fmt_hex_pad :: "nat \<Rightarrow> nat \<Rightarrow> string" where
  "fmt_hex_pad w n = replicate (w - length (hex_of_nat n)) (CHR ''0'') @ hex_of_nat n"

definition read_hex :: "string \<Rightarrow> nat" where
  "read_hex s = foldl (\<lambda>acc c. 16 * acc + hex_value c) 0 s"

text \<open>\<open>s.upper()\<close> on ASCII letters.\<close>

definition py_upper :: "string \<Rightarrow> string" where
  "py_upper s = map (\<lambda>c. let n = (of_char c :: nat) in if 97 \<le> n \<and> n \<le> 122 then char_of (n - 32) else c) s"

text \<open>\<open>str(n)\<close> for a non-negative int.\<close>

fun dec_of_nat :: "nat \<Rightarrow> string" where
  "dec_of_nat n = (if n < 10 then [char_of (48 + n)] else dec_of_nat (n div 10) @ [char_of (48 + n mod 10)])"

text \<open>\<open>str(i)\<close> for any int, and \<open>int(s)\<close> on a string of decimal digits.\<close>

definition py_str_int :: "int \<Rightarrow> string" where
  "py_str_int i = (if i < 0 then CHR ''-'' # dec_of_nat (nat (- i)) else dec_of_nat (nat i))"

definition read_dec :: "string \<Rightarrow> nat" where
  "read_dec s = foldl (\<lambda>acc c. 10 * acc + (of_char c - 48)) 0 s"

declare hex_of_nat.simps [simp del] dec_of_nat.simps [simp del]

section \<open>Lemmas on the built-ins\<close>

lemma split_from_nonempty [simp]: "split_from sep acc s \<noteq> []"
  by (induction sep acc s rule: split_from.induct) auto

lemma py_join_Cons [simp]: "ys \<noteq> [] \<Longrightarrow> py_join sep (x # ys) = x @ sep @ py_join sep ys"
  by (cases ys) auto

lemma join_split_from: "py_join sep (split_from sep acc s) = rev acc @ s"
proof (induction sep acc s rule: split_from.induct)
  case (1 sep acc)
  then show ?case by simp
next
  case (2 sep acc c cs)
  show ?case
  proof (cases "sep \<noteq> [] \<and> take (length sep) (c # cs) = sep")
    case True
    then have "rev acc @ sep @ drop (length sep) (c # cs) = rev acc @ c # cs"
      by (metis append_take_drop_id)
    with True "2.IH"(1) show ?thesis by simp
  next
    case False
    with "2.IH"(2) show ?thesis by auto
  qed
qed

lemma py_in_prefix: "py_in sub (sub @ b)"
proof (cases "sub @ b")
  case Nil
  then show ?thesis by simp
next
  case (Cons x xs)
  then have "take (length sub) (x # xs) = sub" by (metis append_eq_conv_conj)
  with Cons show ?thesis by simp
qed

lemma py_in_iff: "py_in sub s \<longleftrightarrow> (\<exists>a b. s = a @ sub @ b)"
proof (induction s)
  case Nil
  then show ?case by simp
next
  case (Cons c cs)
  show ?case
  proof
    assume "py_in sub (c # cs)"
    then consider "take (length sub) (c # cs) = sub" | "py_in sub cs" by auto
    then show "\<exists>a b. c # cs = a @ sub @ b"
    proof cases
      case 1
      then show ?thesis by (metis append_Nil append_take_drop_id)
    next
      case 2
      with Cons.IH obtain a b where "cs = a @ sub @ b" by blast
      then show ?thesis by (metis append_Cons)
    qed
  next
    assume "\<exists>a b. c # cs = a @ sub @ b"
    then obtain a b where ab: "c # cs = a @ sub @ b" by blast
    show "py_in sub (c # cs)"
    proof (cases a)
      case Nil
      with ab show ?thesis by (simp add: py_in_prefix)
    next
      case (Cons a' as)
      with ab Cons.IH show ?thesis by auto
    qed
  qed
qed

lemma split_from_two_iff:
  "sep \<noteq> [] \<Longrightarrow> (Suc 0 < length (split_from sep acc s)) \<longleftrightarrow> py_in sep s"
proof (induction sep acc s rule: split_from.induct)
  case (1 sep acc)
  then show ?case by simp
next
  case (2 sep acc c cs)
  then show ?case by (cases "take (length sep) (c # cs) = sep") auto
qed

lemma split_from_no_sep:
  "c \<notin> set a \<Longrightarrow> split_from [c] acc a = [rev acc @ a]"
  by (induction a arbitrary: acc) auto

lemma split_from_at_sep:
  "c \<notin> set a \<Longrightarrow> split_from [c] acc (a @ c # b) = (rev acc @ a) # split_from [c] [] b"
  by (induction a arbitrary: acc) auto

lemma hex_value_digit: "d < 16 \<Longrightarrow> hex_value (hex_digit d) = d"
  by (auto simp: hex_value_def hex_digit_def Let_def)

lemma read_hex_snoc: "read_hex (s @ [c]) = 16 * read_hex s + hex_value c"
  by (simp add: read_hex_def)

lemma read_hex_hex_of_nat: "read_hex (hex_of_nat n) = n"
proof (induction n rule: hex_of_nat.induct)
  case (1 n)
  show ?case
  proof (cases "n < 16")
    case True
    then show ?thesis by (simp add: hex_of_nat.simps [of n] read_hex_def hex_value_digit)
  next
    case False
    with "1.IH" show ?thesis
      by (simp add: hex_of_nat.simps [of n] read_hex_snoc hex_value_digit)
  qed
qed

lemma read_hex_zeros: "read_hex (replicate k (CHR ''0'') @ s) = read_hex s"
proof -
  have "foldl (\<lambda>acc c. 16 * acc + hex_value c) 0 (replicate k (CHR ''0'')) = 0"
    by (induction k) (simp_all add: hex_value_def)
  then show ?thesis by (simp add: read_hex_def)
qed

lemma read_hex_fmt_hex_pad: "read_hex (fmt_hex_pad w n) = n"
  by (simp add: fmt_hex_pad_def read_hex_zeros read_hex_hex_of_nat)

lemma length_hex_of_nat: "0 < w \<Longrightarrow> n < 16 ^ w \<Longrightarrow> length (hex_of_nat n) \<le> w"
proof (induction n arbitrary: w rule: hex_of_nat.induct)
  case (1 n)
  show ?case
  proof (cases "n < 16")
    case True
    with "1.prems" show ?thesis by (simp add: hex_of_nat.simps [of n])
  next
    case False
    with "1.prems" obtain v where w: "w = Suc v" and v: "0 < v"
      by (cases w; cases "w = 1") auto
    with "1.prems" have "n div 16 < 16 ^ v" by (simp add: less_mult_imp_div_less mult.commute)
    with "1.IH" False v have "length (hex_of_nat (n div 16)) \<le> v" by simp
    with False w show ?thesis by (simp add: hex_of_nat.simps [of n])
  qed
qed

lemma length_fmt_hex_pad: "0 < w \<Longrightarrow> n < 16 ^ w \<Longrightarrow> length (fmt_hex_pad w n) = w"
  using length_hex_of_nat [of w n] by (simp add: fmt_hex_pad_def)

lemma fmt_hex_pad_inj: "fmt_hex_pad w m = fmt_hex_pad w n \<longleftrightarrow> m = n"
  by (metis read_hex_fmt_hex_pad)

lemma py_strip_id:
  "s = [] \<or> (\<not> py_space (hd s) \<and> \<not> py_space (last s)) \<Longrightarrow> py_strip s = s"
proof -
  assume a: "s = [] \<or> (\<not> py_space (hd s) \<and> \<not> py_space (last s))"
  then have "dropWhile py_space s = s" by (cases s) auto
  moreover from a have "dropWhile py_space (rev s) = rev s" by (cases s rule: rev_cases) auto
  ultimately show ?thesis by (simp add: py_strip_def)
qed

lemma py_in_set: "py_in sub s \<Longrightarrow> set sub \<subseteq> set s"
  by (auto simp: py_in_iff)

lemma py_strip_pad:
  assumes "list_all py_space ws1" "list_all py_space ws2" "x \<noteq> []"
    "\<not> py_space (hd x)" "\<not> py_space (last x)"
  shows "py_strip (ws1 @ x @ ws2) = x"
proof -
  have "dropWhile py_space (ws1 @ x @ ws2) = x @ ws2"
    using assms(1,3,4) by (induction ws1) (auto simp: neq_Nil_conv)
  moreover have "dropWhile py_space (rev x) = rev x"
    using assms(3,5) by (cases x rule: rev_cases) auto
  then have "dropWhile py_space (rev ws2 @ rev x) = rev x"
    using assms(2) by (induction ws2 rule: rev_induct) auto
  ultimately show ?thesis by (simp add: py_strip_def)
qed

lemma read_dec_snoc: "read_dec (s @ [c]) = 10 * read_dec s + (of_char c - 48)"
  by (simp add: read_dec_def)

lemma read_dec_dec_of_nat [simp]: "read_dec (dec_of_nat n) = n"
proof (induction n rule: dec_of_nat.induct)
  case (1 n)
  show ?case
  proof (cases "n < 10")
    case True
    then show ?thesis by (simp add: dec_of_nat.simps read_dec_def)
  next
    case False
    then have "read_dec (dec_of_nat n) = 10 * (n div 10) + n mod 10"
      using "1.IH" by (simp add: dec_of_nat.simps read_dec_snoc)
    then show ?thesis by simp
  qed
qed

lemma dec_of_nat_digits:
  "dec_of_nat n \<noteq> [] \<and> list_all (\<lambda>c. 48 \<le> (of_char c :: nat) \<and> (of_char c :: nat) \<le> 57) (dec_of_nat n)"
proof (induction n rule: dec_of_nat.induct)
  case (1 n)
  then show ?case
    by (cases "n < 10") (simp_all add: dec_of_nat.simps [of n])
qed

lemma str_int_nat [simp]: "py_str_int (int n) = dec_of_nat n"
  by (simp add: py_str_int_def)

lemma split_join:
  "xs \<noteq> [] \<Longrightarrow> \<forall>x \<in> set xs. c \<notin> set x \<Longrightarrow> py_split (py_join [c] xs) [c] = xs"
proof (induction "[c]" xs rule: py_join.induct)
  case 1
  then show ?case by simp
next
  case (2 x)
  then show ?case by (simp add: py_split_def split_from_no_sep)
next
  case (3 x y ys)
  then show ?case by (simp add: py_split_def split_from_at_sep)
qed

lemmas split_char_simps [py_simps] = split_from_no_sep split_from_at_sep

lemma pbind_preturn [simp]: "pbind (preturn a) f = f a"
  by (simp add: pbind_def preturn_def fun_eq_iff)

lemma pbind_praise [simp]: "pbind (praise e) f = praise e"
  by (simp add: pbind_def praise_def fun_eq_iff)

lemma pbind_assoc: "pbind (pbind m f) g = pbind m (\<lambda>a. pbind (f a) g)"
  by (simp add: pbind_def fun_eq_iff split: prod.splits sum.splits)

lemma pbind_apply:
  "pbind m f s = (case m s of (Inl e, s') \<Rightarrow> (Inl e, s') | (Inr a, s') \<Rightarrow> f a s')"
  by (simp add: pbind_def)

lemma pbind_pget [simp]: "pbind (pget f) g s = g (f s) s"
  by (simp add: pbind_def pget_def)

lemma pbind_pmodify [simp]: "pbind (pmodify f) g s = g () (f s)"
  by (simp add: pbind_def pmodify_def)

lemma pbind_Inr: "m s = (Inr a, s') \<Longrightarrow> pbind m f s = f a s'"
  by (simp add: pbind_def)

lemma foldl_count: "foldl (\<lambda>c _. Suc c) n xs = n + length xs"
  by (induction xs arbitrary: n) simp_all

lemma ptry_Inr: "m s = (Inr a, s') \<Longrightarrow> ptry m h s = (Inr a, s')"
  by (simp add: ptry_def)

lemma ptry_Inl: "m s = (Inl e, s') \<Longrightarrow> ptry m h s = h e s'"
  by (simp add: ptry_def)

lemma pbind_Inl: "m s = (Inl e, s') \<Longrightarrow> pbind m f s = (Inl e, s')"
  by (simp add: pbind_def)

lemma preturn_apply [simp]: "preturn a s = (Inr a, s)"
  by (simp add: preturn_def)

lemma praise_apply [simp]: "praise e s = (Inl e, s)"
  by (simp add: praise_def)

lemmas py_monad_simps [py_simps] = pbind_apply preturn_def praise_def pmodify_def pget_def

lemma ptry_handled:
  "\<exists>v s'. ptry f (\<lambda>_. preturn x) s = (Inr v, s')"
proof (cases "f s")
  case (Pair r s1)
  then show ?thesis by (cases r) (simp_all add: ptry_def py_monad_simps)
qed

lemma update_fresh: "k \<notin> set (map fst al) \<Longrightarrow> AList.update k v al = al @ [(k, v)]"
  by (induction al) auto

end
