(* ===== verification/BillSession.thy ===== *)
theory BillSession
  imports Prelude
begin

text \<open>
  The on-chain bill-splitting session that the repository's scripts drive
  (\<open>bill_splitter::create_bill_session\<close>, \<open>confirm_participants\<close>,
  \<open>sign_bill_agreement\<close>, \<open>submit_payment\<close>). The Move contract itself is not part of
  the sources, so this theory follows the specification of the repository: a
  participant registry, a threshold approval tracker and a payment ledger composed
  into one session state machine. Every operation returns either an error of
  \<open>bill_error\<close> or the new session together with the events it emits.
  Expiry is lazy: the wrapper \<open>guarded\<close> checks the clock before the operation.
\<close>

type_synonym ident = string
type_synonym amount = nat
type_synonym time = nat

datatype session_state =
    Draft | AwaitingApproval | AwaitingPayment | Settled | Cancelled | Expired

datatype bill_error =
    DuplicateParticipant | InvalidAmount | NotFound | SessionLocked
  | InsufficientParticipants | CapacityExceeded | NotAParticipant | AlreadyApproved
  | WrongState | InvalidSignatureThreshold | AlreadyConfirmed | SessionExpired
  | DuplicateSessionId | TransferFailed

record participant =
  identity :: ident
  display_name :: string
  owed_amount :: amount
  has_approved :: bool
  paid_amount :: amount

record bill_session =
  session_id :: string
  description :: string
  total_amount :: amount
  participants :: "participant list"
  required_signatures :: nat
  state :: session_state
  created_at :: time
  expires_at :: time
  approvals_count :: nat
  payments_total :: amount

datatype event_kind =
    EvSessionCreated | EvSessionConfirmed | EvParticipantApproved ident | EvQuorumReached
  | EvPaymentRecorded ident amount | EvSessionSettled | EvSessionCancelled | EvSessionExpired

type_synonym step_result = "bill_error + (bill_session \<times> event_kind list)"

section \<open>Participant registry\<close>

definition max_participants :: nat where
  "max_participants = 100"

definition is_participant :: "ident \<Rightarrow> bill_session \<Rightarrow> bool" where
  "is_participant i s = list_ex (\<lambda>p. identity p = i) (participants s)"

definition find_participant :: "ident \<Rightarrow> bill_session \<Rightarrow> participant option" where
  "find_participant i s = find (\<lambda>p. identity p = i) (participants s)"

definition total_owed :: "bill_session \<Rightarrow> amount" where
  "total_owed s = sum_list (map owed_amount (participants s))"

definition aggregate_paid :: "bill_session \<Rightarrow> amount" where
  "aggregate_paid s = sum_list (map paid_amount (participants s))"

definition approvals :: "bill_session \<Rightarrow> nat" where
  "approvals s = length (filter has_approved (participants s))"

definition update_participant ::
  "ident \<Rightarrow> (participant \<Rightarrow> participant) \<Rightarrow> participant list \<Rightarrow> participant list" where
  "update_participant i f ps = map (\<lambda>p. if identity p = i then f p else p) ps"

definition new_session :: "string \<Rightarrow> string \<Rightarrow> nat \<Rightarrow> time \<Rightarrow> time \<Rightarrow> bill_session" where
  "new_session sid desc req now exp =
     \<lparr>session_id = sid, description = desc, total_amount = 0, participants = [],
      required_signatures = req, state = Draft, created_at = now, expires_at = exp,
      approvals_count = 0, payments_total = 0\<rparr>"

definition add_participant :: "ident \<Rightarrow> string \<Rightarrow> amount \<Rightarrow> bill_session \<Rightarrow> step_result" where
  "add_participant i name amt s =
     (if state s \<noteq> Draft then Inl SessionLocked
      else if amt = 0 then Inl InvalidAmount
      else if is_participant i s then Inl DuplicateParticipant
      else if max_participants \<le> length (participants s) then Inl CapacityExceeded
      else Inr (s\<lparr>participants := participants s @
                   [\<lparr>identity = i, display_name = name, owed_amount = amt,
                     has_approved = False, paid_amount = 0\<rparr>]\<rparr>, []))"

definition remove_participant :: "ident \<Rightarrow> bill_session \<Rightarrow> step_result" where
  "remove_participant i s =
     (if state s \<noteq> Draft then Inl SessionLocked
      else if \<not> is_participant i s then Inl NotFound
      else Inr (s\<lparr>participants := filter (\<lambda>p. identity p \<noteq> i) (participants s)\<rparr>, []))"

section \<open>Confirmation\<close>

definition confirm_session :: "bill_session \<Rightarrow> step_result" where
  "confirm_session s =
     (let n = length (participants s) in
      if state s \<noteq> Draft then Inl AlreadyConfirmed
      else if n < 2 then Inl InsufficientParticipants
      else if required_signatures s < 1 \<or> n < required_signatures s
        then Inl InvalidSignatureThreshold
      else Inr (s\<lparr>state := AwaitingApproval, total_amount := total_owed s\<rparr>,
                [EvSessionConfirmed]))"

section \<open>Threshold approval tracker\<close>

definition quorum_reached :: "bill_session \<Rightarrow> bool" where
  "quorum_reached s = (required_signatures s \<le> approvals_count s)"

definition record_approval :: "ident \<Rightarrow> bill_session \<Rightarrow> step_result" where
  "record_approval i s =
     (case find_participant i s of
        None \<Rightarrow> Inl NotAParticipant
      | Some p \<Rightarrow>
          if has_approved p then Inl AlreadyApproved
          else if state s \<noteq> AwaitingApproval then Inl WrongState
          else
            (let s' = s\<lparr>participants := update_participant i (\<lambda>q. q\<lparr>has_approved := True\<rparr>)
                                           (participants s),
                        approvals_count := Suc (approvals_count s)\<rparr>
             in if quorum_reached s'
                then Inr (s'\<lparr>state := AwaitingPayment\<rparr>,
                          [EvParticipantApproved i, EvQuorumReached])
                else Inr (s', [EvParticipantApproved i])))"

section \<open>Payment ledger\<close>

definition record_payment :: "ident \<Rightarrow> amount \<Rightarrow> bill_session \<Rightarrow> step_result" where
  "record_payment i amt s =
     (if \<not> is_participant i s then Inl NotAParticipant
      else if amt = 0 then Inl InvalidAmount
      else if state s \<noteq> AwaitingPayment then Inl WrongState
      else
        (let s' = s\<lparr>participants := update_participant i
                                       (\<lambda>q. q\<lparr>paid_amount := paid_amount q + amt\<rparr>)
                                       (participants s),
                    payments_total := payments_total s + amt\<rparr>
         in if total_amount s' \<le> payments_total s'
            then Inr (s'\<lparr>state := Settled\<rparr>, [EvPaymentRecorded i amt, EvSessionSettled])
            else Inr (s', [EvPaymentRecorded i amt])))"

definition overpaid :: "ident \<Rightarrow> amount \<Rightarrow> bill_session \<Rightarrow> bool" where
  "overpaid i amt s =
     (case find_participant i s of
        None \<Rightarrow> False
      | Some p \<Rightarrow> owed_amount p < paid_amount p + amt)"

section \<open>Cancellation and lazy expiry\<close>

definition cancel_session :: "bill_session \<Rightarrow> step_result" where
  "cancel_session s =
     (if state s = Draft \<or> state s = AwaitingApproval
      then Inr (s\<lparr>state := Cancelled\<rparr>, [EvSessionCancelled])
      else Inl WrongState)"

definition terminal :: "session_state \<Rightarrow> bool" where
  "terminal st = (st = Settled \<or> st = Cancelled \<or> st = Expired)"

definition expired_at :: "time \<Rightarrow> bill_session \<Rightarrow> bool" where
  "expired_at now s = (\<not> terminal (state s) \<and> expires_at s \<le> now)"

text \<open>
  Every operation on a session goes through \<open>guarded\<close>: an expired non-terminal
  session is moved to \<open>Expired\<close> (emitting one event) and the operation is refused;
  otherwise the operation runs, and a refused operation leaves the session as it was.
\<close>

definition guarded ::
  "time \<Rightarrow> (bill_session \<Rightarrow> step_result) \<Rightarrow> bill_session
     \<Rightarrow> (bill_error + unit) \<times> bill_session \<times> event_kind list" where
  "guarded now f s =
     (if expired_at now s then (Inl SessionExpired, s\<lparr>state := Expired\<rparr>, [EvSessionExpired])
      else case f s of
             Inl e \<Rightarrow> (Inl e, s, [])
           | Inr (s', evs) \<Rightarrow> (Inr (), s', evs))"

section \<open>The session invariant\<close>

text \<open>
  The cached counters equal their recomputation from the participants, identities are
  unique, every owed amount is positive, the registry is within capacity, and each
  lifecycle state carries its own conditions: after confirmation the total is the sum
  of owed amounts and the threshold lies in \<open>[1, n]\<close>; the quorum is met exactly
  from \<open>AwaitingPayment\<close> on; the aggregate reaches the total exactly in \<open>Settled\<close>.
\<close>

definition counters_ok :: "bill_session \<Rightarrow> bool" where
  "counters_ok s = (approvals_count s = approvals s \<and> payments_total s = aggregate_paid s)"

definition frozen_ok :: "bill_session \<Rightarrow> bool" where
  "frozen_ok s =
     (total_amount s = total_owed s \<and> 2 \<le> length (participants s)
      \<and> 1 \<le> required_signatures s \<and> required_signatures s \<le> length (participants s))"

definition phase_ok :: "bill_session \<Rightarrow> bool" where
  "phase_ok s =
     (case state s of
        Draft \<Rightarrow> approvals_count s = 0 \<and> payments_total s = 0
      | AwaitingApproval \<Rightarrow> frozen_ok s \<and> approvals_count s < required_signatures s
                            \<and> payments_total s = 0
      | AwaitingPayment \<Rightarrow> frozen_ok s \<and> required_signatures s \<le> approvals_count s
                           \<and> payments_total s < total_amount s
      | Settled \<Rightarrow> frozen_ok s \<and> required_signatures s \<le> approvals_count s
                   \<and> total_amount s \<le> payments_total s
      | Cancelled \<Rightarrow> payments_total s = 0
      | Expired \<Rightarrow> payments_total s = 0 \<or> payments_total s < total_amount s)"

definition wf_session :: "bill_session \<Rightarrow> bool" where
  "wf_session s =
     (distinct (map identity (participants s))
      \<and> list_all (\<lambda>p. 0 < owed_amount p) (participants s)
      \<and> length (participants s) \<le> max_participants
      \<and> counters_ok s \<and> phase_ok s)"

section \<open>Lemmas\<close>

lemmas wf_defs = wf_session_def counters_ok_def phase_ok_def
lemmas derived_defs = approvals_def aggregate_paid_def total_owed_def

lemma find_participant_Some:
  "find_participant i s = Some p \<Longrightarrow> p \<in> set (participants s) \<and> identity p = i"
  by (auto simp: find_participant_def find_Some_iff)

lemma is_participant_find:
  "is_participant i s \<longleftrightarrow> find_participant i s \<noteq> None"
  by (auto simp: is_participant_def find_participant_def list_ex_iff find_None_iff)

lemma update_participant_map:
  "(\<And>p. g (f p) = g p) \<Longrightarrow> map g (update_participant i f ps) = map g ps"
  by (induction ps) (auto simp: update_participant_def)

lemma update_participant_list_all:
  "(\<And>p. P (f p) = P p) \<Longrightarrow> list_all P (update_participant i f ps) = list_all P ps"
  by (induction ps) (auto simp: update_participant_def)

lemma update_participant_filter:
  "(\<And>p. P (f p) = P p) \<Longrightarrow> length (filter P (update_participant i f ps)) = length (filter P ps)"
  by (induction ps) (auto simp: update_participant_def)

lemma update_participant_other:
  "(\<And>q. identity (f q) = identity q) \<Longrightarrow> p \<in> set (update_participant i f ps) \<Longrightarrow> identity p \<noteq> i
   \<Longrightarrow> p \<in> set ps"
  by (induction ps) (auto simp: update_participant_def split: if_splits)

lemma update_participant_sum:
  fixes g :: "participant \<Rightarrow> nat"
  assumes "distinct (map identity ps)" "p \<in> set ps" "identity p = i"
  shows "sum_list (map g (update_participant i f ps)) + g p = sum_list (map g ps) + g (f p)"
  using assms
proof (induction ps)
  case Nil
  then show ?case by simp
next
  case (Cons q qs)
  show ?case
  proof (cases "q = p")
    case True
    with Cons.prems have "\<forall>r \<in> set qs. identity r \<noteq> i" by (force simp: image_iff)
    then have "update_participant i f qs = qs"
      by (induction qs) (auto simp: update_participant_def)
    with True Cons.prems show ?thesis by (simp add: update_participant_def add_ac)
  next
    case False
    with Cons.prems have "identity q \<noteq> i" by auto
    with False Cons.prems Cons.IH show ?thesis by (simp add: update_participant_def)
  qed
qed

lemma owed_positive_sum:
  "list_all (\<lambda>p. 0 < owed_amount p) ps \<Longrightarrow> ps \<noteq> [] \<Longrightarrow> 0 < sum_list (map owed_amount ps)"
  by (cases ps) auto

lemma approvals_update:
  assumes "distinct (map identity (participants s))" "find_participant i s = Some p"
    "\<not> has_approved p"
  shows "length (filter has_approved
            (update_participant i (\<lambda>q. q\<lparr>has_approved := True\<rparr>) (participants s)))
         = Suc (approvals s)"
proof -
  let ?g = "\<lambda>x. if has_approved x then 1 else (0::nat)"
  have cnt: "length (filter has_approved xs) = sum_list (map ?g xs)" for xs :: "participant list"
    by (induction xs) auto
  from assms find_participant_Some [OF assms(2)]
  have "sum_list (map ?g (update_participant i (\<lambda>q. q\<lparr>has_approved := True\<rparr>) (participants s))) + 0
        = sum_list (map ?g (participants s)) + 1"
    using update_participant_sum [of "participants s" p i ?g] by fastforce
  then show ?thesis by (simp add: approvals_def cnt)
qed

lemma add_participant_wf:
  "wf_session s \<Longrightarrow> add_participant i n a s = Inr (s', evs) \<Longrightarrow> wf_session s'"
  by (auto simp: add_participant_def wf_defs approvals_def aggregate_paid_def
      is_participant_def list_ex_iff split: if_splits)

lemma remove_participant_wf:
  assumes wf: "wf_session s" and ok: "remove_participant i s = Inr (s', evs)"
  shows "wf_session s'"
proof -
  let ?ps = "filter (\<lambda>p. identity p \<noteq> i) (participants s)"
  from ok have st: "state s = Draft" and s': "s' = s\<lparr>participants := ?ps\<rparr>"
    by (auto simp: remove_participant_def split: if_splits)
  from wf st have "\<forall>p \<in> set (participants s). \<not> has_approved p \<and> paid_amount p = 0"
    by (auto simp: wf_defs derived_defs filter_empty_conv)
  then have "approvals s' = 0 \<and> aggregate_paid s' = 0"
    by (simp add: s' derived_defs filter_empty_conv)
  moreover from wf have "length (participants s) \<le> max_participants" by (simp add: wf_session_def)
  then have "length ?ps \<le> max_participants" by (rule le_trans [OF length_filter_le])
  ultimately show ?thesis
    using wf st by (auto simp: s' wf_defs distinct_map_filter list_all_iff)
qed

lemma confirm_session_wf:
  "wf_session s \<Longrightarrow> confirm_session s = Inr (s', evs) \<Longrightarrow> wf_session s'"
  by (auto simp: confirm_session_def wf_defs frozen_ok_def derived_defs Let_def split: if_splits)

lemma record_approval_wf:
  assumes wf: "wf_session s" and ok: "record_approval i s = Inr (s', evs)"
  shows "wf_session s'"
proof -
  from ok obtain p where p: "find_participant i s = Some p" and np: "\<not> has_approved p"
    and st: "state s = AwaitingApproval"
    by (auto simp: record_approval_def split: option.splits if_splits)
  let ?ps = "update_participant i (\<lambda>q. q\<lparr>has_approved := True\<rparr>) (participants s)"
  have ids: "map identity ?ps = map identity (participants s)"
    and owed: "map owed_amount ?ps = map owed_amount (participants s)"
    and paid: "map paid_amount ?ps = map paid_amount (participants s)"
    by (simp_all add: update_participant_map)
  from wf have "distinct (map identity (participants s))" by (simp add: wf_session_def)
  from approvals_update [OF this p np]
  have cnt: "length (filter has_approved ?ps) = Suc (approvals s)" .
  from wf st have "participants s \<noteq> []" by (auto simp: wf_defs frozen_ok_def)
  with wf have pos: "0 < total_owed s"
    using owed_positive_sum [of "participants s"] by (simp add: wf_session_def total_owed_def)
  have lst: "list_all (\<lambda>p. 0 < owed_amount p) ?ps = list_all (\<lambda>p. 0 < owed_amount p) (participants s)"
    by (rule update_participant_list_all) simp
  define s1 where "s1 = s\<lparr>participants := ?ps, approvals_count := Suc (approvals_count s)\<rparr>"
  have cases: "(quorum_reached s1 \<and> s' = s1\<lparr>state := AwaitingPayment\<rparr>) \<or> (\<not> quorum_reached s1 \<and> s' = s1)"
    using ok p np st by (auto simp: record_approval_def s1_def Let_def split: if_splits)
  have len: "length ?ps = length (participants s)"
    by (simp add: update_participant_def)
  have base: "distinct (map identity (participants s1)) \<and> list_all (\<lambda>p. 0 < owed_amount p) (participants s1)
      \<and> length (participants s1) \<le> max_participants \<and> counters_ok s1"
    using wf ids lst cnt paid len by (simp add: s1_def wf_defs derived_defs)
  have fr: "frozen_ok s1"
    using wf st owed len by (simp add: s1_def wf_defs frozen_ok_def total_owed_def)
  have tot: "total_amount s1 = total_owed s" and pay0: "payments_total s1 = 0"
    using wf st by (simp_all add: s1_def wf_defs frozen_ok_def)
  have st1: "state s1 = AwaitingApproval" by (simp add: s1_def st)
  from cases show ?thesis
  proof
    assume a: "quorum_reached s1 \<and> s' = s1\<lparr>state := AwaitingPayment\<rparr>"
    with base fr tot pay0 pos show ?thesis
      by (simp add: wf_defs frozen_ok_def derived_defs quorum_reached_def)
  next
    assume a: "\<not> quorum_reached s1 \<and> s' = s1"
    with base fr pay0 st1 show ?thesis
      by (simp add: wf_session_def phase_ok_def quorum_reached_def)
  qed
qed

lemma record_payment_wf:
  assumes wf: "wf_session s" and ok: "record_payment i amt s = Inr (s', evs)"
  shows "wf_session s'"
proof -
  from ok obtain p where p: "find_participant i s = Some p" and st: "state s = AwaitingPayment"
    by (auto simp: record_payment_def is_participant_find split: if_splits)
  let ?ps = "update_participant i (\<lambda>q. q\<lparr>paid_amount := paid_amount q + amt\<rparr>) (participants s)"
  define s1 where "s1 = s\<lparr>participants := ?ps, payments_total := payments_total s + amt\<rparr>"
  have cases: "(total_amount s1 \<le> payments_total s1 \<and> s' = s1\<lparr>state := Settled\<rparr>)
      \<or> (\<not> total_amount s1 \<le> payments_total s1 \<and> s' = s1)"
    using ok p st by (auto simp: record_payment_def s1_def Let_def split: if_splits)
  have ids: "map identity ?ps = map identity (participants s)"
    and owed: "map owed_amount ?ps = map owed_amount (participants s)"
    and appr: "length (filter has_approved ?ps) = length (filter has_approved (participants s))"
    by (simp_all add: update_participant_map update_participant_filter)
  have len: "length ?ps = length (participants s)"
    by (simp add: update_participant_def)
  have lst: "list_all (\<lambda>p. 0 < owed_amount p) ?ps = list_all (\<lambda>p. 0 < owed_amount p) (participants s)"
    by (rule update_participant_list_all) simp
  from wf have dist: "distinct (map identity (participants s))" by (simp add: wf_session_def)
  have paid: "aggregate_paid s1 = aggregate_paid s + amt"
    using update_participant_sum [OF dist find_participant_Some [OF p, THEN conjunct1]
        find_participant_Some [OF p, THEN conjunct2], where g = paid_amount
        and f = "\<lambda>q. q\<lparr>paid_amount := paid_amount q + amt\<rparr>"]
    by (simp add: s1_def aggregate_paid_def)
  have base: "distinct (map identity (participants s1)) \<and> list_all (\<lambda>p. 0 < owed_amount p) (participants s1)
      \<and> length (participants s1) \<le> max_participants \<and> counters_ok s1"
    using wf ids lst len paid appr by (simp add: s1_def wf_defs approvals_def)
  have fr: "frozen_ok s1" and q: "required_signatures s1 \<le> approvals_count s1"
    using wf st owed len by (simp_all add: s1_def wf_defs frozen_ok_def total_owed_def)
  from cases show ?thesis
  proof
    assume "total_amount s1 \<le> payments_total s1 \<and> s' = s1\<lparr>state := Settled\<rparr>"
    with base fr q show ?thesis by (simp add: wf_defs frozen_ok_def derived_defs)
  next
    assume "\<not> total_amount s1 \<le> payments_total s1 \<and> s' = s1"
    with base fr q st show ?thesis by (simp add: wf_session_def phase_ok_def s1_def)
  qed
qed

lemma cancel_session_wf:
  "wf_session s \<Longrightarrow> cancel_session s = Inr (s', evs) \<Longrightarrow> wf_session s'"
  by (auto simp: cancel_session_def wf_defs derived_defs frozen_ok_def split: if_splits)

lemma expire_wf:
  "wf_session s \<Longrightarrow> \<not> terminal (state s) \<Longrightarrow> wf_session (s\<lparr>state := Expired\<rparr>)"
  by (cases "state s") (auto simp: wf_defs derived_defs terminal_def)

lemma guarded_wf:
  assumes f: "\<And>s' evs. f s = Inr (s', evs) \<Longrightarrow> wf_session s'"
    and wf: "wf_session s" and g: "guarded now f s = (r, s', evs)"
  shows "wf_session s'"
  using g f wf expire_wf [OF wf]
  by (auto simp: guarded_def expired_at_def split: if_splits sum.splits prod.splits)

lemma wf_total_pos:
  assumes "wf_session s" "frozen_ok s"
  shows "0 < total_amount s"
proof -
  from assms(2) have "participants s \<noteq> []" by (auto simp: frozen_ok_def)
  with assms show ?thesis
    using owed_positive_sum [of "participants s"] by (simp add: wf_session_def frozen_ok_def total_owed_def)
qed

end
