(* ===== verification/SessionRegistry.thy ===== *)
theory SessionRegistry
  imports BillSession
begin

text \<open>
  The process-wide store of sessions keyed by session identifier. Every request names
  the session it addresses; the registry routes it through \<open>guarded\<close> to the
  session operation, stores the resulting session, appends the emitted events (stamped
  with the session id and the time) to its event log, and records an overpayment
  warning when a payment takes a participant above what they owe. The external ledger
  transfer of \<open>record_payment\<close> is the collaborator \<open>transfer_fn\<close>; when it fails the
  payment is refused with \<open>TransferFailed\<close> and nothing changes. Reachable registries
  are the inductive closure of the empty registry under \<open>registry_step\<close>.
\<close>

record event =
  ev_session :: string
  ev_time :: time
  ev_kind :: event_kind

record registry =
  sessions :: "string \<rightharpoonup> bill_session"
  events :: "event list"
  warnings :: "(string \<times> ident) list"
  allow_reuse :: bool

datatype request =
    CreateSession string string nat time
  | AddParticipant string ident string amount
  | RemoveParticipant string ident
  | ConfirmSession string
  | RecordApproval string ident
  | RecordPayment string ident amount
  | CancelSession string

type_synonym transfer_fn = "string \<Rightarrow> ident \<Rightarrow> amount \<Rightarrow> bool"

fun request_sid :: "request \<Rightarrow> string" where
  "request_sid (CreateSession sid _ _ _) = sid"
| "request_sid (AddParticipant sid _ _ _) = sid"
| "request_sid (RemoveParticipant sid _) = sid"
| "request_sid (ConfirmSession sid) = sid"
| "request_sid (RecordApproval sid _) = sid"
| "request_sid (RecordPayment sid _ _) = sid"
| "request_sid (CancelSession sid) = sid"

fun session_op :: "transfer_fn \<Rightarrow> request \<Rightarrow> bill_session \<Rightarrow> step_result" where
  "session_op xfer (CreateSession _ _ _ _) s = Inl DuplicateSessionId"
| "session_op xfer (AddParticipant _ i name amt) s = add_participant i name amt s"
| "session_op xfer (RemoveParticipant _ i) s = remove_participant i s"
| "session_op xfer (ConfirmSession _) s = confirm_session s"
| "session_op xfer (RecordApproval _ i) s = record_approval i s"
| "session_op xfer (RecordPayment sid i amt) s =
     (case record_payment i amt s of
        Inl e \<Rightarrow> Inl e
      | Inr r \<Rightarrow> if xfer sid i amt then Inr r else Inl TransferFailed)"
| "session_op xfer (CancelSession _) s = cancel_session s"

definition empty_registry :: "bool \<Rightarrow> registry" where
  "empty_registry reuse = \<lparr>sessions = Map.empty, events = [], warnings = [], allow_reuse = reuse\<rparr>"

definition stamp :: "string \<Rightarrow> time \<Rightarrow> event_kind list \<Rightarrow> event list" where
  "stamp sid now ks = map (\<lambda>k. \<lparr>ev_session = sid, ev_time = now, ev_kind = k\<rparr>) ks"

definition create_session ::
  "time \<Rightarrow> string \<Rightarrow> string \<Rightarrow> nat \<Rightarrow> time \<Rightarrow> registry \<Rightarrow> (bill_error + unit) \<times> registry" where
  "create_session now sid desc req exp r =
     (let fresh = (case sessions r sid of
                     None \<Rightarrow> True
                   | Some s \<Rightarrow> terminal (state s) \<and> allow_reuse r)
      in if \<not> fresh then (Inl DuplicateSessionId, r)
         else (Inr (), r\<lparr>sessions := (sessions r)(sid \<mapsto> new_session sid desc req now exp),
                         events := events r @ stamp sid now [EvSessionCreated]\<rparr>))"

definition payment_warnings ::
  "request \<Rightarrow> bill_session \<Rightarrow> bill_error + unit \<Rightarrow> (string \<times> ident) list" where
  "payment_warnings q s res =
     (if res = Inr ()
      then (case q of
              RecordPayment sid i amt \<Rightarrow> if overpaid i amt s then [(sid, i)] else []
            | _ \<Rightarrow> [])
      else [])"

definition registry_step ::
  "transfer_fn \<Rightarrow> time \<Rightarrow> request \<Rightarrow> registry \<Rightarrow> (bill_error + unit) \<times> registry" where
  "registry_step xfer now q r =
     (case q of
        CreateSession sid desc req exp \<Rightarrow> create_session now sid desc req exp r
      | _ \<Rightarrow>
          (let sid = request_sid q in
           case sessions r sid of
             None \<Rightarrow> (Inl NotFound, r)
           | Some s \<Rightarrow>
               (case guarded now (session_op xfer q) s of
                  (res, s', evs) \<Rightarrow>
                    (res, r\<lparr>sessions := (sessions r)(sid \<mapsto> s'),
                           events := events r @ stamp sid now evs,
                           warnings := warnings r @ payment_warnings q s res\<rparr>))))"

text \<open>\<open>get_session_view\<close>: a read, also subject to the lazy expiry check.\<close>

definition get_session_view ::
  "time \<Rightarrow> string \<Rightarrow> registry \<Rightarrow> (bill_error + bill_session) \<times> registry" where
  "get_session_view now sid r =
     (case sessions r sid of
        None \<Rightarrow> (Inl NotFound, r)
      | Some s \<Rightarrow>
          if expired_at now s
          then (Inl SessionExpired,
                r\<lparr>sessions := (sessions r)(sid \<mapsto> s\<lparr>state := Expired\<rparr>),
                  events := events r @ stamp sid now [EvSessionExpired]\<rparr>)
          else (Inr s, r))"

fun run_requests ::
  "transfer_fn \<Rightarrow> (time \<times> request) list \<Rightarrow> registry \<Rightarrow> (bill_error + unit) list \<times> registry" where
  "run_requests xfer [] r = ([], r)"
| "run_requests xfer ((now, q) # qs) r =
     (case registry_step xfer now q r of
        (res, r') \<Rightarrow> (case run_requests xfer qs r' of (ress, r'') \<Rightarrow> (res # ress, r'')))"

inductive reachable :: "transfer_fn \<Rightarrow> registry \<Rightarrow> bool" for xfer where
  init: "reachable xfer (empty_registry reuse)"
| step: "reachable xfer r \<Longrightarrow> reachable xfer (snd (registry_step xfer now q r))"

section \<open>Derived notions\<close>

definition registry_wf :: "registry \<Rightarrow> bool" where
  "registry_wf r = (\<forall>s \<in> ran (sessions r). wf_session s)"

text \<open>Events that mark a lifecycle transition, as opposed to the per-participant
  notifications \<open>ParticipantApproved\<close> and \<open>PaymentRecorded\<close>.\<close>

fun transition_event :: "event_kind \<Rightarrow> bool" where
  "transition_event (EvParticipantApproved _) = False"
| "transition_event (EvPaymentRecorded _ _) = False"
| "transition_event _ = True"

fun is_create :: "request \<Rightarrow> bool" where
  "is_create (CreateSession _ _ _ _) = True"
| "is_create _ = False"

section \<open>Invariant of reachable registries\<close>

lemma new_session_wf: "wf_session (new_session sid desc req now exp)"
  by (simp add: new_session_def wf_defs derived_defs)

lemma session_op_wf:
  assumes wf: "wf_session s" and ok: "session_op xfer q s = Inr (s', evs)"
  shows "wf_session s'"
proof (cases q)
  case (CreateSession sid desc req exp)
  with ok show ?thesis by simp
next
  case (AddParticipant sid i n a)
  with ok show ?thesis using add_participant_wf [OF wf] by simp
next
  case (RemoveParticipant sid i)
  with ok show ?thesis using remove_participant_wf [OF wf] by simp
next
  case (ConfirmSession sid)
  with ok show ?thesis using confirm_session_wf [OF wf] by simp
next
  case (RecordApproval sid i)
  with ok show ?thesis using record_approval_wf [OF wf] by simp
next
  case (RecordPayment sid i amt)
  with ok have "record_payment i amt s = Inr (s', evs)"
    by (simp split: sum.splits if_splits)
  then show ?thesis by (rule record_payment_wf [OF wf])
next
  case (CancelSession sid)
  with ok show ?thesis using cancel_session_wf [OF wf] by simp
qed

lemma registry_wf_sessions:
  "sessions r' = (sessions r)(sid \<mapsto> s) \<Longrightarrow> registry_wf r \<Longrightarrow> wf_session s \<Longrightarrow> registry_wf r'"
  by (auto simp: registry_wf_def ran_def)

lemma create_session_cases:
  "snd (create_session now sid desc req exp r) = r
   \<or> sessions (snd (create_session now sid desc req exp r)) = (sessions r)(sid \<mapsto> new_session sid desc req now exp)"
  by (auto simp: create_session_def Let_def)

lemma registry_step_wf:
  assumes "registry_wf r"
  shows "registry_wf (snd (registry_step xfer now q r))"
proof (cases "\<exists>sid desc req exp. q = CreateSession sid desc req exp")
  case True
  then obtain sid desc req exp where q: "q = CreateSession sid desc req exp" by blast
  from create_session_cases [of now sid desc req exp r] assms
  show ?thesis
    by (auto simp: q registry_step_def intro: registry_wf_sessions new_session_wf)
next
  case False
  show ?thesis
  proof (cases "sessions r (request_sid q)")
    case None
    with False assms show ?thesis by (cases q) (auto simp: registry_step_def)
  next
    case (Some s)
    with assms have wf: "wf_session s" by (auto simp: registry_wf_def ran_def)
    obtain res s' evs where g: "guarded now (session_op xfer q) s = (res, s', evs)"
      by (metis prod_cases3)
    have "wf_session s'"
      by (rule guarded_wf [OF _ wf g]) (rule session_op_wf [OF wf])
    have "sessions (snd (registry_step xfer now q r)) = (sessions r)(request_sid q \<mapsto> s')"
      using False Some g by (cases q) (auto simp: registry_step_def)
    from registry_wf_sessions [OF this assms \<open>wf_session s'\<close>] show ?thesis .
  qed
qed

lemma reachable_registry_wf: "reachable xfer r \<Longrightarrow> registry_wf r"
proof (induction rule: reachable.induct)
  case (init reuse)
  then show ?case by (simp add: registry_wf_def empty_registry_def)
next
  case (step r now q)
  from step.IH show ?case by (rule registry_step_wf)
qed

lemma reachable_wf_session:
  "reachable xfer r \<Longrightarrow> sessions r sid = Some s \<Longrightarrow> wf_session s"
  using reachable_registry_wf by (auto simp: registry_wf_def ran_def)

lemma guarded_refused:
  "guarded now f s = (Inl e, s', evs) \<Longrightarrow> e \<noteq> SessionExpired \<Longrightarrow> s' = s \<and> evs = []"
  by (auto simp: guarded_def split: if_splits sum.splits prod.splits)

theorem refused_request_leaves_registry:
  assumes "registry_step xfer now q r = (Inl e, r')" "e \<noteq> SessionExpired"
  shows "r' = r"
proof (cases "\<exists>sid desc req exp. q = CreateSession sid desc req exp")
  case True
  with assms show ?thesis
    by (auto simp: registry_step_def create_session_def Let_def split: if_splits)
next
  case False
  show ?thesis
  proof (cases "sessions r (request_sid q)")
    case None
    with False assms show ?thesis by (cases q) (auto simp: registry_step_def)
  next
    case (Some s)
    obtain res s' evs where g: "guarded now (session_op xfer q) s = (res, s', evs)"
      by (metis prod_cases3)
    with assms False Some have "res = Inl e"
      by (cases q) (auto simp: registry_step_def)
    with g assms(2) have "s' = s \<and> evs = []" by (simp add: guarded_refused)
    with False Some g assms show ?thesis
      by (cases q) (auto simp: registry_step_def payment_warnings_def map_upd_triv stamp_def)
  qed
qed

lemma registry_step_other:
  "request_sid q \<noteq> sid \<Longrightarrow> sessions (snd (registry_step xfer now q r)) sid = sessions r sid"
  by (cases q) (auto simp: registry_step_def create_session_def Let_def
      split: option.splits prod.splits)


theorem other_sessions_untouched:
  assumes "request_sid q \<noteq> sid"
  shows "sessions (snd (registry_step xfer now q r)) sid = sessions r sid
         \<and> filter (\<lambda>e. ev_session e = sid) (events (snd (registry_step xfer now q r)))
           = filter (\<lambda>e. ev_session e = sid) (events r)"
proof
  from assms show "sessions (snd (registry_step xfer now q r)) sid = sessions r sid"
    by (rule registry_step_other)
  have "filter (\<lambda>e. ev_session e = sid) (stamp (request_sid q) now ks) = []" for ks
    using assms by (simp add: stamp_def filter_empty_conv)
  with assms show "filter (\<lambda>e. ev_session e = sid) (events (snd (registry_step xfer now q r)))
           = filter (\<lambda>e. ev_session e = sid) (events r)"
    by (cases q) (auto simp: registry_step_def create_session_def Let_def
        split: option.splits prod.splits)
qed

section \<open>Properties of the registry\<close>

lemma snd_run_requests_Cons:
  "snd (run_requests xfer ((now, q) # qs) r) = snd (run_requests xfer qs (snd (registry_step xfer now q r)))"
  by (cases "registry_step xfer now q r", cases "run_requests xfer qs (snd (registry_step xfer now q r))") simp

lemma run_requests_reachable:
  "reachable xfer r \<Longrightarrow> reachable xfer (snd (run_requests xfer qs r))"
proof (induction qs arbitrary: r)
  case Nil
  then show ?case by simp
next
  case (Cons a qs)
  obtain now q where a: "a = (now, q)" by (cases a)
  from Cons.prems have "reachable xfer (snd (registry_step xfer now q r))" by (rule reachable.step)
  then have "reachable xfer (snd (run_requests xfer qs (snd (registry_step xfer now q r))))" by (rule Cons.IH)
  then show ?case by (simp only: a snd_run_requests_Cons)
qed

lemma session_op_quorum:
  "session_op xfer q s = Inr (s', evs) \<Longrightarrow>
   required_signatures s' = required_signatures s \<and> approvals_count s \<le> approvals_count s'"
  by (cases q) (auto simp: add_participant_def remove_participant_def confirm_session_def
      record_approval_def record_payment_def cancel_session_def Let_def
      split: if_splits option.splits sum.splits)

lemma guarded_quorum:
  "guarded now (session_op xfer q) s = (res, s', evs) \<Longrightarrow>
   required_signatures s' = required_signatures s \<and> approvals_count s \<le> approvals_count s'"
  using session_op_quorum [of xfer q s]
  by (auto simp: guarded_def split: if_splits sum.splits prod.splits)

theorem reachable_counters_consistent:
  assumes "reachable xfer r" and "sessions r sid = Some s"
  shows "approvals_count s = approvals s \<and> payments_total s = aggregate_paid s"
  using reachable_wf_session [OF assms] by (simp add: wf_defs)

theorem reachable_settled_iff_paid:
  assumes "reachable xfer r" and "sessions r sid = Some s"
    and "state s \<in> {AwaitingApproval, AwaitingPayment, Settled}"
  shows "state s = Settled \<longleftrightarrow> total_amount s \<le> aggregate_paid s"
proof -
  from reachable_wf_session [OF assms(1,2)] have wf: "wf_session s" .
  with assms(3) have "frozen_ok s" by (auto simp: wf_defs)
  with wf have "0 < total_amount s" by (rule wf_total_pos)
  with wf assms(3) show ?thesis by (auto simp: wf_defs)
qed

theorem quorum_monotone:
  assumes "\<not> allow_reuse r" and "sessions r sid = Some s" and "quorum_reached s"
  shows "\<exists>s'. sessions (snd (registry_step xfer now q r)) sid = Some s' \<and> quorum_reached s'"
proof (cases "request_sid q = sid")
  case False
  with assms show ?thesis by (simp add: registry_step_other)
next
  case True
  show ?thesis
  proof (cases "is_create q")
    case True
    with assms \<open>request_sid q = sid\<close> show ?thesis
      by (cases q) (auto simp: registry_step_def create_session_def)
  next
    case False
    obtain res s' evs where g: "guarded now (session_op xfer q) s = (res, s', evs)"
      by (metis prod_cases3)
    with False \<open>request_sid q = sid\<close> assms(2)
    have "sessions (snd (registry_step xfer now q r)) sid = Some s'"
      by (cases q) (auto simp: registry_step_def)
    moreover from guarded_quorum [OF g] assms(3) have "quorum_reached s'"
      by (simp add: quorum_reached_def)
    ultimately show ?thesis by blast
  qed
qed


lemma registry_step_session:
  "\<not> is_create q \<Longrightarrow> sessions r (request_sid q) = Some s \<Longrightarrow>
   registry_step xfer now q r =
     (case guarded now (session_op xfer q) s of
        (res, s', evs) \<Rightarrow>
          (res, r\<lparr>sessions := (sessions r)(request_sid q \<mapsto> s'),
                  events := events r @ stamp (request_sid q) now evs,
                  warnings := warnings r @ payment_warnings q s res\<rparr>))"
  by (cases q) (auto simp: registry_step_def)

lemma registry_step_refusal:
  "\<not> is_create q \<Longrightarrow> sessions r (request_sid q) = Some s \<Longrightarrow> \<not> expired_at now s \<Longrightarrow>
   session_op xfer q s = Inl e \<Longrightarrow> registry_step xfer now q r = (Inl e, r)"
  by (simp add: registry_step_session guarded_def payment_warnings_def stamp_def map_upd_triv)

theorem expired_session_refuses:
  assumes "\<not> is_create q" and "sessions r (request_sid q) = Some s" and "expired_at now s"
  shows "registry_step xfer now q r =
           (Inl SessionExpired,
            r\<lparr>sessions := (sessions r)(request_sid q \<mapsto> s\<lparr>state := Expired\<rparr>),
              events := events r @ stamp (request_sid q) now [EvSessionExpired]\<rparr>)"
  using assms by (simp add: registry_step_session guarded_def payment_warnings_def)

theorem duplicate_approval_refused:
  assumes "sessions r sid = Some s" and "\<not> expired_at now s"
    and "find_participant i s = Some p" and "has_approved p"
  shows "registry_step xfer now (RecordApproval sid i) r = (Inl AlreadyApproved, r)"
proof -
  have op: "session_op xfer (RecordApproval sid i) s = Inl AlreadyApproved"
    using assms(3,4) by (simp add: record_approval_def)
  from registry_step_refusal [OF _ _ assms(2) op] assms(1) show ?thesis by simp
qed

theorem add_after_confirm_locked:
  assumes "sessions r sid = Some s" and "\<not> expired_at now s" and "state s \<noteq> Draft"
  shows "registry_step xfer now (AddParticipant sid i name amt) r = (Inl SessionLocked, r)"
proof -
  have op: "session_op xfer (AddParticipant sid i name amt) s = Inl SessionLocked"
    using assms(3) by (simp add: add_participant_def)
  from registry_step_refusal [OF _ _ assms(2) op] assms(1) show ?thesis by simp
qed

theorem payment_before_quorum_refused:
  assumes "sessions r sid = Some s" and "\<not> expired_at now s"
    and "state s = AwaitingApproval" and "is_participant i s" and "0 < amt"
  shows "registry_step xfer now (RecordPayment sid i amt) r = (Inl WrongState, r)"
proof -
  have op: "session_op xfer (RecordPayment sid i amt) s = Inl WrongState"
    using assms(3-5) by (simp add: record_payment_def)
  from registry_step_refusal [OF _ _ assms(2) op] assms(1) show ?thesis by simp
qed

theorem duplicate_session_id_refused:
  assumes "sessions r sid = Some s" and "\<not> terminal (state s)"
  shows "registry_step xfer now (CreateSession sid desc req exp) r = (Inl DuplicateSessionId, r)"
  using assms by (simp add: registry_step_def create_session_def)

lemma session_op_events:
  "session_op xfer q s = Inr (s', evs) \<Longrightarrow>
   length (filter transition_event evs) = (if state s' = state s then 0 else 1)"
  by (cases q) (auto simp: add_participant_def remove_participant_def confirm_session_def
      record_approval_def record_payment_def cancel_session_def Let_def
      split: if_splits option.splits sum.splits)

theorem one_event_per_transition:
  assumes "guarded now (session_op xfer q) s = (res, s', evs)"
  shows "length (filter transition_event evs) = (if state s' = state s then 0 else 1)"
  using assms session_op_events [of xfer q s]
  by (auto simp: guarded_def expired_at_def terminal_def split: if_splits sum.splits prod.splits)

lemma session_op_frozen:
  "state s \<noteq> Draft \<Longrightarrow> session_op xfer q s = Inr (s', evs) \<Longrightarrow>
   map identity (participants s') = map identity (participants s)
   \<and> map owed_amount (participants s') = map owed_amount (participants s)
   \<and> total_amount s' = total_amount s"
  by (cases q) (auto simp: add_participant_def remove_participant_def confirm_session_def
      record_approval_def record_payment_def cancel_session_def Let_def update_participant_map
      split: if_splits option.splits sum.splits)

theorem participants_frozen_after_confirm:
  assumes "state s \<noteq> Draft" and "guarded now (session_op xfer q) s = (res, s', evs)"
  shows "map identity (participants s') = map identity (participants s)
         \<and> map owed_amount (participants s') = map owed_amount (participants s)
         \<and> total_amount s' = total_amount s
         \<and> required_signatures s' = required_signatures s"
  using assms session_op_frozen [of s xfer q] guarded_quorum [OF assms(2)]
  by (auto simp: guarded_def split: if_splits sum.splits prod.splits)

lemma session_op_terminal:
  "terminal (state s) \<Longrightarrow> session_op xfer q s \<noteq> Inr (s', evs)"
  by (cases q) (auto simp: terminal_def add_participant_def remove_participant_def confirm_session_def
      record_approval_def record_payment_def cancel_session_def Let_def
      split: if_splits option.splits sum.splits)

theorem terminal_session_immutable:
  assumes "terminal (state s)" and "guarded now (session_op xfer q) s = (res, s', evs)"
  shows "s' = s \<and> evs = [] \<and> res \<noteq> Inr ()"
  using assms session_op_terminal [OF assms(1), of xfer q]
  by (auto simp: guarded_def expired_at_def split: if_splits sum.splits prod.splits)


end
