(* ===== verification/Process.thy ===== *)
theory Process
  imports Prelude
begin

text \<open>
  The operating-system side the scripts act on: the working directory and
  \<open>subprocess.run\<close>. A call to \<open>subprocess.run\<close> is recorded in the log of the
  world (its working directory, argument vector, whether \<open>shell=True\<close>, its timeout);
  what it returns is given by an oracle that sees the whole history of earlier calls
  (the Aptos CLI and the chain behind it have state). The outcome is the completed
  process (return code, stdout, stderr) or one of the exceptions \<open>subprocess.run\<close>
  raises: \<open>TimeoutExpired\<close>, \<open>FileNotFoundError\<close> when the executable is missing,
  any other \<open>OSError\<close>. The world is an extensible record, so that each script's own
  state (the tester objects) extends it.
\<close>

datatype proc_outcome =
    Completed int string string
  | Timeout
  | NoExecutable string
  | SpawnError string

record proc_call =
  call_cwd :: "string list"
  call_argv :: "string list"
  call_shell :: bool
  call_timeout :: "nat option"

type_synonym proc_oracle = "proc_call list \<Rightarrow> proc_call \<Rightarrow> proc_outcome"

record world =
  cwd :: "string list"
  proc_log :: "proc_call list"

definition mk_call :: "string list \<Rightarrow> string list \<Rightarrow> nat option \<Rightarrow> proc_call" where
  "mk_call d argv t = \<lparr>call_cwd = d, call_argv = argv, call_shell = False, call_timeout = t\<rparr>"

definition proc_exc :: "proc_outcome \<Rightarrow> py_exc" where
  "proc_exc oc = (case oc of
                   Timeout \<Rightarrow> TimeoutExpired
                 | NoExecutable m \<Rightarrow> FileNotFoundError m
                 | SpawnError m \<Rightarrow> OSError m
                 | Completed _ _ _ \<Rightarrow> OSError [])"

text \<open>\<open>subprocess.run\<close> itself: the call is made (and logged) and its outcome returned.\<close>

definition spawn :: "proc_oracle \<Rightarrow> proc_call \<Rightarrow> ('z world_scheme, proc_outcome) pyst" where
  "spawn ora c w = (Inr (ora (proc_log w) c), w\<lparr>proc_log := proc_log w @ [c]\<rparr>)"

text \<open>
  \<open>subprocess.run(argv, capture_output=True, text=True[, timeout=t])\<close> in the
  working directory: the completed process, or the exception propagates.
\<close>

definition run_proc ::
  "proc_oracle \<Rightarrow> string list \<Rightarrow> nat option \<Rightarrow> ('z world_scheme, int \<times> string \<times> string) pyst" where
  "run_proc ora argv t =
     pbind (pget cwd) (\<lambda>d.
     pbind (spawn ora (mk_call d argv t)) (\<lambda>oc.
       case oc of
         Completed rc out err \<Rightarrow> preturn (rc, out, err)
       | _ \<Rightarrow> praise (proc_exc oc)))"

text \<open>\<open>subprocess.run(cmd, shell=True, cwd=d, capture_output=True, text=True, timeout=t)\<close>:
  the command line goes to the shell, in the directory \<open>d\<close> given explicitly.\<close>

definition run_shell ::
  "proc_oracle \<Rightarrow> string list \<Rightarrow> string \<Rightarrow> nat option \<Rightarrow> ('z world_scheme, int \<times> string \<times> string) pyst" where
  "run_shell ora d cmd t =
     pbind (spawn ora \<lparr>call_cwd = d, call_argv = [cmd], call_shell = True, call_timeout = t\<rparr>) (\<lambda>oc.
       case oc of
         Completed rc out err \<Rightarrow> preturn (rc, out, err)
       | _ \<Rightarrow> praise (proc_exc oc))"

text \<open>\<open>str(e)\<close> of an exception: its message.\<close>

fun exc_message :: "py_exc \<Rightarrow> string" where
  "exc_message (TypeError m) = m"
| "exc_message (AttributeError m) = m"
| "exc_message (FileNotFoundError m) = m"
| "exc_message (OSError m) = m"
| "exc_message TimeoutExpired = ''timed out''"
| "exc_message _ = []"

text \<open>\<open>os.chdir("..")\<close> (the root is its own parent) and \<open>os.chdir(path)\<close>.\<close>

definition chdir_parent :: "('z world_scheme, unit) pyst" where
  "chdir_parent = pmodify (\<lambda>w. w\<lparr>cwd := butlast (cwd w)\<rparr>)"

definition chdir :: "string list \<Rightarrow> ('z world_scheme, unit) pyst" where
  "chdir d = pmodify (\<lambda>w. w\<lparr>cwd := d\<rparr>)"

text \<open>\<open>os.path.basename(os.getcwd())\<close>\<close>

definition basename :: "string list \<Rightarrow> string" where
  "basename d = (if d = [] then [] else last d)"

text \<open>An environment in which the executable exists and every call completes.\<close>

definition cli_available :: "proc_oracle \<Rightarrow> bool" where
  "cli_available ora = (\<forall>h c. \<exists>rc out err. ora h c = Completed rc out err)"

section \<open>Lemmas\<close>

lemma run_proc_completed:
  "ora (proc_log w) (mk_call (cwd w) argv t) = Completed rc out err \<Longrightarrow>
   run_proc ora argv t w = (Inr (rc, out, err), w\<lparr>proc_log := proc_log w @ [mk_call (cwd w) argv t]\<rparr>)"
  by (simp add: run_proc_def spawn_def py_monad_simps)

lemma run_proc_raises:
  "ora (proc_log w) (mk_call (cwd w) argv t) = oc \<Longrightarrow> \<forall>rc out err. oc \<noteq> Completed rc out err \<Longrightarrow>
   run_proc ora argv t w = (Inl (proc_exc oc), w\<lparr>proc_log := proc_log w @ [mk_call (cwd w) argv t]\<rparr>)"
  by (cases oc) (simp_all add: run_proc_def spawn_def py_monad_simps)

lemma cli_available_run_proc:
  "cli_available ora \<Longrightarrow>
   \<exists>rc out err. run_proc ora argv t w = (Inr (rc, out, err), w\<lparr>proc_log := proc_log w @ [mk_call (cwd w) argv t]\<rparr>)"
  unfolding cli_available_def by (metis run_proc_completed)

text \<open>The pattern \<open>d = os.getcwd(); try: ...; os.chdir(d); ... except: os.chdir(d)\<close>
  always ends in \<open>d\<close> and never lets an exception out.\<close>

lemma try_restore_cwd:
  fixes body :: "('z world_scheme, 'a) pyst"
  shows "\<exists>b w'. ptry (pbind body (\<lambda>x. pbind (chdir d) (\<lambda>_. preturn (f x))))
                      (\<lambda>_. pbind (chdir d) (\<lambda>_. preturn False)) w = (Inr b, w') \<and> cwd w' = d"
proof (cases "body w")
  case (Pair r w1)
  then show ?thesis
    by (cases r) (auto simp: ptry_def chdir_def py_monad_simps)
qed

end
