(* ===== verification/Tester.thy ===== *)
theory Tester
  imports Process
begin

text \<open>
  \<open>src/contracts/scripts/test_multiple_signers.py\<close>: the \<open>BillSplitterTester\<close>
  that creates accounts with the Aptos CLI, deploys and initialises the contracts, mints
  test USDC and drives the \<open>bill_splitter\<close> entry functions for a small and a medium
  group. The tester object extends the world record of \<open>Process\<close>; each method is a
  statement sequence of the \<open>pyst\<close> monad; every CLI invocation is a logged
  \<open>subprocess.run\<close> without timeout whose exceptions propagate (nothing in the file
  catches them). Attribute access on a \<open>None\<close> account raises \<open>AttributeError\<close>; a
  \<open>None\<close> inside an argument vector makes \<open>subprocess.run\<close> raise \<open>TypeError\<close>; an
  f-string renders \<open>None\<close> as \<open>None\<close>. The \<open>print\<close> calls are not modelled, except
  where they raise for a reason other than the encoding (stdout is taken to be UTF-8).
\<close>

record test_account =
  address :: "string option"
  private_key :: "string option"
  balance :: int

record test_scenario =
  sc_name :: string
  sc_participants :: "test_account list"
  sc_total :: int
  sc_required :: int
  sc_description :: string

record tester = world +
  network :: string
  base_url :: string
  admin_account :: "test_account option"
  merchant_account :: "test_account option"
  accounts :: "test_account list"

definition new_tester :: "string \<Rightarrow> string list \<Rightarrow> tester" where
  "new_tester net d =
     \<lparr>cwd = d, proc_log = [], network = net,
      base_url = ''https://fullnode.'' @ net @ ''.aptoslabs.com'',
      admin_account = None, merchant_account = None, accounts = []\<rparr>"

section \<open>Python helpers of this file\<close>

text \<open>\<open>obj.attr\<close> where \<open>obj\<close> may be \<open>None\<close>.\<close>

definition attr :: "string \<Rightarrow> test_account option \<Rightarrow> ('s, test_account) pyst" where
  "attr name a =
     (case a of
        None \<Rightarrow> praise (AttributeError (''NoneType object has no attribute '' @ name))
      | Some x \<Rightarrow> preturn x)"

text \<open>An f-string field: \<open>None\<close> is rendered as the text \<open>None\<close>.\<close>

definition py_fstr :: "string option \<Rightarrow> string" where
  "py_fstr s = (case s of None \<Rightarrow> ''None'' | Some x \<Rightarrow> x)"

text \<open>\<open>','.join(xs)\<close> over a list that may hold \<open>None\<close>.\<close>

definition join_opt :: "string \<Rightarrow> string option list \<Rightarrow> ('s, string) pyst" where
  "join_opt sep xs =
     (if None \<in> set xs then praise (TypeError ''sequence item: expected str instance, NoneType found'')
      else preturn (py_join sep (map the xs)))"

text \<open>\<open>subprocess.run([...], capture_output=True, text=True)\<close>: a \<open>None\<close> element
  raises \<open>TypeError\<close> before any process is started.\<close>

definition cli :: "proc_oracle \<Rightarrow> string option list \<Rightarrow> (tester, int \<times> string \<times> string) pyst" where
  "cli ora xs =
     (if None \<in> set xs
      then praise (TypeError ''expected str, bytes or os.PathLike object, not NoneType'')
      else run_proc ora (map the xs) None)"

definition account_create_argv :: "string \<Rightarrow> string option list" where
  "account_create_argv net = map Some [''aptos'', ''account'', ''create'', ''--network'', net]"

definition move_run_argv ::
  "string \<Rightarrow> string list \<Rightarrow> string option \<Rightarrow> string \<Rightarrow> string option list" where
  "move_run_argv fid args key net =
     map Some ([''aptos'', ''move'', ''run'', ''--function-id'', fid]
               @ (if args = [] then [] else ''--args'' # args))
     @ [Some ''--private-key'', key, Some ''--network'', Some net]"

definition function_id :: "test_account \<Rightarrow> string \<Rightarrow> string" where
  "function_id adm f = py_fstr (address adm) @ ''::'' @ f"

section \<open>Account handling\<close>

fun parse_account_lines ::
  "string list \<Rightarrow> string option \<Rightarrow> string option \<Rightarrow> string option \<times> string option" where
  "parse_account_lines [] a k = (a, k)"
| "parse_account_lines (l # ls) a k =
     (if py_in ''Account address:'' l
      then parse_account_lines ls (Some (py_strip (last (py_split l '':'')))) k
      else if py_in ''Private key:'' l
      then parse_account_lines ls a (Some (py_strip (last (py_split l '':''))))
      else parse_account_lines ls a k)"

definition parse_account_output :: "string \<Rightarrow> test_account" where
  "parse_account_output out =
     (case parse_account_lines (py_split (py_strip out) ''\<newline>'') None None of
        (a, k) \<Rightarrow> \<lparr>address = a, private_key = k, balance = 0\<rparr>)"

definition fund_from_faucet :: "proc_oracle \<Rightarrow> string option \<Rightarrow> (tester, unit) pyst" where
  "fund_from_faucet ora addr =
     pbind (pget network) (\<lambda>net.
     pbind (cli ora [Some ''aptos'', Some ''account'', Some ''fund-with-faucet'', Some ''--account'',
                     addr, Some ''--network'', Some net]) (\<lambda>_.
     preturn ()))"

definition setup_test_environment :: "proc_oracle \<Rightarrow> (tester, unit) pyst" where
  "setup_test_environment ora =
     pbind (pget network) (\<lambda>net.
     pbind (cli ora (account_create_argv net)) (\<lambda>(rc, out, _).
     pbind (if rc = 0 then pmodify (\<lambda>t. t\<lparr>admin_account := Some (parse_account_output out)\<rparr>)
            else preturn ()) (\<lambda>_.
     pbind (cli ora (account_create_argv net)) (\<lambda>(rc2, out2, _).
     pbind (if rc2 = 0 then pmodify (\<lambda>t. t\<lparr>merchant_account := Some (parse_account_output out2)\<rparr>)
            else preturn ()) (\<lambda>_.
     pbind (pget admin_account) (\<lambda>adm. pbind (attr ''address'' adm) (\<lambda>a.
     pbind (fund_from_faucet ora (address a)) (\<lambda>_.
     pbind (pget merchant_account) (\<lambda>mer. pbind (attr ''address'' mer) (\<lambda>m.
     fund_from_faucet ora (address m)))))))))))"

definition create_one_account :: "proc_oracle \<Rightarrow> test_account list \<Rightarrow> (tester, test_account list) pyst" where
  "create_one_account ora accs =
     pbind (pget network) (\<lambda>net.
     pbind (cli ora (account_create_argv net)) (\<lambda>(rc, out, _).
       if rc = 0
       then (let acc = parse_account_output out; accs' = accs @ [acc] in
             pbind (fund_from_faucet ora (address acc)) (\<lambda>_. preturn accs'))
       else preturn accs))"

fun create_accounts_loop :: "proc_oracle \<Rightarrow> nat \<Rightarrow> test_account list \<Rightarrow> (tester, test_account list) pyst" where
  "create_accounts_loop ora 0 accs = preturn accs"
| "create_accounts_loop ora (Suc n) accs =
     pbind (create_one_account ora accs) (\<lambda>accs'. create_accounts_loop ora n accs')"

definition create_test_accounts :: "proc_oracle \<Rightarrow> nat \<Rightarrow> (tester, test_account list) pyst" where
  "create_test_accounts ora count =
     pbind (create_accounts_loop ora count []) (\<lambda>accs.
     pbind (pmodify (\<lambda>t. t\<lparr>accounts := accs\<rparr>)) (\<lambda>_. preturn accs))"

section \<open>Deployment and initialisation\<close>

definition deploy_contracts :: "proc_oracle \<Rightarrow> (tester, bool) pyst" where
  "deploy_contracts ora =
     pbind (pget network) (\<lambda>net.
     pbind (pget admin_account) (\<lambda>adm. pbind (attr ''private_key'' adm) (\<lambda>a.
     pbind (cli ora [Some ''aptos'', Some ''move'', Some ''publish'', Some ''--network'', Some net,
                     Some ''--private-key'', private_key a]) (\<lambda>(rc, _, _).
     preturn (rc = 0)))))"

definition initialize_system :: "proc_oracle \<Rightarrow> (tester, unit) pyst" where
  "initialize_system ora =
     pbind (pget network) (\<lambda>net.
     pbind (pget admin_account) (\<lambda>adm. pbind (attr ''address'' adm) (\<lambda>a.
     pbind (cli ora (move_run_argv (function_id a ''bill_splitter::initialize'') [] (private_key a) net)) (\<lambda>_.
     pbind (cli ora (move_run_argv (function_id a ''usdc_utils::initialize_usdc'') [] (private_key a) net)) (\<lambda>_.
     preturn ())))))"

fun mint_loop :: "proc_oracle \<Rightarrow> int \<Rightarrow> test_account list \<Rightarrow> (tester, test_account list) pyst" where
  "mint_loop ora amt [] = preturn []"
| "mint_loop ora amt (acc # accs) =
     pbind (pget network) (\<lambda>net.
     pbind (pget admin_account) (\<lambda>adm. pbind (attr ''address'' adm) (\<lambda>a.
     pbind (cli ora (move_run_argv (function_id a ''usdc_utils::mint_usdc_for_testing'')
                      [''address:'' @ py_fstr (address acc), ''u64:'' @ py_str_int amt]
                      (private_key a) net)) (\<lambda>(rc, _, _).
       if rc = 0 \<and> address acc = None
       then praise (TypeError ''NoneType object is not subscriptable'')
       else pbind (mint_loop ora amt accs) (\<lambda>accs'.
            preturn ((if rc = 0 then acc\<lparr>balance := amt\<rparr> else acc) # accs'))))))"

definition mint_test_tokens :: "proc_oracle \<Rightarrow> test_account list \<Rightarrow> int \<Rightarrow> (tester, test_account list) pyst" where
  "mint_test_tokens ora accs amt = mint_loop ora amt accs"

section \<open>Scenarios\<close>

text \<open>\<open>_execute_test_scenario\<close>: the session id carries \<open>int(time.time())\<close>, given as
  \<open>now\<close>. Only the return code of \<open>create_bill_session\<close> is looked at.\<close>

definition scenario_session_id :: "test_scenario \<Rightarrow> int \<Rightarrow> string" where
  "scenario_session_id sc now = ''TEST_'' @ py_upper (sc_name sc) @ ''_'' @ py_str_int now"

definition participant_names :: "string \<Rightarrow> nat \<Rightarrow> string list" where
  "participant_names prefix n = map (\<lambda>i. prefix @ dec_of_nat i) [0..<n]"

definition create_args :: "string \<Rightarrow> test_scenario \<Rightarrow> string \<Rightarrow> string \<Rightarrow> string list" where
  "create_args sid sc addrs names =
     [''string:'' @ sid, ''u64:'' @ py_str_int (sc_total sc), ''string:'' @ sc_description sc,
      ''vector<address>:'' @ addrs, ''vector<string>:'' @ names, ''u64:'' @ py_str_int (sc_required sc)]"

definition create_session_argv ::
  "test_account \<Rightarrow> string option \<Rightarrow> string \<Rightarrow> string \<Rightarrow> test_scenario \<Rightarrow> string \<Rightarrow> string option list" where
  "create_session_argv a mkey net sid sc addrs =
     move_run_argv (function_id a ''bill_splitter::create_bill_session'')
       (create_args sid sc addrs (py_join '','' (participant_names ''Participant_'' (length (sc_participants sc)))))
       mkey net"

definition confirm_argv :: "test_account \<Rightarrow> string option \<Rightarrow> string \<Rightarrow> string \<Rightarrow> string option list" where
  "confirm_argv a mkey net sid =
     move_run_argv (function_id a ''bill_splitter::confirm_participants'') [''string:'' @ sid] mkey net"

definition sign_argv :: "test_account \<Rightarrow> string \<Rightarrow> string \<Rightarrow> test_account \<Rightarrow> string option list" where
  "sign_argv a net sid p =
     move_run_argv (function_id a ''bill_splitter::sign_bill_agreement'') [''string:'' @ sid] (private_key p) net"

definition pay_argv :: "test_account \<Rightarrow> string \<Rightarrow> string \<Rightarrow> int \<Rightarrow> test_account \<Rightarrow> string option list" where
  "pay_argv a net sid amt p =
     move_run_argv (function_id a ''bill_splitter::submit_payment'')
       [''string:'' @ sid, ''u64:'' @ py_str_int amt] (private_key p) net"

definition sign_all :: "proc_oracle \<Rightarrow> test_account \<Rightarrow> string \<Rightarrow> string \<Rightarrow> test_account list \<Rightarrow> (tester, unit) pyst" where
  "sign_all ora a sid net ps = pfor ps (\<lambda>p. pbind (cli ora (sign_argv a net sid p)) (\<lambda>_. preturn ()))"

definition pay_all :: "proc_oracle \<Rightarrow> test_account \<Rightarrow> string \<Rightarrow> int \<Rightarrow> string \<Rightarrow> test_account list \<Rightarrow> (tester, unit) pyst" where
  "pay_all ora a sid amt net ps = pfor ps (\<lambda>p. pbind (cli ora (pay_argv a net sid amt p)) (\<lambda>_. preturn ()))"

definition execute_test_scenario :: "proc_oracle \<Rightarrow> int \<Rightarrow> test_scenario \<Rightarrow> (tester, bool) pyst" where
  "execute_test_scenario ora now sc =
     (let sid = scenario_session_id sc now;
          ps = sc_participants sc
      in pbind (pget network) (\<lambda>net.
         pbind (pget admin_account) (\<lambda>adm. pbind (attr ''address'' adm) (\<lambda>a.
         pbind (join_opt '','' (map address ps)) (\<lambda>addrs.
         pbind (pget merchant_account) (\<lambda>mer. pbind (attr ''private_key'' mer) (\<lambda>m.
         pbind (cli ora (create_session_argv a (private_key m) net sid sc addrs)) (\<lambda>(rc, _, _).
         if rc \<noteq> 0 then preturn False
         else
           pbind (cli ora (confirm_argv a (private_key m) net sid)) (\<lambda>_.
           pbind (sign_all ora a sid net ps) (\<lambda>_.
           pbind (case py_floordiv (sc_total sc) (int (length ps)) of
                    Inl e \<Rightarrow> praise e | Inr v \<Rightarrow> preturn v) (\<lambda>amt.
           pbind (pay_all ora a sid amt net ps) (\<lambda>_.
           preturn True))))))))))))"

definition execute_enhanced_test_scenario :: "proc_oracle \<Rightarrow> int \<Rightarrow> test_scenario \<Rightarrow> (tester, bool) pyst" where
  "execute_enhanced_test_scenario ora now sc =
     (let sid = ''ENHANCED_TEST_'' @ py_upper (sc_name sc) @ ''_'' @ py_str_int now;
          ps = sc_participants sc;
          names = participant_names ''Enhanced_Participant_'' (length ps)
      in pbind (pget network) (\<lambda>net.
         pbind (pget admin_account) (\<lambda>adm. pbind (attr ''address'' adm) (\<lambda>a.
         pbind (join_opt '','' (map address ps)) (\<lambda>addrs.
         pbind (pget merchant_account) (\<lambda>mer. pbind (attr ''private_key'' mer) (\<lambda>m.
         pbind (cli ora (move_run_argv (function_id a ''enhanced_bill_splitter::create_enhanced_bill_session'')
                          (create_args sid sc addrs (py_join '','' names) @ [''u64:100''])
                          (private_key m) net)) (\<lambda>(rc, _, _).
         preturn (rc = 0)))))))))"

definition small_group_scenario :: "test_account list \<Rightarrow> test_scenario" where
  "small_group_scenario ps =
     \<lparr>sc_name = ''small_group_test'', sc_participants = take 5 ps, sc_total = 150000000,
      sc_required = int (length (take 5 ps)), sc_description = ''Small Group Restaurant Bill''\<rparr>"

definition run_small_group_test :: "proc_oracle \<Rightarrow> int \<Rightarrow> test_account list \<Rightarrow> (tester, bool) pyst" where
  "run_small_group_test ora now ps = execute_test_scenario ora now (small_group_scenario ps)"

definition medium_group_scenario :: "test_account list \<Rightarrow> test_scenario" where
  "medium_group_scenario ps =
     (let n = min 15 (length ps) in
      \<lparr>sc_name = ''medium_group_test'', sc_participants = take n ps, sc_total = 500000000,
       sc_required = int n * 2 div 3, sc_description = ''Medium Group Event Bill''\<rparr>)"

definition run_medium_group_test :: "proc_oracle \<Rightarrow> int \<Rightarrow> test_account list \<Rightarrow> (tester, bool) pyst" where
  "run_medium_group_test ora now ps = execute_enhanced_test_scenario ora now (medium_group_scenario ps)"

definition run_large_group_stress_test :: "proc_oracle \<Rightarrow> nat \<Rightarrow> (tester, bool) pyst" where
  "run_large_group_stress_test ora n =
     pbind (pget network) (\<lambda>net.
     pbind (pget admin_account) (\<lambda>adm. pbind (attr ''address'' adm) (\<lambda>a.
     pbind (cli ora (move_run_argv (function_id a ''test_suite::test_large_group_stress_test'')
                      [''u64:'' @ dec_of_nat n] (private_key a) net)) (\<lambda>(rc, _, _).
     preturn (rc = 0)))))"

text \<open>What the Aptos CLI prints for an account is a token without colons, newlines or
  capital A, not starting or ending in white space (a hex address or key).\<close>

definition token_ok :: "string \<Rightarrow> bool" where
  "token_ok x = (x \<noteq> [] \<and> CHR '':'' \<notin> set x \<and> CHR ''\<newline>'' \<notin> set x \<and> CHR ''A'' \<notin> set x
                 \<and> \<not> py_space (hd x) \<and> \<not> py_space (last x))"

text \<open>\<open>main()\<close>: \<open>now1\<close> and \<open>now2\<close> are the clock readings of the two scenarios.
  The tester object is a fresh \<open>BillSplitterTester("testnet")\<close>; the process state (working
  directory, calls made so far) is kept.
  \<open>mint_test_tokens\<close> mutates the very account objects held in \<open>test_accounts\<close>, so
  the updated list is what the later steps see.\<close>

definition tester_main :: "proc_oracle \<Rightarrow> int \<Rightarrow> int \<Rightarrow> (tester, unit) pyst" where
  "tester_main ora now1 now2 =
     pbind (pmodify (\<lambda>t. (new_tester ''testnet'' (cwd t))\<lparr>proc_log := proc_log t\<rparr>)) (\<lambda>_.
     pbind (setup_test_environment ora) (\<lambda>_.
     pbind (create_test_accounts ora 20) (\<lambda>accs.
     pbind (deploy_contracts ora) (\<lambda>ok.
       if \<not> ok then preturn ()
       else
         pbind (initialize_system ora) (\<lambda>_.
         pbind (mint_test_tokens ora accs 1000000000) (\<lambda>accs'.
         pbind (pmodify (\<lambda>t. t\<lparr>accounts := accs'\<rparr>)) (\<lambda>_.
         pbind (run_small_group_test ora now1 accs') (\<lambda>_.
         pbind (run_medium_group_test ora now2 accs') (\<lambda>_.
         pbind (run_large_group_stress_test ora 100) (\<lambda>_.
         preturn ()))))))))))"

text \<open>A declarative reading of the parsing loop: the address comes from the last line
  naming it, the key from the last line naming the key and not the address.\<close>

definition account_lines_ref :: "string list \<Rightarrow> string option \<Rightarrow> string option \<Rightarrow> string option \<times> string option" where
  "account_lines_ref ls a k =
     (let A = filter (py_in ''Account address:'') ls;
          K = filter (\<lambda>l. \<not> py_in ''Account address:'' l \<and> py_in ''Private key:'' l) ls
      in (if A = [] then a else Some (py_strip (last (py_split (last A) '':''))),
          if K = [] then k else Some (py_strip (last (py_split (last K) '':'')))))"

section \<open>Lemmas\<close>

lemma cli_run:
  "None \<notin> set xs \<Longrightarrow> cli ora xs = run_proc ora (map the xs) None"
  by (simp add: cli_def)

lemma cli_available_cli:
  assumes "cli_available ora" "None \<notin> set xs"
  shows "\<exists>rc out err. cli ora xs t =
           (Inr (rc, out, err), t\<lparr>proc_log := proc_log t @ [mk_call (cwd t) (map the xs) None]\<rparr>)"
  using cli_available_run_proc [OF assms(1)] assms(2) by (simp add: cli_run)

lemma pfor_cli:
  assumes "cli_available ora" "\<forall>x \<in> set xs. None \<notin> set (f x)"
  shows "pfor xs (\<lambda>x. pbind (cli ora (f x)) (\<lambda>_. preturn ())) t =
         (Inr (), t\<lparr>proc_log := proc_log t @ map (\<lambda>x. mk_call (cwd t) (map the (f x)) None) xs\<rparr>)"
  using assms(2)
proof (induction xs arbitrary: t)
  case Nil
  then show ?case by (simp add: preturn_def)
next
  case (Cons x xs)
  then have "None \<notin> set (f x)" by simp
  from cli_available_cli [OF assms(1) this] obtain rc out err where
    c: "cli ora (f x) t = (Inr (rc, out, err), t\<lparr>proc_log := proc_log t @ [mk_call (cwd t) (map the (f x)) None]\<rparr>)"
    by blast
  from Cons show ?case by (simp add: c pbind_apply preturn_def)
qed

lemma move_run_argv_Some:
  "None \<notin> set (move_run_argv fid args key net) \<longleftrightarrow> key \<noteq> None"
  by (cases key) (auto simp: move_run_argv_def)

lemma execute_test_scenario_calls:
  assumes avail: "cli_available ora"
    and adm: "admin_account t = Some a" and mer: "merchant_account t = Some m"
    and mk: "private_key m \<noteq> None"
    and ps: "\<forall>p \<in> set (sc_participants sc). address p \<noteq> None \<and> private_key p \<noteq> None"
    and ne: "sc_participants sc \<noteq> []"
    and created: "ora (proc_log t)
        (mk_call (cwd t) (map the (create_session_argv a (private_key m) (network t)
           (scenario_session_id sc now) sc (py_join '','' (map (the \<circ> address) (sc_participants sc))))) None)
        = Completed 0 out err"
  shows "execute_test_scenario ora now sc t =
     (Inr True,
      t\<lparr>proc_log := proc_log t @ map (\<lambda>xs. mk_call (cwd t) (map the xs) None)
          ([create_session_argv a (private_key m) (network t) (scenario_session_id sc now) sc
              (py_join '','' (map (the \<circ> address) (sc_participants sc))),
            confirm_argv a (private_key m) (network t) (scenario_session_id sc now)]
           @ map (sign_argv a (network t) (scenario_session_id sc now)) (sc_participants sc)
           @ map (pay_argv a (network t) (scenario_session_id sc now)
                   (sc_total sc div int (length (sc_participants sc)))) (sc_participants sc))\<rparr>)"
proof -
  let ?sid = "scenario_session_id sc now" and ?ps = "sc_participants sc" and ?net = "network t"
  let ?addrs = "py_join '','' (map (the \<circ> address) ?ps)"
  let ?amt = "sc_total sc div int (length ?ps)"
  let ?cr = "create_session_argv a (private_key m) ?net ?sid sc ?addrs"
  let ?cf = "confirm_argv a (private_key m) ?net ?sid"
  let ?c = "\<lambda>xs. mk_call (cwd t) (map the xs) None"
  have nn: "None \<notin> set (map address ?ps)" using ps by auto
  have j: "join_opt '','' (map address ?ps) = preturn ?addrs"
    using nn by (simp add: join_opt_def comp_def)
  have j2: "join_opt '','' (map address ?ps) t = (Inr ?addrs, t)"
    using nn by (simp add: join_opt_def comp_def)
  have cr_ok: "None \<notin> set ?cr" using mk by (simp add: create_session_argv_def move_run_argv_Some)
  have cf_ok: "None \<notin> set ?cf" using mk by (simp add: confirm_argv_def move_run_argv_Some)
  define t1 where "t1 = t\<lparr>proc_log := proc_log t @ [?c ?cr]\<rparr>"
  have c1: "cli ora ?cr t = (Inr (0, out, err), t1)"
    using created cr_ok by (simp add: cli_run run_proc_completed t1_def)
  obtain rc2 out2 err2 where
    c2: "cli ora ?cf t1 = (Inr (rc2, out2, err2), t1\<lparr>proc_log := proc_log t1 @ [mk_call (cwd t1) (map the ?cf) None]\<rparr>)"
    using cli_available_cli [OF avail cf_ok] by blast
  define t2 where "t2 = t1\<lparr>proc_log := proc_log t1 @ [?c ?cf]\<rparr>"
  have sg: "sign_all ora a ?sid ?net ?ps t2 =
      (Inr (), t2\<lparr>proc_log := proc_log t2 @ map (\<lambda>p. ?c (sign_argv a ?net ?sid p)) ?ps\<rparr>)"
    unfolding sign_all_def using ps
    by (subst pfor_cli [OF avail]) (auto simp: sign_argv_def move_run_argv_Some t2_def t1_def)
  define t3 where "t3 = t2\<lparr>proc_log := proc_log t2 @ map (\<lambda>p. ?c (sign_argv a ?net ?sid p)) ?ps\<rparr>"
  have py: "pay_all ora a ?sid ?amt ?net ?ps t3 =
      (Inr (), t3\<lparr>proc_log := proc_log t3 @ map (\<lambda>p. ?c (pay_argv a ?net ?sid ?amt p)) ?ps\<rparr>)"
    unfolding pay_all_def using ps
    by (subst pfor_cli [OF avail]) (auto simp: pay_argv_def move_run_argv_Some t3_def t2_def t1_def)
  have fd: "py_floordiv (sc_total sc) (int (length ?ps)) = Inr ?amt"
    using ne by (simp add: py_floordiv_def)
  have "cwd t1 = cwd t" "cwd t2 = cwd t" by (simp_all add: t1_def t2_def)
  with c2 have c2': "cli ora ?cf t1 = (Inr (rc2, out2, err2), t2)" by (simp add: t2_def)
  have "execute_test_scenario ora now sc t =
      (Inr True, t3\<lparr>proc_log := proc_log t3 @ map (\<lambda>p. ?c (pay_argv a ?net ?sid ?amt p)) ?ps\<rparr>)"
    using adm mer fd
    by (simp add: execute_test_scenario_def Let_def attr_def
        pbind_Inr [where m = "join_opt '','' (map address ?ps)" and s = t, OF j2] pbind_Inr [where m = "cli ora ?cr" and s = t, OF c1]
        pbind_Inr [where m = "cli ora ?cf" and s = t1, OF c2']
        pbind_Inr [where m = "sign_all ora a ?sid ?net ?ps" and s = t2, OF sg]
        pbind_Inr [where m = "pay_all ora a ?sid ?amt ?net ?ps" and s = t3, OF py] t3_def [symmetric])
  then show ?thesis by (simp add: t3_def t2_def t1_def)
qed


lemma strip_field:
  "token_ok x \<Longrightarrow> py_strip (last (py_split (pre @ '': '' @ x) '':'')) = x"
  if "CHR '':'' \<notin> set pre"
proof -
  assume x: "token_ok x"
  have "py_split (pre @ '': '' @ x) '':'' = [pre, '' '' @ x]"
    using that x by (simp add: py_split_def split_from_at_sep split_from_no_sep token_ok_def)
  moreover have "py_strip ('' '' @ x) = x"
    using py_strip_pad [of "'' ''" "[]" x] x by (simp add: token_ok_def py_space_def)
  ultimately show ?thesis by simp
qed

theorem execute_test_scenario_calls_witness:
  "fst (execute_test_scenario (\<lambda>_ _. Completed 0 [] []) 5
          \<lparr>sc_name = ''g'', sc_participants = [\<lparr>address = Some ''0x3'', private_key = Some ''k3'', balance = 0\<rparr>],
           sc_total = 10, sc_required = 1, sc_description = ''d''\<rparr>
          ((new_tester ''testnet'' [])\<lparr>admin_account := Some \<lparr>address = Some ''0x1'', private_key = Some ''k1'', balance = 0\<rparr>,
             merchant_account := Some \<lparr>address = Some ''0x2'', private_key = Some ''k2'', balance = 0\<rparr>\<rparr>))
   = Inr True"
proof -
  let ?ora = "\<lambda>(_::proc_call list) (_::proc_call). Completed 0 [] []"
  have avail: "cli_available ?ora" by (simp add: cli_available_def)
  show ?thesis
    by (simp add: execute_test_scenario_calls [OF avail, where out = "[]" and err = "[]"] new_tester_def)
qed

text \<open>C2: \<open>_execute_test_scenario\<close> reports success whenever \<open>create_bill_session\<close>
  succeeds: with a CLI on which every later call (confirmation, each signature, each
  payment) exits with return code 1, it still returns \<open>True\<close>.\<close>

theorem scenario_ignores_failures:
  assumes "admin_account t = Some a" and "merchant_account t = Some m" and "private_key m \<noteq> None"
    and "\<forall>p \<in> set (sc_participants sc). address p \<noteq> None \<and> private_key p \<noteq> None"
    and "sc_participants sc \<noteq> []"
  shows "fst (execute_test_scenario (\<lambda>h _. Completed (if h = proc_log t then 0 else 1) [] []) now sc t) = Inr True"
proof -
  have "cli_available (\<lambda>h (_::proc_call). Completed (if h = proc_log t then 0 else 1) [] [])"
    by (simp add: cli_available_def)
  from execute_test_scenario_calls [OF this assms, where now = now and out = "[]" and err = "[]"]
  show ?thesis by simp
qed

theorem scenario_ignores_failures_witness:
  "fst (execute_test_scenario (\<lambda>h _. Completed (if h = [] then 0 else 1) [] []) 5
          \<lparr>sc_name = ''g'', sc_participants = [\<lparr>address = Some ''0x3'', private_key = Some ''k3'', balance = 0\<rparr>],
           sc_total = 10, sc_required = 1, sc_description = ''d''\<rparr>
          ((new_tester ''testnet'' [])\<lparr>admin_account := Some \<lparr>address = Some ''0x1'', private_key = Some ''k1'', balance = 0\<rparr>,
             merchant_account := Some \<lparr>address = Some ''0x2'', private_key = Some ''k2'', balance = 0\<rparr>\<rparr>))
   = Inr True"
  using scenario_ignores_failures [where now = 5
      and t = "(new_tester ''testnet'' [])\<lparr>admin_account := Some \<lparr>address = Some ''0x1'', private_key = Some ''k1'', balance = 0\<rparr>,
             merchant_account := Some \<lparr>address = Some ''0x2'', private_key = Some ''k2'', balance = 0\<rparr>\<rparr>"
      and sc = "\<lparr>sc_name = ''g'', sc_participants = [\<lparr>address = Some ''0x3'', private_key = Some ''k3'', balance = 0\<rparr>],
           sc_total = 10, sc_required = 1, sc_description = ''d''\<rparr>"]
  by (simp add: new_tester_def)

text \<open>C3: \<open>_parse_account_output\<close> reads back the address and the private key from the
  text the CLI prints for a new account, for any tokens without colons, newlines or
  capital A.\<close>

theorem parse_account_output_roundtrip:
  assumes "token_ok a" and "token_ok k"
  shows "parse_account_output (''Account address: '' @ a @ ''\<newline>Private key: '' @ k @ ''\<newline>'')
         = \<lparr>address = Some a, private_key = Some k, balance = 0\<rparr>"
proof -
  let ?l1 = "''Account address: '' @ a" and ?l2 = "''Private key: '' @ k"
  have strip: "py_strip (''Account address: '' @ a @ ''\<newline>Private key: '' @ k @ ''\<newline>'') = ?l1 @ ''\<newline>'' @ ?l2"
    using py_strip_pad [of "[]" "''\<newline>''" "?l1 @ ''\<newline>'' @ ?l2"] assms
    by (simp add: token_ok_def py_space_def)
  have lines: "py_split (?l1 @ ''\<newline>'' @ ?l2) ''\<newline>'' = [?l1, ?l2]"
    using assms by (simp add: py_split_def split_from_at_sep split_from_no_sep token_ok_def)
  have in1: "py_in ''Account address:'' ?l1"
    using py_in_prefix [of "''Account address:''" "'' '' @ a"] by simp
  have nin2: "\<not> py_in ''Account address:'' ?l2"
    using py_in_set [of "''Account address:''" ?l2] assms by (auto simp: token_ok_def)
  have in2: "py_in ''Private key:'' ?l2"
    using py_in_prefix [of "''Private key:''" "'' '' @ k"] by simp
  have f1: "py_strip (last (py_split ?l1 '':'')) = a"
    using strip_field [of "''Account address''" a] assms(1) by simp
  have f2: "py_strip (last (py_split ?l2 '':'')) = k"
    using strip_field [of "''Private key''" k] assms(2) by simp
  show ?thesis
    using strip lines in1 nin2 in2 f1 f2 by (simp add: parse_account_output_def)
qed

theorem parse_account_output_roundtrip_witness:
  "parse_account_output (''Account address: 0x2a\<newline>Private key: 0x7f\<newline>'')
   = \<lparr>address = Some ''0x2a'', private_key = Some ''0x7f'', balance = 0\<rparr>"
proof -
  have "token_ok ''0x2a''" "token_ok ''0x7f''" by (simp_all add: token_ok_def py_space_def)
  from parse_account_output_roundtrip [OF this] show ?thesis by simp
qed

text \<open>C4: when the first \<open>aptos account create\<close> fails (non-zero return code),
  \<open>setup_test_environment\<close> raises \<open>AttributeError\<close> on \<open>self.admin_account.address\<close>
  instead of reporting the failure.\<close>

theorem setup_without_admin_raises:
  assumes avail: "cli_available ora" and none: "admin_account t = None"
    and first: "ora (proc_log t) (mk_call (cwd t) (map the (account_create_argv (network t))) None) = Completed rc out err"
    and fail: "rc \<noteq> 0"
  shows "fst (setup_test_environment ora t) = Inl (AttributeError ''NoneType object has no attribute address'')"
proof -
  have ok: "None \<notin> set (account_create_argv (network t))" by (simp add: account_create_argv_def)
  define t1 where "t1 = t\<lparr>proc_log := proc_log t @ [mk_call (cwd t) (map the (account_create_argv (network t))) None]\<rparr>"
  have c1: "cli ora (account_create_argv (network t)) t = (Inr (rc, out, err), t1)"
    using first ok by (simp add: cli_run run_proc_completed t1_def)
  obtain rc2 out2 err2 where c2: "cli ora (account_create_argv (network t)) t1 =
      (Inr (rc2, out2, err2), t1\<lparr>proc_log := proc_log t1 @ [mk_call (cwd t1) (map the (account_create_argv (network t))) None]\<rparr>)"
    using cli_available_cli [OF avail ok] by blast
  have none1: "admin_account t1 = None" using none by (simp add: t1_def)
  show ?thesis
    using none1 fail
    by (cases "rc2 = 0")
       (simp_all add: setup_test_environment_def attr_def
        pbind_Inr [where m = "cli ora (account_create_argv (network t))" and s = t, OF c1]
        pbind_Inr [where m = "cli ora (account_create_argv (network t))" and s = t1, OF c2])
qed

theorem setup_without_admin_raises_witness:
  "fst (setup_test_environment (\<lambda>h _. Completed (if h = [] then 1 else 0) [] []) (new_tester ''testnet'' []))
   = Inl (AttributeError ''NoneType object has no attribute address'')"
proof -
  let ?ora = "\<lambda>(h::proc_call list) (_::proc_call). Completed (if h = [] then 1 else 0) [] []"
  have avail: "cli_available ?ora" by (simp add: cli_available_def)
  show ?thesis
    by (rule setup_without_admin_raises [OF avail, where rc = 1 and out = "[]" and err = "[]"])
       (simp_all add: new_tester_def)
qed

text \<open>C5: the medium-group scenario takes at most 15 participants and asks for
  \<open>n * 2 // 3\<close> signatures: at most two thirds of them, and at least one exactly when
  there are at least two participants (with a single account the threshold is 0).\<close>

theorem medium_group_threshold:
  "length (sc_participants (medium_group_scenario ps)) = min 15 (length ps)
   \<and> 3 * sc_required (medium_group_scenario ps) \<le> 2 * int (length (sc_participants (medium_group_scenario ps)))
   \<and> (1 \<le> sc_required (medium_group_scenario ps) \<longleftrightarrow> 2 \<le> length (sc_participants (medium_group_scenario ps)))"
  by (auto simp: medium_group_scenario_def Let_def min_def)

lemma execute_test_scenario_refused:
  assumes adm: "admin_account t = Some a" and mer: "merchant_account t = Some m" and mk: "private_key m \<noteq> None"
    and ps: "\<forall>p \<in> set (sc_participants sc). address p \<noteq> None"
    and refused: "ora (proc_log t)
        (mk_call (cwd t) (map the (create_session_argv a (private_key m) (network t)
           (scenario_session_id sc now) sc (py_join '','' (map (the \<circ> address) (sc_participants sc))))) None)
        = Completed rc out err" "rc \<noteq> 0"
  shows "execute_test_scenario ora now sc t =
     (Inr False, t\<lparr>proc_log := proc_log t @ [mk_call (cwd t) (map the (create_session_argv a (private_key m) (network t)
           (scenario_session_id sc now) sc (py_join '','' (map (the \<circ> address) (sc_participants sc))))) None]\<rparr>)"
proof -
  have nn: "None \<notin> set (map address (sc_participants sc))" using ps by auto
  have j: "join_opt '','' (map address (sc_participants sc)) t = (Inr (py_join '','' (map (the \<circ> address) (sc_participants sc))), t)"
    using nn by (simp add: join_opt_def comp_def)
  have ok: "None \<notin> set (create_session_argv a (private_key m) (network t) (scenario_session_id sc now) sc
              (py_join '','' (map (the \<circ> address) (sc_participants sc))))"
    using mk by (simp add: create_session_argv_def move_run_argv_Some)
  let ?cr = "create_session_argv a (private_key m) (network t) (scenario_session_id sc now) sc
              (py_join '','' (map (the \<circ> address) (sc_participants sc)))"
  have c1: "cli ora ?cr t = (Inr (rc, out, err), t\<lparr>proc_log := proc_log t @ [mk_call (cwd t) (map the ?cr) None]\<rparr>)"
    using refused(1) ok by (simp add: cli_run run_proc_completed)
  show ?thesis
    using adm mer refused(2)
    by (simp add: execute_test_scenario_def Let_def attr_def
        pbind_Inr [where m = "join_opt '','' (map address (sc_participants sc))" and s = t, OF j]
        pbind_Inr [where m = "cli ora ?cr" and s = t, OF c1])
qed

text \<open>C12: the parsing loop of \<open>_parse_account_output\<close> is equivalent to its declarative
  reading: the address is the field of the last line containing \<open>Account address:\<close>,
  the key that of the last other line containing \<open>Private key:\<close>, each left at its
  previous value when there is no such line.\<close>

theorem parse_account_lines_ref: "parse_account_lines ls a k = account_lines_ref ls a k"
  by (induction ls arbitrary: a k) (auto simp: account_lines_ref_def Let_def)

end
