(* ===== verification/Chain.thy ===== *)
theory Chain
  imports SessionRegistry Tester
begin

text \<open>
  The Aptos CLI and the chain behind it, as seen by the scripts' \<open>aptos move run\<close>
  calls to the \<open>bill_splitter\<close> module. The CLI side (how an argument vector is
  read: \<open>--function-id\<close>, typed \<open>--args\<close>, \<open>--private-key\<close>) and the contract side
  (which entry function turns into which requests of the session registry) are not
  in the sources; they follow the CLI's documented argument syntax and the
  specification. A transaction is atomic: when one of its requests is refused the
  transaction aborts and the registry stays as it was. The chain's clock is the index
  of the call in the history. Calls that are not transactions of \<open>bill_splitter\<close>
  are answered by an unconstrained oracle \<open>other\<close>.
\<close>

record chain_cfg =
  contract_addr :: string
  signer_of :: "string \<Rightarrow> ident"
  shares :: "nat \<Rightarrow> nat \<Rightarrow> amount list"
  ttl :: nat
  transfer :: transfer_fn

datatype contract_call =
    CallCreate string nat string "string list" "string list" nat
  | CallConfirm string
  | CallSign string
  | CallPay string nat

datatype txn_kind =
    NotMoveRun
  | OtherEntry
  | BadCall
  | BillCall ident contract_call

section \<open>Reading the argument vector\<close>

definition strip_prefix :: "string \<Rightarrow> string \<Rightarrow> string option" where
  "strip_prefix p s = (if take (length p) s = p then Some (drop (length p) s) else None)"

definition is_dec :: "string \<Rightarrow> bool" where
  "is_dec s = (s \<noteq> [] \<and> list_all (\<lambda>c. 48 \<le> (of_char c :: nat) \<and> (of_char c :: nat) \<le> 57) s)"

definition arg_string :: "string \<Rightarrow> string option" where
  "arg_string a = strip_prefix ''string:'' a"

definition arg_u64 :: "string \<Rightarrow> nat option" where
  "arg_u64 a =
     (case strip_prefix ''u64:'' a of
        None \<Rightarrow> None
      | Some d \<Rightarrow> if is_dec d \<and> read_dec d < 2 ^ 64 then Some (read_dec d) else None)"

definition arg_vec :: "string \<Rightarrow> string \<Rightarrow> string list option" where
  "arg_vec ty a = map_option (\<lambda>s. py_split s '','') (strip_prefix (''vector<'' @ ty @ ''>:'') a)"

definition entry_of :: "string \<Rightarrow> (string \<times> string \<times> string) option" where
  "entry_of fid =
     (case py_split fid '':'' of
        [a, e1, m, e2, f] \<Rightarrow> if e1 = [] \<and> e2 = [] then Some (a, m, f) else None
      | _ \<Rightarrow> None)"

text \<open>\<open>aptos move run --function-id F [--args A...] --private-key K --network N\<close>\<close>

definition parse_move_run :: "string list \<Rightarrow> (string \<times> string list \<times> string) option" where
  "parse_move_run argv =
     (if take 4 argv = [''aptos'', ''move'', ''run'', ''--function-id''] \<and> 9 \<le> length argv
      then (let rest = drop 5 argv;
                pre = take (length rest - 4) rest;
                post = drop (length rest - 4) rest
            in if post ! 0 = ''--private-key'' \<and> post ! 2 = ''--network''
               then (if pre = [] then Some (argv ! 4, [], post ! 1)
                     else if hd pre = ''--args'' then Some (argv ! 4, tl pre, post ! 1)
                     else None)
               else None)
      else None)"

definition decode_call :: "string \<Rightarrow> string list \<Rightarrow> contract_call option" where
  "decode_call f args =
     (if f = ''create_bill_session''
      then (case args of
              [a1, a2, a3, a4, a5, a6] \<Rightarrow>
                (case (arg_string a1, arg_u64 a2, arg_string a3,
                       arg_vec ''address'' a4, arg_vec ''string'' a5, arg_u64 a6) of
                   (Some sid, Some tot, Some desc, Some addrs, Some names, Some req) \<Rightarrow>
                     Some (CallCreate sid tot desc addrs names req)
                 | _ \<Rightarrow> None)
            | _ \<Rightarrow> None)
      else if f = ''confirm_participants''
      then (case args of [a1] \<Rightarrow> map_option CallConfirm (arg_string a1) | _ \<Rightarrow> None)
      else if f = ''sign_bill_agreement''
      then (case args of [a1] \<Rightarrow> map_option CallSign (arg_string a1) | _ \<Rightarrow> None)
      else if f = ''submit_payment''
      then (case args of
              [a1, a2] \<Rightarrow>
                (case (arg_string a1, arg_u64 a2) of
                   (Some sid, Some amt) \<Rightarrow> Some (CallPay sid amt)
                 | _ \<Rightarrow> None)
            | _ \<Rightarrow> None)
      else None)"

definition classify :: "chain_cfg \<Rightarrow> string list \<Rightarrow> txn_kind" where
  "classify cfg argv =
     (case parse_move_run argv of
        None \<Rightarrow> NotMoveRun
      | Some (fid, args, key) \<Rightarrow>
          (case entry_of fid of
             None \<Rightarrow> BadCall
           | Some (a, m, f) \<Rightarrow>
               if a = contract_addr cfg \<and> m = ''bill_splitter''
               then (case decode_call f args of
                       None \<Rightarrow> BadCall
                     | Some c \<Rightarrow> BillCall (signer_of cfg key) c)
               else OtherEntry))"

section \<open>The contract's entry functions\<close>

text \<open>\<open>create_bill_session\<close> creates the session (expiring \<open>ttl\<close> after its creation)
  and adds the participants with the owed amounts the contract's split assigns;
  vectors of different lengths abort the transaction.\<close>

definition call_requests :: "chain_cfg \<Rightarrow> time \<Rightarrow> ident \<Rightarrow> contract_call \<Rightarrow> request list option" where
  "call_requests cfg now sender c =
     (case c of
        CallCreate sid tot desc addrs names req \<Rightarrow>
          if length names \<noteq> length addrs then None
          else Some (CreateSession sid desc req (now + ttl cfg)
                     # map (\<lambda>(i, nm, amt). AddParticipant sid i nm amt)
                           (zip addrs (zip names (shares cfg tot (length addrs)))))
      | CallConfirm sid \<Rightarrow> Some [ConfirmSession sid]
      | CallSign sid \<Rightarrow> Some [RecordApproval sid sender]
      | CallPay sid amt \<Rightarrow> Some [RecordPayment sid sender amt])"

text \<open>The session a contract call addresses.\<close>

fun call_sid :: "contract_call \<Rightarrow> string" where
  "call_sid (CallCreate sid _ _ _ _ _) = sid"
| "call_sid (CallConfirm sid) = sid"
| "call_sid (CallSign sid) = sid"
| "call_sid (CallPay sid _) = sid"

definition run_txn :: "transfer_fn \<Rightarrow> time \<Rightarrow> request list \<Rightarrow> registry \<Rightarrow> bool \<times> registry" where
  "run_txn xfer now qs r =
     (case run_requests xfer (map (Pair now) qs) r of
        (ress, r') \<Rightarrow> if list_all (\<lambda>x. x = Inr ()) ress then (True, r') else (False, r))"

definition chain_apply :: "chain_cfg \<Rightarrow> time \<Rightarrow> proc_call \<Rightarrow> registry \<Rightarrow> bool \<times> registry" where
  "chain_apply cfg now c r =
     (case classify cfg (call_argv c) of
        BillCall i cc \<Rightarrow>
          (case call_requests cfg now i cc of
             None \<Rightarrow> (False, r)
           | Some qs \<Rightarrow> run_txn (transfer cfg) now qs r)
      | BadCall \<Rightarrow> (False, r)
      | _ \<Rightarrow> (True, r))"

fun chain_replay :: "chain_cfg \<Rightarrow> time \<Rightarrow> proc_call list \<Rightarrow> registry \<Rightarrow> registry" where
  "chain_replay cfg k [] r = r"
| "chain_replay cfg k (c # cs) r = chain_replay cfg (Suc k) cs (snd (chain_apply cfg k c r))"

definition chain_state :: "chain_cfg \<Rightarrow> proc_call list \<Rightarrow> registry" where
  "chain_state cfg h = chain_replay cfg 0 h (empty_registry False)"

text \<open>The CLI's answer: return code 0 for a committed transaction, 1 for an aborted
  or unreadable one; everything else is the business of \<open>other\<close>.\<close>

definition chain_oracle :: "chain_cfg \<Rightarrow> proc_oracle \<Rightarrow> proc_oracle" where
  "chain_oracle cfg other h c =
     (case classify cfg (call_argv c) of
        BillCall _ _ \<Rightarrow>
          Completed (if fst (chain_apply cfg (length h) c (chain_state cfg h)) then 0 else 1) [] []
      | BadCall \<Rightarrow> Completed 1 [] []
      | _ \<Rightarrow> other h c)"

text \<open>The session a single request leaves behind: the new session when the operation
  succeeds, the old one when it is refused.\<close>

definition sstep :: "transfer_fn \<Rightarrow> request \<Rightarrow> bill_session \<Rightarrow> bill_session" where
  "sstep xfer q s = (case session_op xfer q s of Inr (s', _) \<Rightarrow> s' | Inl _ \<Rightarrow> s)"

section \<open>Lemmas: reading the scripts' argument vectors\<close>

lemma parse_move_run_argv:
  "parse_move_run (map the (move_run_argv fid args (Some key) net)) = Some (fid, args, key)"
  by (cases args) (simp_all add: parse_move_run_def move_run_argv_def Let_def nth_append)

lemma is_dec_dec_of_nat [simp]: "is_dec (dec_of_nat n)"
  using dec_of_nat_digits [of n] by (simp add: is_dec_def)

lemmas arg_defs = arg_u64_def arg_string_def arg_vec_def strip_prefix_def

lemma fid_entry:
  "address a = Some ca \<Longrightarrow> CHR '':'' \<notin> set ca \<Longrightarrow>
   entry_of (function_id a ''bill_splitter::create_bill_session'') = Some (ca, ''bill_splitter'', ''create_bill_session'')
   \<and> entry_of (function_id a ''bill_splitter::confirm_participants'') = Some (ca, ''bill_splitter'', ''confirm_participants'')
   \<and> entry_of (function_id a ''bill_splitter::sign_bill_agreement'') = Some (ca, ''bill_splitter'', ''sign_bill_agreement'')
   \<and> entry_of (function_id a ''bill_splitter::submit_payment'') = Some (ca, ''bill_splitter'', ''submit_payment'')"
  by (simp add: function_id_def py_fstr_def entry_of_def py_split_def split_from_at_sep)

lemma classify_sign:
  assumes "address a = Some (contract_addr cfg)" "CHR '':'' \<notin> set (contract_addr cfg)" "private_key p = Some k"
  shows "classify cfg (map the (sign_argv a net sid p)) = BillCall (signer_of cfg k) (CallSign sid)"
  using assms fid_entry [OF assms(1,2)]
  by (simp add: classify_def sign_argv_def parse_move_run_argv decode_call_def arg_defs read_dec_dec_of_nat)

lemma classify_pay:
  assumes "address a = Some (contract_addr cfg)" "CHR '':'' \<notin> set (contract_addr cfg)" "private_key p = Some k"
    "n < 2 ^ 64"
  shows "classify cfg (map the (pay_argv a net sid (int n) p)) = BillCall (signer_of cfg k) (CallPay sid n)"
  using assms fid_entry [OF assms(1,2)]
  by (simp add: classify_def pay_argv_def parse_move_run_argv decode_call_def arg_defs read_dec_dec_of_nat)

lemma classify_confirm:
  assumes "address a = Some (contract_addr cfg)" "CHR '':'' \<notin> set (contract_addr cfg)"
  shows "classify cfg (map the (confirm_argv a (Some k) net sid)) = BillCall (signer_of cfg k) (CallConfirm sid)"
  using assms fid_entry [OF assms(1,2)]
  by (simp add: classify_def confirm_argv_def parse_move_run_argv decode_call_def arg_defs read_dec_dec_of_nat)

lemma classify_create:
  assumes "address a = Some (contract_addr cfg)" "CHR '':'' \<notin> set (contract_addr cfg)"
    "sc_total sc = int tot" "tot < 2 ^ 64" "sc_required sc = int req" "req < 2 ^ 64"
  shows "classify cfg (map the (create_session_argv a (Some k) net sid sc addrs))
         = BillCall (signer_of cfg k) (CallCreate sid tot (sc_description sc) (py_split addrs '','')
              (py_split (py_join '','' (participant_names ''Participant_'' (length (sc_participants sc)))) '','') req)"
  using assms fid_entry [OF assms(1,2)]
  by (simp add: classify_def create_session_argv_def create_args_def parse_move_run_argv decode_call_def arg_defs read_dec_dec_of_nat)

section \<open>Lemmas: transactions on the registry\<close>

lemma session_op_expires:
  "session_op xfer q s = Inr (s', evs) \<Longrightarrow> expires_at s' = expires_at s"
  by (cases q) (auto simp: add_participant_def remove_participant_def confirm_session_def
      record_approval_def record_payment_def cancel_session_def Let_def
      split: if_splits option.splits sum.splits)

lemma sstep_expires: "expires_at (sstep xfer q s) = expires_at s"
  by (auto simp: sstep_def session_op_expires split: sum.splits)

lemma registry_step_ok:
  assumes "\<not> is_create q" "sessions r (request_sid q) = Some s" "now < expires_at s"
    "session_op xfer q s = Inr (s', evs)"
  shows "fst (registry_step xfer now q r) = Inr ()
         \<and> sessions (snd (registry_step xfer now q r)) = (sessions r)(request_sid q \<mapsto> s')"
  using assms by (simp add: registry_step_session guarded_def expired_at_def)

lemma run_txn_single:
  assumes "\<not> is_create q" "sessions r (request_sid q) = Some s" "now < expires_at s"
  shows "sessions (snd (run_txn xfer now [q] r)) = (sessions r)(request_sid q \<mapsto> sstep xfer q s)"
proof -
  have live: "\<not> expired_at now s" using assms(3) by (simp add: expired_at_def)
  show ?thesis
  proof (cases "session_op xfer q s")
    case (Inl e)
    then have "registry_step xfer now q r = (Inl e, r)"
      by (rule registry_step_refusal [OF assms(1,2) live])
    with Inl assms(2) show ?thesis
      by (simp add: run_txn_def sstep_def map_upd_triv)
  next
    case (Inr res)
    then obtain s' evs where op: "session_op xfer q s = Inr (s', evs)" by (cases res) auto
    with live assms(1,2) show ?thesis
      by (simp add: run_txn_def sstep_def registry_step_session guarded_def)
  qed
qed

lemma chain_replay_append:
  "chain_replay cfg k (xs @ ys) r = chain_replay cfg (k + length xs) ys (chain_replay cfg k xs r)"
  by (induction xs arbitrary: k r) simp_all

lemma chain_replay_single:
  assumes "\<forall>x \<in> set xs. \<exists>i cc. classify cfg (call_argv (f x)) = BillCall i cc
              \<and> (\<forall>now. call_requests cfg now i cc = Some [qf x])
              \<and> \<not> is_create (qf x) \<and> request_sid (qf x) = sid"
    and "sessions r sid = Some s" and "k + length xs \<le> expires_at s"
  shows "sessions (chain_replay cfg k (map f xs) r) sid = Some (fold (\<lambda>x. sstep (transfer cfg) (qf x)) xs s)"
  using assms
proof (induction xs arbitrary: k r s)
  case Nil
  then show ?case by simp
next
  case (Cons x xs)
  from Cons.prems(1) obtain i cc where c: "classify cfg (call_argv (f x)) = BillCall i cc"
    and q: "call_requests cfg k i cc = Some [qf x]" and nc: "\<not> is_create (qf x)"
    and sid: "request_sid (qf x) = sid" by auto
  have app: "chain_apply cfg k (f x) r = run_txn (transfer cfg) k [qf x] r"
    using c q by (simp add: chain_apply_def)
  have "sessions (snd (chain_apply cfg k (f x) r)) = (sessions r)(sid \<mapsto> sstep (transfer cfg) (qf x) s)"
    using run_txn_single [of "qf x" r s k "transfer cfg"] nc sid Cons.prems(2,3) app by simp
  then have s1: "sessions (snd (chain_apply cfg k (f x) r)) sid = Some (sstep (transfer cfg) (qf x) s)" by simp
  have "Suc k + length xs \<le> expires_at (sstep (transfer cfg) (qf x) s)"
    using Cons.prems(3) by (simp add: sstep_expires)
  from Cons.IH [OF _ s1 this] Cons.prems(1) show ?case by simp
qed

lemma add_all:
  assumes "sessions r sid = Some s" "state s = Draft" "now < expires_at s"
    "distinct (map fst L)" "set (map fst L) \<inter> set (map identity (participants s)) = {}"
    "\<forall>x \<in> set L. 0 < snd (snd x)" "length (participants s) + length L \<le> max_participants"
  shows "fst (run_requests xfer (map (Pair now) (map (\<lambda>(i, nm, amt). AddParticipant sid i nm amt) L)) r)
           = replicate (length L) (Inr ())
         \<and> sessions (snd (run_requests xfer (map (Pair now) (map (\<lambda>(i, nm, amt). AddParticipant sid i nm amt) L)) r)) sid
           = Some (s\<lparr>participants := participants s @ map (\<lambda>(i, nm, amt).
                      \<lparr>identity = i, display_name = nm, owed_amount = amt, has_approved = False, paid_amount = 0\<rparr>) L\<rparr>)"
  using assms
proof (induction L arbitrary: r s)
  case Nil
  then show ?case by simp
next
  case (Cons x L)
  obtain i nm amt where x: "x = (i, nm, amt)" by (cases x) auto
  let ?p = "\<lparr>identity = i, display_name = nm, owed_amount = amt, has_approved = False, paid_amount = 0\<rparr>"
  let ?s1 = "s\<lparr>participants := participants s @ [?p]\<rparr>"
  have np: "\<not> is_participant i s"
    using Cons.prems(5) x by (auto simp: is_participant_def list_ex_iff)
  have op: "session_op xfer (AddParticipant sid i nm amt) s = Inr (?s1, [])"
    using Cons.prems(2,6,7) np x by (simp add: add_participant_def)
  note st = registry_step_ok [of "AddParticipant sid i nm amt" r s now xfer ?s1 "[]"]
  let ?r1 = "snd (registry_step xfer now (AddParticipant sid i nm amt) r)"
  have r1: "sessions ?r1 sid = Some ?s1" and res: "fst (registry_step xfer now (AddParticipant sid i nm amt) r) = Inr ()"
    using st Cons.prems(1,3) op by simp_all
  have "state ?s1 = Draft" "now < expires_at ?s1" "distinct (map fst L)"
    "set (map fst L) \<inter> set (map identity (participants ?s1)) = {}"
    "\<forall>x \<in> set L. 0 < snd (snd x)" "length (participants ?s1) + length L \<le> max_participants"
    using Cons.prems(2-7) x by auto
  note IH = Cons.IH [OF r1 this]
  obtain res1 r1' where rs: "registry_step xfer now (AddParticipant sid i nm amt) r = (res1, r1')" by fastforce
  with res have "res1 = Inr ()" by simp
  obtain ress r2 where rr: "run_requests xfer (map (Pair now) (map (\<lambda>(i, nm, amt). AddParticipant sid i nm amt) L)) r1' = (ress, r2)"
    by fastforce
  from rs have "?r1 = r1'" by simp
  with IH rr have "ress = replicate (length L) (Inr ())" "sessions r2 sid = Some (?s1\<lparr>participants := participants ?s1 @ map (\<lambda>(i, nm, amt).
                      \<lparr>identity = i, display_name = nm, owed_amount = amt, has_approved = False, paid_amount = 0\<rparr>) L\<rparr>)"
    by simp_all
  with rs rr x \<open>res1 = Inr ()\<close> show ?case by simp
qed

lemma create_txn:
  assumes "sessions r sid = None" "0 < d" "distinct (map fst L)"
    "\<forall>x \<in> set L. 0 < snd (snd x)" "length L \<le> max_participants"
  shows "fst (run_txn xfer now (CreateSession sid desc req (now + d) # map (\<lambda>(i, nm, amt). AddParticipant sid i nm amt) L) r)
         \<and> sessions (snd (run_txn xfer now (CreateSession sid desc req (now + d) # map (\<lambda>(i, nm, amt). AddParticipant sid i nm amt) L) r)) sid
           = Some ((new_session sid desc req now (now + d))\<lparr>participants := map (\<lambda>(i, nm, amt).
                      \<lparr>identity = i, display_name = nm, owed_amount = amt, has_approved = False, paid_amount = 0\<rparr>) L\<rparr>)"
proof -
  let ?s0 = "new_session sid desc req now (now + d)"
  define r1 where "r1 = r\<lparr>sessions := (sessions r)(sid \<mapsto> ?s0), events := events r @ stamp sid now [EvSessionCreated]\<rparr>"
  have c: "registry_step xfer now (CreateSession sid desc req (now + d)) r = (Inr (), r1)"
    using assms(1) by (simp add: registry_step_def create_session_def r1_def)
  have s1: "sessions r1 sid = Some ?s0" by (simp add: r1_def)
  have "state ?s0 = Draft" "now < expires_at ?s0" "participants ?s0 = []"
    using assms(2) by (simp_all add: new_session_def)
  note A = add_all [OF s1 this(1,2), of L xfer]
  obtain ress r2 where rr: "run_requests xfer (map (Pair now) (map (\<lambda>(i, nm, amt). AddParticipant sid i nm amt) L)) r1 = (ress, r2)"
    by fastforce
  from A rr assms(3-5) \<open>participants ?s0 = []\<close>
  have "ress = replicate (length L) (Inr ())" "sessions r2 sid = Some (?s0\<lparr>participants := map (\<lambda>(i, nm, amt).
                      \<lparr>identity = i, display_name = nm, owed_amount = amt, has_approved = False, paid_amount = 0\<rparr>) L\<rparr>)"
    by simp_all
  with c rr show ?thesis by (simp add: run_txn_def list_all_iff)
qed

lemma chain_oracle_available: "cli_available other \<Longrightarrow> cli_available (chain_oracle cfg other)"
  by (auto simp: cli_available_def chain_oracle_def split: txn_kind.splits)

section \<open>Lemmas: reachability and refused creations\<close>

lemma run_txn_reachable:
  "reachable xfer r \<Longrightarrow> reachable xfer (snd (run_txn xfer now qs r))"
  using run_requests_reachable [of xfer r "map (Pair now) qs"]
  by (auto simp: run_txn_def split: prod.split)

lemma chain_replay_reachable:
  "reachable (transfer cfg) r \<Longrightarrow> reachable (transfer cfg) (chain_replay cfg k h r)"
proof (induction h arbitrary: k r)
  case Nil
  then show ?case by simp
next
  case (Cons c h)
  have "reachable (transfer cfg) (snd (chain_apply cfg k c r))"
    using Cons.prems run_txn_reachable
    by (auto simp: chain_apply_def split: txn_kind.split option.split)
  then show ?case by (simp add: Cons.IH)
qed

lemma chain_state_reachable: "reachable (transfer cfg) (chain_state cfg h)"
  unfolding chain_state_def by (rule chain_replay_reachable) (rule reachable.init)

lemma arg_u64_out_of_range:
  "i < 0 \<or> 2 ^ 64 \<le> i \<Longrightarrow> arg_u64 (''u64:'' @ py_str_int i) = None"
proof (cases "i < 0")
  case True
  then show ?thesis by (simp add: arg_defs py_str_int_def is_dec_def)
next
  case False
  moreover assume "i < 0 \<or> 2 ^ 64 \<le> i"
  ultimately have "2 ^ 64 \<le> nat i" by (simp add: le_nat_iff)
  with False show ?thesis by (simp add: arg_defs py_str_int_def)
qed

lemma classify_create_bad_total:
  assumes "address a = Some (contract_addr cfg)" "CHR '':'' \<notin> set (contract_addr cfg)"
    "sc_total sc < 0 \<or> 2 ^ 64 \<le> sc_total sc"
  shows "classify cfg (map the (create_session_argv a (Some k) net sid sc addrs)) = BadCall"
  using fid_entry [OF assms(1,2)] arg_u64_out_of_range [OF assms(3)]
  by (simp add: classify_def create_session_argv_def create_args_def parse_move_run_argv decode_call_def arg_string_def arg_vec_def strip_prefix_def)

section \<open>Lemmas: calls that address one session leave the others alone\<close>

lemma run_requests_other:
  "\<forall>x \<in> set qs. request_sid (snd x) \<noteq> sid \<Longrightarrow> sessions (snd (run_requests xfer qs r)) sid = sessions r sid"
proof (induction xfer qs r rule: run_requests.induct)
  case (1 xfer r)
  then show ?case by simp
next
  case (2 xfer now q qs r)
  obtain res r' where st: "registry_step xfer now q r = (res, r')" by fastforce
  have "sessions r' sid = sessions r sid"
    using registry_step_other [of q sid xfer now r] "2.prems" st by simp
  then show ?case using 2 st by (simp add: split_def)
qed

lemma call_requests_sid:
  "call_requests cfg now i cc = Some qs \<Longrightarrow> q \<in> set qs \<Longrightarrow> request_sid q = call_sid cc"
  by (cases cc) (auto simp: call_requests_def split: if_splits)

lemma chain_apply_other:
  assumes "\<forall>i cc. classify cfg (call_argv c) = BillCall i cc \<longrightarrow> call_sid cc \<noteq> sid"
  shows "sessions (snd (chain_apply cfg k c r)) sid = sessions r sid"
proof (cases "classify cfg (call_argv c)")
  case (BillCall i cc)
  then show ?thesis
  proof (cases "call_requests cfg k i cc")
    case (Some qs)
    have "\<forall>x \<in> set (map (Pair k) qs). request_sid (snd x) \<noteq> sid"
      using assms BillCall call_requests_sid [OF Some] by auto
    then show ?thesis
      using BillCall Some run_requests_other [of "map (Pair k) qs" sid "transfer cfg" r]
      by (simp add: chain_apply_def run_txn_def split_def)
  qed (simp add: chain_apply_def)
qed (simp_all add: chain_apply_def)

lemma chain_replay_other:
  "\<forall>c \<in> set cs. \<forall>i cc. classify cfg (call_argv c) = BillCall i cc \<longrightarrow> call_sid cc \<noteq> sid
   \<Longrightarrow> sessions (chain_replay cfg k cs r) sid = sessions r sid"
  by (induction cs arbitrary: k r) (simp_all add: chain_apply_other)

lemma frame_log:
  assumes "\<forall>c \<in> set (map f ys). \<forall>i cc. classify cfg (call_argv c) = BillCall i cc \<longrightarrow> call_sid cc = sid0"
    "sid \<noteq> sid0"
  shows "sessions (chain_state cfg (h @ map f ys)) sid = sessions (chain_state cfg h) sid"
proof -
  have "\<forall>c \<in> set (map f ys). \<forall>i cc. classify cfg (call_argv c) = BillCall i cc \<longrightarrow> call_sid cc \<noteq> sid"
    using assms by auto
  then show ?thesis
    using chain_replay_other [of "map f ys" cfg sid "length h" "chain_state cfg h"]
    by (simp add: chain_state_def chain_replay_append)
qed

lemma oracle_bill:
  "classify cfg (call_argv c) = BillCall i cc \<Longrightarrow> \<exists>rc. chain_oracle cfg other h c = Completed rc [] []"
  by (simp add: chain_oracle_def)

end
