(* ===== verification/ScenarioRuns.thy ===== *)
theory ScenarioRuns
  imports Chain
begin

text \<open>
  What a run of \<open>_execute_test_scenario\<close> does to the chain, stage by stage. The
  session-level lemmas follow one session through a sequence of requests
  (\<open>fold\<close> of \<open>sstep\<close>): every signature of a fresh participant set reaches the
  quorum; equal payments settle exactly when their sum reaches the total. The
  stage lemmas lift them to the replay of the calls the script issues: the create
  transaction (session and participants in one atomic step), the confirmation with
  the signatures, and the payments.
\<close>

section \<open>One session through a sequence of requests\<close>

lemma sstep_approval_closed:
  "state s \<noteq> AwaitingApproval \<Longrightarrow> sstep xfer (RecordApproval sid i) s = s"
  by (simp add: sstep_def record_approval_def split: option.splits)

lemma fold_sstep_fixed:
  "(\<And>x. sstep xfer (qf x) s = s) \<Longrightarrow> fold (\<lambda>x. sstep xfer (qf x)) xs s = s"
  by (induction xs) simp_all

lemma sstep_payment_closed:
  "state s \<noteq> AwaitingPayment \<or> d = 0 \<Longrightarrow> sstep xfer (RecordPayment sid i d) s = s"
  by (auto simp: sstep_def record_payment_def)

lemma approve_all:
  assumes "state s = AwaitingApproval" "approvals_count s < required_signatures s"
    "required_signatures s \<le> approvals_count s + length is" "distinct is"
    "set is \<subseteq> set (map identity (participants s))"
    "\<forall>p \<in> set (participants s). identity p \<in> set is \<longrightarrow> \<not> has_approved p"
    "fold (\<lambda>i. sstep xfer (RecordApproval sid i)) is s = s'"
  shows "state s' = AwaitingPayment \<and> approvals_count s' = required_signatures s
         \<and> required_signatures s' = required_signatures s
         \<and> total_amount s' = total_amount s \<and> payments_total s' = payments_total s
         \<and> map identity (participants s') = map identity (participants s)
         \<and> expires_at s' = expires_at s"
  using assms
proof (induction "is" arbitrary: s)
  case Nil
  then show ?case by simp
next
  case (Cons i rest)
  have "is_participant i s"
    using Cons.prems(5) by (auto simp: is_participant_def list_ex_iff)
  then obtain p where p: "find_participant i s = Some p"
    by (auto simp: is_participant_find)
  from find_participant_Some [OF p] Cons.prems(6) have np: "\<not> has_approved p" by auto
  define s1 where "s1 = s\<lparr>participants := update_participant i (\<lambda>q. q\<lparr>has_approved := True\<rparr>) (participants s),
                          approvals_count := Suc (approvals_count s)\<rparr>"
  have ids: "map identity (participants s1) = map identity (participants s)"
    by (simp add: s1_def update_participant_map)
  show ?case
  proof (cases "quorum_reached s1")
    case True
    then have st: "sstep xfer (RecordApproval sid i) s = s1\<lparr>state := AwaitingPayment\<rparr>"
      using p np Cons.prems(1) by (simp add: sstep_def record_approval_def s1_def Let_def)
    have "fold (\<lambda>i. sstep xfer (RecordApproval sid i)) rest (s1\<lparr>state := AwaitingPayment\<rparr>) = s1\<lparr>state := AwaitingPayment\<rparr>"
      by (rule fold_sstep_fixed) (simp add: sstep_approval_closed)
    with st Cons.prems(7) have "s' = s1\<lparr>state := AwaitingPayment\<rparr>" by simp
    with True Cons.prems(2) ids show ?thesis by (simp add: s1_def quorum_reached_def)
  next
    case False
    then have st: "sstep xfer (RecordApproval sid i) s = s1"
      using p np Cons.prems(1) by (simp add: sstep_def record_approval_def s1_def Let_def)
    have na: "\<forall>q \<in> set (participants s1). identity q \<in> set rest \<longrightarrow> \<not> has_approved q"
    proof (intro ballI impI)
      fix q assume q: "q \<in> set (participants s1)" "identity q \<in> set rest"
      with Cons.prems(4) have ne: "identity q \<noteq> i" by auto
      from q(1) have q1: "q \<in> set (update_participant i (\<lambda>q. q\<lparr>has_approved := True\<rparr>) (participants s))"
        by (simp add: s1_def)
      have "q \<in> set (participants s)"
        using update_participant_other [OF _ q1 ne] by simp
      with q(2) Cons.prems(6) show "\<not> has_approved q" by auto
    qed
    have "state s1 = AwaitingApproval" "approvals_count s1 < required_signatures s1"
      "required_signatures s1 \<le> approvals_count s1 + length rest" "distinct rest"
      "set rest \<subseteq> set (map identity (participants s1))"
      using False Cons.prems(1-5) ids by (simp_all add: s1_def quorum_reached_def)
    from Cons.IH [OF this na] st Cons.prems(7) ids show ?thesis by (simp add: s1_def)
  qed
qed

lemma pay_all_settles:
  assumes "state s = AwaitingPayment" "payments_total s < total_amount s"
    "set is \<subseteq> set (map identity (participants s))" "\<forall>i. xfer sid i d"
  shows "state (fold (\<lambda>i. sstep xfer (RecordPayment sid i d)) is s) = Settled
         \<longleftrightarrow> 0 < d \<and> total_amount s \<le> payments_total s + length is * d"
  using assms
proof (induction "is" arbitrary: s)
  case Nil
  then show ?case by simp
next
  case (Cons i rest)
  show ?case
  proof (cases "d = 0")
    case True
    then have "fold (\<lambda>i. sstep xfer (RecordPayment sid i d)) (i # rest) s = s"
      by (intro fold_sstep_fixed) (simp add: sstep_payment_closed)
    with True Cons.prems(1) show ?thesis by simp
  next
    case False
    have ip: "is_participant i s"
      using Cons.prems(3) by (auto simp: is_participant_def list_ex_iff)
    define s1 where "s1 = s\<lparr>participants := update_participant i (\<lambda>q. q\<lparr>paid_amount := paid_amount q + d\<rparr>) (participants s),
                            payments_total := payments_total s + d\<rparr>"
    have ids: "map identity (participants s1) = map identity (participants s)"
      by (simp add: s1_def update_participant_map)
    show ?thesis
    proof (cases "total_amount s \<le> payments_total s + d")
      case True
      then have st: "sstep xfer (RecordPayment sid i d) s = s1\<lparr>state := Settled\<rparr>"
        using ip False Cons.prems(1,4) by (simp add: sstep_def record_payment_def s1_def Let_def)
      have "fold (\<lambda>i. sstep xfer (RecordPayment sid i d)) rest (s1\<lparr>state := Settled\<rparr>) = s1\<lparr>state := Settled\<rparr>"
        by (rule fold_sstep_fixed) (simp add: sstep_payment_closed)
      with st True False show ?thesis by (simp add: add_mult_distrib2 trans_le_add1)
    next
      case nq: False
      then have st: "sstep xfer (RecordPayment sid i d) s = s1"
        using ip False Cons.prems(1,4) by (simp add: sstep_def record_payment_def s1_def Let_def)
      have "state s1 = AwaitingPayment" "payments_total s1 < total_amount s1"
        "set rest \<subseteq> set (map identity (participants s1))"
        using nq Cons.prems(1,3) ids by (simp_all add: s1_def)
      from Cons.IH [OF this Cons.prems(4)] st show ?thesis by (simp add: s1_def add.assoc)
    qed
  qed
qed

lemma confirm_sstep:
  assumes "state s = Draft" "2 \<le> length (participants s)"
    "1 \<le> required_signatures s" "required_signatures s \<le> length (participants s)"
  shows "sstep xfer (ConfirmSession sid) s = s\<lparr>state := AwaitingApproval, total_amount := total_owed s\<rparr>"
  using assms by (simp add: sstep_def confirm_session_def Let_def)

lemma fold_payment_approvals:
  "approvals_count (fold (\<lambda>i. sstep xfer (RecordPayment sid i d)) is s) = approvals_count s"
  by (induction "is" arbitrary: s)
     (simp_all add: sstep_def record_payment_def Let_def split: sum.splits)

section \<open>Stages of the scenario on the chain\<close>

lemma names_no_comma: "\<forall>x \<in> set (participant_names ''Participant_'' n). CHR '','' \<notin> set x"
proof
  fix x assume "x \<in> set (participant_names ''Participant_'' n)"
  then obtain i where x: "x = ''Participant_'' @ dec_of_nat i" by (auto simp: participant_names_def)
  have "CHR '','' \<notin> set (dec_of_nat i)"
    using dec_of_nat_digits [of i] by (auto simp: list_all_iff)
  with x show "CHR '','' \<notin> set x" by simp
qed

lemma split_join_names:
  "0 < n \<Longrightarrow> py_split (py_join '','' (participant_names ''Participant_'' n)) '','' = participant_names ''Participant_'' n"
  using split_join [OF _ names_no_comma] by (simp add: participant_names_def)

lemma listed_participants:
  assumes "length ys = length xs" "length zs = length xs"
  shows "map identity (map (\<lambda>(i, nm, amt). \<lparr>identity = i, display_name = nm, owed_amount = amt,
              has_approved = False, paid_amount = 0\<rparr>) (zip xs (zip ys zs))) = xs
         \<and> map owed_amount (map (\<lambda>(i, nm, amt). \<lparr>identity = i, display_name = nm, owed_amount = amt,
              has_approved = False, paid_amount = 0\<rparr>) (zip xs (zip ys zs))) = zs"
  using assms
proof (induction xs arbitrary: ys zs)
  case Nil
  then show ?case by simp
next
  case (Cons x xs)
  then obtain y ys' z zs' where "ys = y # ys'" "zs = z # zs'" by (metis length_Suc_conv)
  with Cons show ?case by simp
qed

lemma equal_shares_settle:
  "0 < (T::nat) \<Longrightarrow> (0 < T div n \<and> T \<le> 0 + n * (T div n)) \<longleftrightarrow> n dvd T"
proof -
  assume T: "0 < T"
  have le: "n * (T div n) \<le> T" using div_mult_mod_eq [of T n] by (metis le_add1 mult.commute)
  show ?thesis
  proof
    assume "0 < T div n \<and> T \<le> 0 + n * (T div n)"
    with le have "n * (T div n) = T" by linarith
    then show "n dvd T" by (metis dvd_triv_left)
  next
    assume "n dvd T"
    then have "n * (T div n) = T" by simp
    with T show "0 < T div n \<and> T \<le> 0 + n * (T div n)" by (auto intro: gr0I)
  qed
qed

lemma sum_positive: "xs \<noteq> [] \<Longrightarrow> \<forall>x \<in> set xs. 0 < (x::nat) \<Longrightarrow> 0 < sum_list xs"
  by (cases xs) auto

lemma scenario_ids:
  assumes "\<forall>p \<in> set ps. \<exists>ad key. address p = Some ad \<and> private_key p = Some key \<and> signer_of cfg key = ad \<and> CHR '','' \<notin> set ad"
    and "distinct (map address ps)"
  shows "distinct (map (the \<circ> address) ps) \<and> (\<forall>x \<in> set (map (the \<circ> address) ps). CHR '','' \<notin> set x)
         \<and> (\<forall>p \<in> set ps. \<exists>key. private_key p = Some key \<and> signer_of cfg key = the (address p))
         \<and> (\<forall>p \<in> set ps. address p \<noteq> None \<and> private_key p \<noteq> None)"
proof -
  have "inj_on (the \<circ> address) (set ps)"
  proof (rule inj_onI)
    fix p p' assume pp: "p \<in> set ps" "p' \<in> set ps" "(the \<circ> address) p = (the \<circ> address) p'"
    from assms(1) pp(1) obtain ad where a: "address p = Some ad" by blast
    from assms(1) pp(2) obtain ad' where a': "address p' = Some ad'" by blast
    from a a' pp(3) have "address p = address p'" by simp
    with assms(2) \<open>p \<in> set ps\<close> \<open>p' \<in> set ps\<close> show "p = p'" by (auto dest: inj_onD simp: distinct_map)
  qed
  with assms(2) have "distinct (map (the \<circ> address) ps)" by (simp add: distinct_map)
  with assms(1) show ?thesis by fastforce
qed

lemma scenario_create:
  assumes fid: "address a = Some (contract_addr cfg)" "CHR '':'' \<notin> set (contract_addr cfg)"
    and num: "sc_total sc = int T" "T < 2 ^ 64" "sc_required sc = int q" "q < 2 ^ 64"
    and ids: "ids = map (the \<circ> address) (sc_participants sc)" "distinct ids" "\<forall>x \<in> set ids. CHR '','' \<notin> set x"
      "2 \<le> length ids" "length ids \<le> max_participants"
    and sh: "length (shares cfg T (length ids)) = length ids" "\<forall>x \<in> set (shares cfg T (length ids)). 0 < x"
    and live: "0 < ttl cfg" and fresh: "sessions r sid = None"
  shows "(\<exists>i cc. classify cfg (map the (create_session_argv a (Some mk) net sid sc (py_join '','' ids))) = BillCall i cc)
         \<and> fst (chain_apply cfg k (mk_call d (map the (create_session_argv a (Some mk) net sid sc (py_join '','' ids))) None) r)
         \<and> sessions (snd (chain_apply cfg k (mk_call d (map the (create_session_argv a (Some mk) net sid sc (py_join '','' ids))) None) r)) sid
           = Some ((new_session sid (sc_description sc) q k (k + ttl cfg))\<lparr>participants := map (\<lambda>(i, nm, amt).
                      \<lparr>identity = i, display_name = nm, owed_amount = amt, has_approved = False, paid_amount = 0\<rparr>)
                    (zip ids (zip (participant_names ''Participant_'' (length ids)) (shares cfg T (length ids))))\<rparr>)"
proof -
  let ?n = "length ids"
  let ?names = "participant_names ''Participant_'' ?n"
  let ?L = "zip ids (zip ?names (shares cfg T ?n))"
  have n: "length (sc_participants sc) = ?n" using ids(1) by simp
  have "ids \<noteq> []" using ids(4) by auto
  then have sp: "py_split (py_join '','' ids) '','' = ids"
    using split_join [OF _ ids(3)] by simp
  have nm: "py_split (py_join '','' ?names) '','' = ?names"
    using split_join_names [of ?n] \<open>ids \<noteq> []\<close> by simp
  have cl: "classify cfg (map the (create_session_argv a (Some mk) net sid sc (py_join '','' ids)))
            = BillCall (signer_of cfg mk) (CallCreate sid T (sc_description sc) ids ?names q)"
    using classify_create [OF fid num, of mk net sid "py_join '','' ids"] sp nm n by simp
  have len: "length ?names = ?n" by (simp add: participant_names_def)
  have rq: "call_requests cfg k (signer_of cfg mk) (CallCreate sid T (sc_description sc) ids ?names q)
            = Some (CreateSession sid (sc_description sc) q (k + ttl cfg)
                    # map (\<lambda>(i, nm, amt). AddParticipant sid i nm amt) ?L)"
    using len by (simp add: call_requests_def)
  have "map fst ?L = ids" using len sh(1) by simp
  moreover have "\<forall>x \<in> set ?L. 0 < snd (snd x)"
  proof
    fix x assume "x \<in> set ?L"
    then have "snd x \<in> set (zip ?names (shares cfg T ?n))" by (metis prod.collapse set_zip_rightD)
    then have "snd (snd x) \<in> set (shares cfg T ?n)" by (metis prod.collapse set_zip_rightD)
    with sh(2) show "0 < snd (snd x)" by blast
  qed
  moreover have "length ?L \<le> max_participants" using ids(5) by simp
  ultimately have tx: "fst (run_txn (transfer cfg) k (CreateSession sid (sc_description sc) q (k + ttl cfg)
                    # map (\<lambda>(i, nm, amt). AddParticipant sid i nm amt) ?L) r)
         \<and> sessions (snd (run_txn (transfer cfg) k (CreateSession sid (sc_description sc) q (k + ttl cfg)
                    # map (\<lambda>(i, nm, amt). AddParticipant sid i nm amt) ?L) r)) sid
           = Some ((new_session sid (sc_description sc) q k (k + ttl cfg))\<lparr>participants := map (\<lambda>(i, nm, amt).
                      \<lparr>identity = i, display_name = nm, owed_amount = amt, has_approved = False, paid_amount = 0\<rparr>) ?L\<rparr>)"
    using create_txn [OF fresh live] ids(2) by simp
  show ?thesis using tx cl rq by (simp add: chain_apply_def mk_call_def)
qed

lemma scenario_approve:
  assumes fid: "address a = Some (contract_addr cfg)" "CHR '':'' \<notin> set (contract_addr cfg)"
    and keys: "\<forall>p \<in> set ps. \<exists>key. private_key p = Some key \<and> signer_of cfg key = the (address p)"
    and ids: "map identity (participants s) = map (the \<circ> address) ps" "distinct (map (the \<circ> address) ps)"
    and s: "sessions r sid = Some s" "state s = Draft" "approvals_count s = 0"
      "list_all (\<lambda>p. \<not> has_approved p) (participants s)" "2 \<le> length ps"
      "1 \<le> required_signatures s" "required_signatures s \<le> length ps"
      "k + Suc (length ps) \<le> expires_at s"
  shows "\<exists>s'. sessions (chain_replay cfg k (mk_call d (map the (confirm_argv a (Some mk) net sid)) None
                  # map (\<lambda>p. mk_call d (map the (sign_argv a net sid p)) None) ps) r) sid = Some s'
           \<and> state s' = AwaitingPayment \<and> approvals_count s' = required_signatures s
           \<and> total_amount s' = total_owed s \<and> payments_total s' = payments_total s
           \<and> map identity (participants s') = map identity (participants s)
           \<and> expires_at s' = expires_at s"
proof -
  have n: "length (participants s) = length ps" using arg_cong [OF ids(1), of length] by simp
  let ?s2 = "s\<lparr>state := AwaitingApproval, total_amount := total_owed s\<rparr>"
  have cf: "sstep (transfer cfg) (ConfirmSession sid) s = ?s2"
    using s(2,5-7) n by (intro confirm_sstep) simp_all
  have app: "chain_apply cfg k (mk_call d (map the (confirm_argv a (Some mk) net sid)) None) r
             = run_txn (transfer cfg) k [ConfirmSession sid] r"
    using classify_confirm [OF fid, of mk net sid] by (simp add: chain_apply_def call_requests_def mk_call_def)
  let ?r1 = "snd (chain_apply cfg k (mk_call d (map the (confirm_argv a (Some mk) net sid)) None) r)"
  have r1: "sessions ?r1 sid = Some ?s2"
    using run_txn_single [of "ConfirmSession sid" r s k "transfer cfg"] s(1,8) cf app by simp
  let ?qf = "\<lambda>p. RecordApproval sid (the (address p))"
  have sg: "\<forall>p \<in> set ps. \<exists>i cc. classify cfg (call_argv (mk_call d (map the (sign_argv a net sid p)) None)) = BillCall i cc
              \<and> (\<forall>now. call_requests cfg now i cc = Some [?qf p]) \<and> \<not> is_create (?qf p) \<and> request_sid (?qf p) = sid"
  proof
    fix p assume "p \<in> set ps"
    with keys obtain key where "private_key p = Some key" "signer_of cfg key = the (address p)" by blast
    with classify_sign [OF fid, of p key net sid]
    show "\<exists>i cc. classify cfg (call_argv (mk_call d (map the (sign_argv a net sid p)) None)) = BillCall i cc
              \<and> (\<forall>now. call_requests cfg now i cc = Some [?qf p]) \<and> \<not> is_create (?qf p) \<and> request_sid (?qf p) = sid"
      by (simp add: call_requests_def mk_call_def)
  qed
  have "Suc k + length ps \<le> expires_at ?s2" using s(8) by simp
  from chain_replay_single [OF sg r1 this]
  have fin: "sessions (chain_replay cfg (Suc k) (map (\<lambda>p. mk_call d (map the (sign_argv a net sid p)) None) ps) ?r1) sid
             = Some (fold (\<lambda>i. sstep (transfer cfg) (RecordApproval sid i)) (map (the \<circ> address) ps) ?s2)"
    by (simp add: fold_map comp_def)
  obtain s' where s': "fold (\<lambda>i. sstep (transfer cfg) (RecordApproval sid i)) (map (the \<circ> address) ps) ?s2 = s'" by blast
  have "state ?s2 = AwaitingApproval" "approvals_count ?s2 < required_signatures ?s2"
    "required_signatures ?s2 \<le> approvals_count ?s2 + length (map (the \<circ> address) ps)"
    "set (map (the \<circ> address) ps) \<subseteq> set (map identity (participants ?s2))"
    "\<forall>p \<in> set (participants ?s2). identity p \<in> set (map (the \<circ> address) ps) \<longrightarrow> \<not> has_approved p"
    using s(3,4,6,7) ids(1) by (simp_all add: list_all_iff)
  from approve_all [OF this(1-3) ids(2) this(4,5) s'] fin s' show ?thesis by simp
qed

lemma scenario_pay:
  assumes fid: "address a = Some (contract_addr cfg)" "CHR '':'' \<notin> set (contract_addr cfg)"
    and keys: "\<forall>p \<in> set ps. \<exists>key. private_key p = Some key \<and> signer_of cfg key = the (address p)"
    and s: "sessions r sid = Some s" "state s = AwaitingPayment" "payments_total s < total_amount s"
      "set (map (the \<circ> address) ps) \<subseteq> set (map identity (participants s))" "k + length ps \<le> expires_at s"
    and amt: "amt < 2 ^ 64" "\<forall>i. transfer cfg sid i amt"
  shows "\<exists>s'. sessions (chain_replay cfg k (map (\<lambda>p. mk_call d (map the (pay_argv a net sid (int amt) p)) None) ps) r) sid = Some s'
           \<and> (state s' = Settled \<longleftrightarrow> 0 < amt \<and> total_amount s \<le> payments_total s + length ps * amt)
           \<and> approvals_count s' = approvals_count s"
proof -
  let ?qf = "\<lambda>p. RecordPayment sid (the (address p)) amt"
  have py: "\<forall>p \<in> set ps. \<exists>i cc. classify cfg (call_argv (mk_call d (map the (pay_argv a net sid (int amt) p)) None)) = BillCall i cc
              \<and> (\<forall>now. call_requests cfg now i cc = Some [?qf p]) \<and> \<not> is_create (?qf p) \<and> request_sid (?qf p) = sid"
  proof
    fix p assume "p \<in> set ps"
    with keys obtain key where "private_key p = Some key" "signer_of cfg key = the (address p)" by blast
    with classify_pay [OF fid _ amt(1), of p key net sid]
    show "\<exists>i cc. classify cfg (call_argv (mk_call d (map the (pay_argv a net sid (int amt) p)) None)) = BillCall i cc
              \<and> (\<forall>now. call_requests cfg now i cc = Some [?qf p]) \<and> \<not> is_create (?qf p) \<and> request_sid (?qf p) = sid"
      by (simp add: call_requests_def mk_call_def)
  qed
  from chain_replay_single [OF py s(1,5)]
  have fin: "sessions (chain_replay cfg k (map (\<lambda>p. mk_call d (map the (pay_argv a net sid (int amt) p)) None) ps) r) sid
             = Some (fold (\<lambda>i. sstep (transfer cfg) (RecordPayment sid i amt)) (map (the \<circ> address) ps) s)"
    by (simp add: fold_map comp_def)
  from pay_all_settles [where xfer = "transfer cfg" and sid = sid and d = amt, OF s(2-4) amt(2)] fin fold_payment_approvals show ?thesis by simp
qed

section \<open>The argument vectors of a scenario, decoded\<close>

lemma scenario_argv_decode:
  assumes adm: "address a = Some (contract_addr cfg)" "CHR '':'' \<notin> set (contract_addr cfg)"
    and ps: "\<forall>p \<in> set (sc_participants sc). \<exists>ad key. address p = Some ad \<and> private_key p = Some key \<and> CHR '','' \<notin> set ad"
      "sc_participants sc \<noteq> []"
    and tot: "sc_total sc = int T" "T < 2 ^ 64" and req: "sc_required sc = int q" "q < 2 ^ 64"
  shows "map (classify cfg \<circ> map the)
           ([create_session_argv a (Some mk) net sid sc (py_join '','' (map (the \<circ> address) (sc_participants sc))),
             confirm_argv a (Some mk) net sid]
            @ map (sign_argv a net sid) (sc_participants sc)
            @ map (pay_argv a net sid (int (T div length (sc_participants sc)))) (sc_participants sc))
       = BillCall (signer_of cfg mk) (CallCreate sid T (sc_description sc)
              (map (the \<circ> address) (sc_participants sc)) (participant_names ''Participant_'' (length (sc_participants sc))) q)
       # BillCall (signer_of cfg mk) (CallConfirm sid)
       # map (\<lambda>p. BillCall (signer_of cfg (the (private_key p))) (CallSign sid)) (sc_participants sc)
       @ map (\<lambda>p. BillCall (signer_of cfg (the (private_key p))) (CallPay sid (T div length (sc_participants sc)))) (sc_participants sc)"
proof -
  let ?ps = "sc_participants sc" and ?n = "length (sc_participants sc)"
  let ?ids = "map (the \<circ> address) ?ps"
  have ids: "py_split (py_join '','' ?ids) '','' = ?ids"
    using split_join [of ?ids "CHR '',''"] ps by fastforce
  have names: "py_split (py_join '','' (participant_names ''Participant_'' ?n)) '','' = participant_names ''Participant_'' ?n"
    using split_join_names ps(2) by simp
  have amt: "T div ?n < 2 ^ 64" using tot(2) by (meson div_le_dividend le_less_trans)
  have sign: "map (\<lambda>p. classify cfg (map the (sign_argv a net sid p))) ?ps
      = map (\<lambda>p. BillCall (signer_of cfg (the (private_key p))) (CallSign sid)) ?ps"
    using classify_sign [OF adm] ps(1) by (auto intro!: map_cong)
  have pay: "map (\<lambda>p. classify cfg (map the (pay_argv a net sid (int (T div ?n)) p))) ?ps
      = map (\<lambda>p. BillCall (signer_of cfg (the (private_key p))) (CallPay sid (T div ?n))) ?ps"
    using classify_pay [OF adm _ amt] ps(1) by (auto intro!: map_cong)
  show ?thesis
    using classify_create [OF adm tot req, where k = mk and net = net and sid = sid and addrs = "py_join '','' ?ids"]
      classify_confirm [OF adm, where k = mk and net = net and sid = sid] ids names sign pay
    by (simp add: comp_def)
qed

lemma scenario_calls_name_sid:
  assumes adm: "address a = Some (contract_addr cfg)" "CHR '':'' \<notin> set (contract_addr cfg)"
    and ps: "\<forall>p \<in> set (sc_participants sc). \<exists>ad key. address p = Some ad \<and> private_key p = Some key \<and> CHR '','' \<notin> set ad"
      "sc_participants sc \<noteq> []"
    and tot: "sc_total sc = int T" "T < 2 ^ 64" and req: "sc_required sc = int q" "q < 2 ^ 64"
  shows "\<forall>c \<in> set (map (\<lambda>xs. mk_call d (map the xs) None)
           ([create_session_argv a (Some mk) net sid sc (py_join '','' (map (the \<circ> address) (sc_participants sc))),
             confirm_argv a (Some mk) net sid]
            @ map (sign_argv a net sid) (sc_participants sc)
            @ map (pay_argv a net sid (int (T div length (sc_participants sc)))) (sc_participants sc))).
         \<forall>i cc. classify cfg (call_argv c) = BillCall i cc \<longrightarrow> call_sid cc = sid"
proof -
  let ?ps = "sc_participants sc" and ?n = "length (sc_participants sc)"
  let ?ids = "map (the \<circ> address) ?ps"
  let ?c = "\<lambda>xs. mk_call d (map the xs) None"
  let ?xs = "[create_session_argv a (Some mk) net sid sc (py_join '','' ?ids), confirm_argv a (Some mk) net sid]
             @ map (sign_argv a net sid) ?ps @ map (pay_argv a net sid (int (T div ?n))) ?ps"
  note D = scenario_argv_decode [OF adm ps tot req, where mk = mk and net = net and sid = sid]
  have S: "set (map (classify cfg \<circ> map the) ?xs) = set (BillCall (signer_of cfg mk) (CallCreate sid T (sc_description sc) ?ids
              (participant_names ''Participant_'' ?n) q)
       # BillCall (signer_of cfg mk) (CallConfirm sid)
       # map (\<lambda>p. BillCall (signer_of cfg (the (private_key p))) (CallSign sid)) ?ps
       @ map (\<lambda>p. BillCall (signer_of cfg (the (private_key p))) (CallPay sid (T div ?n))) ?ps)"
    using arg_cong [OF D, of set] .
  show "\<forall>c \<in> set (map ?c ?xs). \<forall>i cc. classify cfg (call_argv c) = BillCall i cc \<longrightarrow> call_sid cc = sid"
  proof (intro ballI allI impI)
    fix c i cc assume c: "c \<in> set (map ?c ?xs)" and k: "classify cfg (call_argv c) = BillCall i cc"
    from c obtain x where x: "x \<in> set ?xs" "c = ?c x" by auto
    have m: "(classify cfg \<circ> map the) x \<in> set (map (classify cfg \<circ> map the) ?xs)"
      unfolding set_map using x(1) by (rule imageI)
    have e: "(classify cfg \<circ> map the) x = BillCall i cc" using x(2) k by (simp add: mk_call_def)
    have "BillCall i cc \<in> set (BillCall (signer_of cfg mk) (CallCreate sid T (sc_description sc) ?ids
              (participant_names ''Participant_'' ?n) q)
       # BillCall (signer_of cfg mk) (CallConfirm sid)
       # map (\<lambda>p. BillCall (signer_of cfg (the (private_key p))) (CallSign sid)) ?ps
       @ map (\<lambda>p. BillCall (signer_of cfg (the (private_key p))) (CallPay sid (T div ?n))) ?ps)"
      using m unfolding S e .
    then show "call_sid cc = sid" by auto
  qed
qed

end
