(* ===== verification/Summary.thy ===== *)
theory Summary
  imports Prelude
begin

text \<open>
  \<open>src/contracts/script.py\<close>: the project summary. The script builds a dictionary
  and four lists of strings and prints them section by section. A Python \<open>str\<close> is a
  list of Unicode code points (\<open>pystr\<close>); ASCII literals are written with \<open>u\<close>, the
  emoji and box-drawing characters by their code points. \<open>print\<close> encodes its text
  with the encoding of \<open>sys.stdout\<close> and writes the bytes (a \<open>string\<close> of 8-bit
  characters); a code point the encoding cannot represent raises
  \<open>UnicodeEncodeError\<close> and nothing of that line is written. A subscript of a
  dictionary raises \<open>KeyError\<close> when the key is missing.
\<close>

type_synonym pystr = "nat list"

datatype stdout_encoding = UTF8 | Latin1 | ASCII

datatype pyval = VStr pystr | VInt int

type_synonym pydict = "(pystr \<times> pyval) list"

section \<open>Python built-ins used by the script\<close>

definition u :: "string \<Rightarrow> pystr" where
  "u s = map of_char s"

text \<open>UTF-8: one to four bytes per code point.\<close>

definition utf8_cp :: "nat \<Rightarrow> string" where
  "utf8_cp c =
     (if c < 0x80 then [char_of c]
      else if c < 0x800 then [char_of (0xC0 + c div 0x40), char_of (0x80 + c mod 0x40)]
      else if c < 0x10000
      then [char_of (0xE0 + c div 0x1000), char_of (0x80 + c div 0x40 mod 0x40),
            char_of (0x80 + c mod 0x40)]
      else [char_of (0xF0 + c div 0x40000), char_of (0x80 + c div 0x1000 mod 0x40),
            char_of (0x80 + c div 0x40 mod 0x40), char_of (0x80 + c mod 0x40)])"

text \<open>\<open>str.encode(enc)\<close> of one code point with \<open>errors='strict'\<close>: surrogates and values
  beyond \<open>U+10FFFF\<close> have no UTF-8 form; Latin-1 and ASCII stop at 255 and 127.\<close>

definition encode_cp :: "stdout_encoding \<Rightarrow> nat \<Rightarrow> string option" where
  "encode_cp enc c =
     (case enc of
        UTF8 \<Rightarrow> if (0xD800 \<le> c \<and> c < 0xE000) \<or> 0x110000 \<le> c then None else Some (utf8_cp c)
      | Latin1 \<Rightarrow> if c < 0x100 then Some [char_of c] else None
      | ASCII \<Rightarrow> if c < 0x80 then Some [char_of c] else None)"

definition py_encode :: "stdout_encoding \<Rightarrow> pystr \<Rightarrow> string option" where
  "py_encode enc s = map_option concat (those (map (encode_cp enc) s))"

text \<open>\<open>print(s)\<close>: the text and its newline are encoded and appended to stdout.\<close>

definition py_print :: "stdout_encoding \<Rightarrow> pystr \<Rightarrow> (string, unit) pyst" where
  "py_print enc s out =
     (case py_encode enc (s @ [10]) of
        None \<Rightarrow> (Inl UnicodeEncodeError, out)
      | Some bs \<Rightarrow> (Inr (), out @ bs))"

text \<open>\<open>s * n\<close> on a string.\<close>

definition py_repeat :: "pystr \<Rightarrow> nat \<Rightarrow> pystr" where
  "py_repeat s n = concat (replicate n s)"

text \<open>\<open>d[k]\<close> and the f-string rendering \<open>{v}\<close> of a value.\<close>

definition py_getitem :: "pydict \<Rightarrow> pystr \<Rightarrow> ('s, pyval) pyst" where
  "py_getitem d k s = (case map_of d k of None \<Rightarrow> (Inl (KeyError k), s) | Some v \<Rightarrow> (Inr v, s))"

fun py_str_val :: "pyval \<Rightarrow> pystr" where
  "py_str_val (VStr s) = s"
| "py_str_val (VInt i) = u (py_str_int i)"

text \<open>\<open>enumerate(xs, i)\<close>\<close>

definition py_enumerate :: "nat \<Rightarrow> 'a list \<Rightarrow> (nat \<times> 'a) list" where
  "py_enumerate i xs = zip [i..<i + length xs] xs"

text \<open>Unicode scalar values: the code points UTF-8 can encode.\<close>

definition valid_cps :: "pystr \<Rightarrow> bool" where
  "valid_cps s = list_all (\<lambda>c. \<not> (0xD800 \<le> c \<and> c < 0xE000) \<and> c < 0x110000) s"

text \<open>The bytes a UTF-8 stream receives for a text.\<close>

definition utf8_str :: "pystr \<Rightarrow> string" where
  "utf8_str s = concat (map utf8_cp s)"

section \<open>The data\<close>

definition summary :: pydict where
  "summary =
     [(u ''project_name'', VStr (u ''Web3 Bill Splitting App on Aptos'')),
      (u ''integration_approach'', VStr (u ''Leverages Existing Protocols'')),
      (u ''total_files_created'', VInt 5),
      (u ''development_time'', VStr (u ''18 hours (hackathon ready)''))]"

definition contracts_created :: "pydict list" where
  "contracts_created =
    [[(u ''file'', VStr (u ''Move.toml'')),
      (u ''type'', VStr (u ''Configuration'')),
      (u ''description'', VStr (u ''Package configuration with Aptos framework dependencies''))],
     [(u ''file'', VStr (u ''bill_splitter.move'')),
      (u ''type'', VStr (u ''Core Smart Contract'')),
      (u ''description'', VStr (u ''Main bill management with native multisig integration, participant handling, and USDC payments''))],
     [(u ''file'', VStr (u ''usdc_utils.move'')),
      (u ''type'', VStr (u ''Utility Contract'')),
      (u ''description'', VStr (u ''USDC stablecoin integration, currency conversion, and coin manipulation utilities''))],
     [(u ''file'', VStr (u ''test_helpers.move'')),
      (u ''type'', VStr (u ''Testing Contract'')),
      (u ''description'', VStr (u ''Hackathon demo setup, participant funding, and testing scenarios''))],
     [(u ''file'', VStr (u ''deploy.sh'')),
      (u ''type'', VStr (u ''Deployment Script'')),
      (u ''description'', VStr (u ''Complete automated deployment and demo setup for hackathon''))]]"

definition existing_protocols :: "pystr list" where
  "existing_protocols =
    [u ''Aptos Native Multisig Accounts (MultiEd25519)'',
     u ''Aptos Coin Framework for USDC handling'',
     u ''Aptos Event Framework for real-time sync'',
     u ''Aptos Account System for participant management'',
     u ''Standard Move Libraries for data structures'']"

definition key_features :: "pystr list" where
  "key_features =
    [u ''Bill session creation with QR code support'',
     u ''Participant management with custom amount splits'',
     u ''Native multisig signature collection'',
     u ''USDC stablecoin payment processing'',
     u ''Real-time event emission for backend sync'',
     u ''Complete testing and demo infrastructure'',
     u ''Automated deployment for hackathon setup'']"

definition benefits :: "pystr list" where
  "benefits =
    [[0x2705] @ u '' No custom multisig implementation needed'',
     [0x2705] @ u '' Native Aptos security and performance'',
     [0x2705] @ u '' Real-time sync with backend/frontend'',
     [0x2705] @ u '' Complete testing infrastructure included'',
     [0x2705] @ u '' One-command deployment script'',
     [0x2705] @ u '' Pre-funded demo accounts for testing'',
     [0x2705] @ u '' Comprehensive documentation provided'']"

section \<open>The printed sections\<close>

definition print_header :: "stdout_encoding \<Rightarrow> (string, unit) pyst" where
  "print_header enc =
     pbind (py_print enc ([0x1F3AF] @ u '' APTOS SMART CONTRACTS - BILL SPLITTING APP'')) (\<lambda>_.
     pbind (py_print enc (py_repeat (u ''='') 60)) (\<lambda>_.
     pbind (py_getitem summary (u ''project_name'')) (\<lambda>v.
     pbind (py_print enc ([0x1F4E6] @ u '' Project: '' @ py_str_val v)) (\<lambda>_.
     pbind (py_getitem summary (u ''integration_approach'')) (\<lambda>v.
     pbind (py_print enc ([0x1F527] @ u '' Approach: '' @ py_str_val v)) (\<lambda>_.
     pbind (py_getitem summary (u ''total_files_created'')) (\<lambda>v.
     pbind (py_print enc ([0x1F4C4] @ u '' Files Created: '' @ py_str_val v)) (\<lambda>_.
     pbind (py_getitem summary (u ''development_time'')) (\<lambda>v.
     pbind (py_print enc ([0x23F1, 0xFE0F] @ u '' Development Time: '' @ py_str_val v)) (\<lambda>_.
     py_print enc []))))))))))"

definition print_contract :: "stdout_encoding \<Rightarrow> pydict \<Rightarrow> (string, unit) pyst" where
  "print_contract enc c =
     pbind (py_getitem c (u ''file'')) (\<lambda>f.
     pbind (py_getitem c (u ''type'')) (\<lambda>ty.
     pbind (py_print enc ([0x1F4C4] @ u '' '' @ py_str_val f @ u '' ('' @ py_str_val ty @ u '')'')) (\<lambda>_.
     pbind (py_getitem c (u ''description'')) (\<lambda>d.
     py_print enc (u ''   '' @ [0x2514, 0x2500, 0x2500] @ u '' '' @ py_str_val d)))))"

definition print_contracts :: "stdout_encoding \<Rightarrow> (string, unit) pyst" where
  "print_contracts enc =
     pbind (py_print enc ([0x1F4C1] @ u '' SMART CONTRACTS CREATED:'')) (\<lambda>_.
     pbind (py_print enc (py_repeat (u ''-'') 40)) (\<lambda>_.
     pbind (pfor contracts_created (print_contract enc)) (\<lambda>_.
     py_print enc [])))"

text \<open>\<open>for i, x in enumerate(xs, 1): print(f"{i}. {x}")\<close>\<close>

definition print_numbered :: "stdout_encoding \<Rightarrow> pystr list \<Rightarrow> (string, unit) pyst" where
  "print_numbered enc xs =
     pfor (py_enumerate 1 xs) (\<lambda>(i, x). py_print enc (u (dec_of_nat i) @ u ''. '' @ x))"

definition print_protocols :: "stdout_encoding \<Rightarrow> (string, unit) pyst" where
  "print_protocols enc =
     pbind (py_print enc ([0x1F517] @ u '' EXISTING PROTOCOLS INTEGRATED:'')) (\<lambda>_.
     pbind (py_print enc (py_repeat (u ''-'') 40)) (\<lambda>_.
     pbind (print_numbered enc existing_protocols) (\<lambda>_.
     py_print enc [])))"

definition print_features :: "stdout_encoding \<Rightarrow> (string, unit) pyst" where
  "print_features enc =
     pbind (py_print enc ([0x2728] @ u '' KEY FEATURES IMPLEMENTED:'')) (\<lambda>_.
     pbind (py_print enc (py_repeat (u ''-'') 40)) (\<lambda>_.
     pbind (print_numbered enc key_features) (\<lambda>_.
     py_print enc [])))"

definition print_benefits :: "stdout_encoding \<Rightarrow> (string, unit) pyst" where
  "print_benefits enc =
     pbind (py_print enc ([0x1F680] @ u '' HACKATHON READY BENEFITS:'')) (\<lambda>_.
     pbind (py_print enc (py_repeat (u ''-'') 40)) (\<lambda>_.
     pbind (pfor benefits (py_print enc)) (\<lambda>_.
     py_print enc [])))"

definition print_deliverables :: "stdout_encoding \<Rightarrow> (string, unit) pyst" where
  "print_deliverables enc =
     pbind (py_print enc ([0x1F4DA] @ u '' DELIVERABLES:'')) (\<lambda>_.
     pbind (py_print enc (py_repeat (u ''-'') 40)) (\<lambda>_.
     pbind (py_print enc (u ''1. Complete Move smart contracts'')) (\<lambda>_.
     pbind (py_print enc (u ''2. Deployment automation script'')) (\<lambda>_.
     pbind (py_print enc (u ''3. Comprehensive PDF developer guide'')) (\<lambda>_.
     pbind (py_print enc (u ''4. Testing utilities and demo setup'')) (\<lambda>_.
     pbind (py_print enc (u ''5. Integration specifications for backend/frontend'')) (\<lambda>_.
     pbind (py_print enc []) (\<lambda>_.
     py_print enc ([0x1F389] @ u '' READY FOR 18-HOUR HACKATHON! '' @ [0x1F389])))))))))"

text \<open>The whole script, top to bottom, from the output already written.\<close>

definition script_main :: "stdout_encoding \<Rightarrow> (string, unit) pyst" where
  "script_main enc =
     pbind (print_header enc) (\<lambda>_.
     pbind (print_contracts enc) (\<lambda>_.
     pbind (print_protocols enc) (\<lambda>_.
     pbind (print_features enc) (\<lambda>_.
     pbind (print_benefits enc) (\<lambda>_.
     print_deliverables enc)))))"

section \<open>Lemmas\<close>

lemma valid_cps_simps [simp]:
  "valid_cps [] = True"
  "valid_cps (c # s) = (\<not> (0xD800 \<le> c \<and> c < 0xE000) \<and> c < 0x110000 \<and> valid_cps s)"
  "valid_cps (xs @ ys) = (valid_cps xs \<and> valid_cps ys)"
  "valid_cps (replicate n c) = (n = 0 \<or> valid_cps [c])"
  by (auto simp: valid_cps_def list_all_iff)

lemma py_encode_utf8: "valid_cps s \<Longrightarrow> py_encode UTF8 s = Some (utf8_str s)"
  by (induction s) (auto simp: py_encode_def encode_cp_def utf8_str_def valid_cps_def)

lemma py_print_utf8:
  "valid_cps s \<Longrightarrow> py_print UTF8 s out = (Inr (), out @ utf8_str (s @ [10]))"
  by (simp add: py_print_def py_encode_utf8 valid_cps_def)

lemma char_of_high_newline:
  "128 \<le> k \<Longrightarrow> k < (256::nat) \<Longrightarrow> char_of k \<noteq> CHR ''\<newline>''"
proof
  assume "128 \<le> k" "k < 256" "char_of k = CHR ''\<newline>''"
  then have "of_char (char_of k) = (of_char (CHR ''\<newline>'') :: nat)" by simp
  with \<open>128 \<le> k\<close> \<open>k < 256\<close> show False by simp
qed

lemma char_of_low_newline: "c < 128 \<Longrightarrow> char_of c = CHR ''\<newline>'' \<longleftrightarrow> c = (10::nat)"
proof
  assume "c < 128" "char_of c = CHR ''\<newline>''"
  then have "of_char (char_of c) = (of_char (CHR ''\<newline>'') :: nat)" by simp
  with \<open>c < 128\<close> show "c = 10" by simp
next
  assume "c = 10"
  then show "char_of c = CHR ''\<newline>''" using char_of_char [of "CHR ''\<newline>''"] by simp
qed

lemma utf8_cp_newline:
  assumes "c < 0x110000"
  shows "length (filter (\<lambda>b. b = CHR ''\<newline>'') (utf8_cp c)) = (if c = 10 then 1 else 0)"
proof -
  consider "c < 0x80" | "0x80 \<le> c" "c < 0x800" | "0x800 \<le> c" "c < 0x10000" | "0x10000 \<le> c"
    by linarith
  then show ?thesis
  proof cases
    case 1
    then show ?thesis by (simp add: utf8_cp_def char_of_low_newline)
  next
    case 2
    then have "c div 64 < 32" by (simp add: div_less_iff_less_mult)
    with 2 show ?thesis by (simp add: utf8_cp_def char_of_high_newline)
  next
    case 3
    then have "c div 4096 < 16" by (simp add: div_less_iff_less_mult)
    with 3 show ?thesis by (simp add: utf8_cp_def char_of_high_newline)
  next
    case 4
    with assms have "c div 262144 < 5" by (simp add: div_less_iff_less_mult)
    with 4 show ?thesis by (simp add: utf8_cp_def char_of_high_newline)
  qed
qed

lemma utf8_str_newlines:
  "valid_cps s \<Longrightarrow> length (filter (\<lambda>b. b = CHR ''\<newline>'') (utf8_str s)) = count_list s 10"
  by (induction s) (simp_all add: utf8_str_def valid_cps_def utf8_cp_newline)

lemmas script_text_defs = script_main_def print_header_def print_contracts_def print_contract_def
  contracts_created_def print_protocols_def print_features_def print_benefits_def print_deliverables_def
  print_numbered_def py_enumerate_def existing_protocols_def key_features_def benefits_def summary_def
  u_def py_repeat_def py_getitem_def py_str_int_def dec_of_nat.simps

text \<open>Running the model of the whole script: with a UTF-8 stdout the script runs to its end without raising (every
  dictionary subscript finds its key, every character can be encoded) and writes
  exactly 57 lines after whatever the stream already held.\<close>

theorem script_completes_utf8:
  "\<exists>bs. script_main UTF8 out = (Inr (), out @ bs) \<and> length (filter (\<lambda>b. b = CHR ''\<newline>'') bs) = 57"
  by (simp add: script_text_defs pbind_apply py_print_utf8 utf8_str_newlines filter_append)

text \<open>Running the model of the whole script: on a stdout whose encoding is Latin-1 or ASCII (a redirected stream under a
  legacy locale), the first \<open>print\<close> raises \<open>UnicodeEncodeError\<close> on the emoji of the
  title and the script writes nothing.\<close>

theorem script_fails_non_utf8:
  "enc \<noteq> UTF8 \<Longrightarrow> script_main enc out = (Inl UnicodeEncodeError, out)"
  by (cases enc) (simp_all add: script_main_def print_header_def py_print_def py_encode_def encode_cp_def pbind_apply)

theorem script_fails_non_utf8_witness: "script_main Latin1 [] = (Inl UnicodeEncodeError, [])"
  by (rule script_fails_non_utf8) simp

end
