(* ===== verification/MockSuite.thy ===== *)
theory MockSuite
  imports Process
begin

text \<open>
  \<open>src/contracts/tests/test_multiple_signers.py\<close>: the \<open>BillSplitterTest\<close> suite. Two
  of its tests run the Aptos CLI (\<open>aptos move compile --dev\<close> and
  \<open>aptos move test --dev\<close>, each with a 60 second timeout, from the contracts
  directory); the rest works on mock data: five accounts with the addresses
  \<open>f"0x{i:064x}"\<close>, a mock funding and deployment, and four scenario tests that only
  print. \<open>run_all_tests\<close> collects the results in a dictionary (an association list
  in insertion order, updated with \<open>AList.update\<close>); \<open>main\<close> exits with 0 exactly when
  every result is true. The \<open>print\<close> calls are not modelled: stdout is taken to
  encode every printed character (UTF-8), so that they cannot raise.
\<close>

record mock_account =
  profile :: string
  maddress :: string

record mock_tester = world +
  aptos_cli :: string
  test_accounts :: "mock_account list"
  deployed_address :: "string option"

definition new_mock_tester :: "string \<Rightarrow> string list \<Rightarrow> mock_tester" where
  "new_mock_tester cli d =
     \<lparr>cwd = d, proc_log = [], aptos_cli = cli, test_accounts = [], deployed_address = None\<rparr>"

section \<open>The CLI tests\<close>

text \<open>Both tests remember the working directory, step up from \<open>tests\<close>, run the CLI
  and step back; every exception (\<open>TimeoutExpired\<close> and any other) is caught, the
  directory restored and \<open>False\<close> returned.\<close>

definition mock_test_compilation :: "proc_oracle \<Rightarrow> (mock_tester, bool) pyst" where
  "mock_test_compilation ora =
     pbind (pget cwd) (\<lambda>d.
     ptry (pbind (pbind (if basename d = ''tests'' then chdir_parent else preturn ()) (\<lambda>_.
                  pbind (pget aptos_cli) (\<lambda>c.
                  run_proc ora [c, ''move'', ''compile'', ''--dev''] (Some 60)))) (\<lambda>result.
           pbind (chdir d) (\<lambda>_.
           preturn (fst result = 0))))
          (\<lambda>_. pbind (chdir d) (\<lambda>_. preturn False)))"

definition mock_test_move_unit_tests :: "proc_oracle \<Rightarrow> (mock_tester, bool) pyst" where
  "mock_test_move_unit_tests ora =
     pbind (pget cwd) (\<lambda>d.
     ptry (pbind (pbind (if basename d = ''tests'' then chdir_parent else preturn ()) (\<lambda>_.
                  pbind (pget aptos_cli) (\<lambda>c.
                  run_proc ora [c, ''move'', ''test'', ''--dev''] (Some 60)))) (\<lambda>result.
           pbind (chdir d) (\<lambda>_.
           preturn (fst result = 0 \<and> py_in ''Test result: OK'' (fst (snd result))))))
          (\<lambda>_. pbind (chdir d) (\<lambda>_. preturn False)))"

section \<open>Mock setup\<close>

definition mock_address :: "nat \<Rightarrow> string" where
  "mock_address i = ''0x'' @ fmt_hex_pad 64 i"

definition setup_test_accounts :: "nat \<Rightarrow> (mock_tester, mock_account list) pyst" where
  "setup_test_accounts n =
     (let accs = map (\<lambda>i. \<lparr>profile = ''test_account_'' @ dec_of_nat i, maddress = mock_address i\<rparr>)
                     [0..<min n 5]
      in pbind (pmodify (\<lambda>t. t\<lparr>test_accounts := accs\<rparr>)) (\<lambda>_. preturn accs))"

text \<open>The funding loop counts every account as funded.\<close>

definition fund_accounts :: "(mock_tester, bool) pyst" where
  "fund_accounts =
     pbind (pget test_accounts) (\<lambda>accs.
       (let success_count = foldl (\<lambda>c _. c + 1) (0::nat) accs
        in preturn (length accs div 2 \<le> success_count)))"

definition mock_deploy_contracts :: "(mock_tester, bool) pyst" where
  "mock_deploy_contracts =
     pbind (pget test_accounts) (\<lambda>accs.
       if accs = [] then preturn False
       else pbind (pmodify (\<lambda>t. t\<lparr>deployed_address := Some ''0x42''\<rparr>)) (\<lambda>_. preturn True))"

section \<open>Scenario tests\<close>

text \<open>The small-group test needs three accounts; the other three scenario tests only
  print their parameters and return \<open>True\<close>.\<close>

definition test_small_group_scenario :: "(mock_tester, bool) pyst" where
  "test_small_group_scenario = pbind (pget test_accounts) (\<lambda>accs. preturn (3 \<le> length accs))"

definition test_medium_group_scenario :: "(mock_tester, bool) pyst" where
  "test_medium_group_scenario = preturn True"

definition test_signature_thresholds :: "(mock_tester, bool) pyst" where
  "test_signature_thresholds = preturn True"

definition test_concurrent_sessions :: "(mock_tester, bool) pyst" where
  "test_concurrent_sessions = preturn True"

section \<open>The suite\<close>

definition run_all_tests :: "proc_oracle \<Rightarrow> (mock_tester, (string \<times> bool) list) pyst" where
  "run_all_tests ora =
     pbind (mock_test_compilation ora) (\<lambda>c.
     pbind (mock_test_move_unit_tests ora) (\<lambda>m.
     (let results = AList.update ''move_tests'' m (AList.update ''compilation'' c [])
      in pbind (setup_test_accounts 5) (\<lambda>accs.
         if accs = [] then preturn [(''setup'', False)] else
         pbind (pget test_accounts) (\<lambda>ta.
         if length ta = 0 then preturn [(''setup'', False)] else
         pbind fund_accounts (\<lambda>f.
         if \<not> f then preturn [(''funding'', False)] else
         pbind mock_deploy_contracts (\<lambda>dp.
         if \<not> dp then preturn [(''deployment'', False)] else
         pbind test_small_group_scenario (\<lambda>sg.
         pbind test_medium_group_scenario (\<lambda>mg.
         pbind test_signature_thresholds (\<lambda>st.
         pbind test_concurrent_sessions (\<lambda>cs.
         preturn (AList.update ''concurrent_sessions'' cs
                   (AList.update ''signature_thresholds'' st
                     (AList.update ''medium_group'' mg
                       (AList.update ''small_group'' sg results)))))))))))))))"

text \<open>\<open>main()\<close>: the exit status.\<close>

definition mock_main :: "proc_oracle \<Rightarrow> (mock_tester, int) pyst" where
  "mock_main ora =
     pbind (run_all_tests ora) (\<lambda>results.
       preturn (if results \<noteq> [] \<and> list_all snd results then 0 else 1))"

section \<open>Lemmas\<close>

lemma mock_cli_tests_total:
  "(\<exists>b t'. mock_test_compilation ora t = (Inr b, t')) \<and> (\<exists>b t'. mock_test_move_unit_tests ora t = (Inr b, t'))"
proof -
  have "\<exists>b t'. mock_test_compilation ora t = (Inr b, t') \<and> cwd t' = cwd t"
    "\<exists>b t'. mock_test_move_unit_tests ora t = (Inr b, t') \<and> cwd t' = cwd t"
    by (simp_all add: mock_test_compilation_def mock_test_move_unit_tests_def try_restore_cwd)
  then show ?thesis by blast
qed

lemma mock_address_inj: "mock_address i = mock_address j \<longleftrightarrow> i = j"
  by (simp add: mock_address_def fmt_hex_pad_inj)

lemmas mock_scenario_defs = setup_test_accounts_def fund_accounts_def mock_deploy_contracts_def
  test_small_group_scenario_def test_medium_group_scenario_def test_signature_thresholds_def
  test_concurrent_sessions_def

text \<open>C6: whatever the CLI does (completes, times out, is missing, fails to start),
  \<open>test_compilation\<close> and \<open>test_move_unit_tests\<close> return a boolean without raising and
  leave the process in the working directory it started in.\<close>

theorem mock_cli_tests_restore_cwd:
  "(\<exists>b t'. mock_test_compilation ora t = (Inr b, t') \<and> cwd t' = cwd t)
   \<and> (\<exists>b t'. mock_test_move_unit_tests ora t = (Inr b, t') \<and> cwd t' = cwd t)"
  by (simp add: mock_test_compilation_def mock_test_move_unit_tests_def try_restore_cwd)

text \<open>C7: the suite's exit status depends on the two CLI tests alone: \<open>main\<close> exits with
  0 exactly when compilation and the Move unit tests pass; the mock funding, deployment
  and the four scenario tests cannot fail.\<close>

theorem mock_main_exit:
  "fst (mock_main ora t) =
     Inr (if fst (mock_test_compilation ora t) = Inr True
             \<and> fst (mock_test_move_unit_tests ora (snd (mock_test_compilation ora t))) = Inr True
          then 0 else 1)"
proof -
  obtain b1 t1 where c: "mock_test_compilation ora t = (Inr b1, t1)"
    using mock_cli_tests_total by blast
  obtain b2 t2 where m: "mock_test_move_unit_tests ora t1 = (Inr b2, t2)"
    using mock_cli_tests_total by blast
  show ?thesis
    by (simp add: mock_main_def run_all_tests_def c m pbind_apply mock_scenario_defs py_monad_simps
        Let_def foldl_count)
qed

text \<open>C8: \<open>setup_test_accounts(n)\<close> stores \<open>min(n, 5)\<close> accounts whose addresses are
  pairwise distinct, 66 characters long, start with \<open>0x\<close> and read back, as
  hexadecimal, to the account's index.\<close>

theorem mock_accounts_addresses:
  assumes "setup_test_accounts n t = (Inr accs, t')"
  shows "length accs = min n 5 \<and> test_accounts t' = accs \<and> distinct (map maddress accs)
         \<and> (\<forall>k < length accs. length (maddress (accs ! k)) = 66 \<and> take 2 (maddress (accs ! k)) = ''0x''
                              \<and> read_hex (drop 2 (maddress (accs ! k))) = k)"
proof -
  have accs: "accs = map (\<lambda>i. \<lparr>profile = ''test_account_'' @ dec_of_nat i, maddress = mock_address i\<rparr>) [0..<min n 5]"
    and t': "test_accounts t' = accs"
    using assms by (auto simp: setup_test_accounts_def Let_def py_monad_simps)
  have ma: "map maddress accs = map mock_address [0..<min n 5]" by (simp add: accs)
  have "distinct (map maddress accs)"
    unfolding ma by (simp add: distinct_map inj_on_def mock_address_inj)
  moreover have "length (maddress (accs ! k)) = 66 \<and> take 2 (maddress (accs ! k)) = ''0x''
                 \<and> read_hex (drop 2 (maddress (accs ! k))) = k" if "k < length accs" for k
  proof -
    from that have k: "k < min n 5" and "maddress (accs ! k) = mock_address k" by (simp_all add: accs)
    moreover have "length (fmt_hex_pad 64 k) = 64" using k by (intro length_fmt_hex_pad) simp_all
    ultimately show ?thesis by (simp add: mock_address_def read_hex_fmt_hex_pad)
  qed
  ultimately show ?thesis using t' by (simp add: accs)
qed

theorem mock_accounts_addresses_witness:
  "\<exists>accs t'. setup_test_accounts 5 (new_mock_tester ''aptos'' [''tests'']) = (Inr accs, t')
     \<and> length accs = 5 \<and> distinct (map maddress accs) \<and> read_hex (drop 2 (maddress (accs ! 4))) = 4"
proof -
  obtain accs t' where e: "setup_test_accounts 5 (new_mock_tester ''aptos'' [''tests'']) = (Inr accs, t')"
    by (simp add: setup_test_accounts_def Let_def py_monad_simps)
  from mock_accounts_addresses [OF e] e show ?thesis by auto
qed

end
