(* ===== verification/SimpleTest.thy ===== *)
theory SimpleTest
  imports Process
begin

text \<open>
  \<open>src/contracts/tests/simple_test.py\<close>: four tests run in order, each under its own
  \<open>try\<close>, their results collected in a dictionary; \<open>main\<close> succeeds when all pass.
  \<open>compile_contracts\<close> and \<open>test_move_syntax\<close> step up one directory before calling the
  CLI and step back only after the call returned: when the call raises (a timeout,
  a missing executable) the handler returns \<open>False\<close> without going back, so the next
  test starts one level higher. The \<open>print\<close> calls are not modelled (a UTF-8 stdout,
  on which they cannot raise).
\<close>

definition check_aptos_cli :: "proc_oracle \<Rightarrow> ('z world_scheme, bool) pyst" where
  "check_aptos_cli ora =
     ptry (pbind (run_proc ora [''aptos'', ''--version''] (Some 5)) (\<lambda>result.
           preturn (fst result = 0)))
          (\<lambda>_. preturn False)"

definition compile_contracts :: "proc_oracle \<Rightarrow> ('z world_scheme, bool) pyst" where
  "compile_contracts ora =
     ptry (pbind (pget cwd) (\<lambda>d.
           pbind chdir_parent (\<lambda>_.
           pbind (run_proc ora [''aptos'', ''move'', ''compile'', ''--dev''] (Some 30)) (\<lambda>result.
           pbind (chdir d) (\<lambda>_.
           preturn (fst result = 0))))))
          (\<lambda>_. preturn False)"

definition test_move_syntax :: "proc_oracle \<Rightarrow> ('z world_scheme, bool) pyst" where
  "test_move_syntax ora =
     ptry (pbind (pget cwd) (\<lambda>d.
           pbind chdir_parent (\<lambda>_.
           pbind (run_proc ora [''aptos'', ''move'', ''test'', ''--dev''] (Some 45)) (\<lambda>result.
           pbind (chdir d) (\<lambda>_.
           preturn (fst result = 0))))))
          (\<lambda>_. preturn False)"

text \<open>\<open>test_basic_functionality\<close> only prints its list of cases.\<close>

definition test_basic_functionality :: "('s, bool) pyst" where
  "test_basic_functionality = preturn True"

text \<open>\<open>for test_name, test_func in tests: try: results[test_name] = test_func()
  except Exception: results[test_name] = False\<close>\<close>

fun run_tests :: "(string \<times> ('s, bool) pyst) list \<Rightarrow> (string \<times> bool) list \<Rightarrow> ('s, (string \<times> bool) list) pyst" where
  "run_tests [] results = preturn results"
| "run_tests ((name, f) # ts) results =
     pbind (ptry f (\<lambda>_. preturn False)) (\<lambda>v. run_tests ts (AList.update name v results))"

definition simple_tests :: "proc_oracle \<Rightarrow> (string \<times> ('z world_scheme, bool) pyst) list" where
  "simple_tests ora =
     [(''Aptos CLI Check'', check_aptos_cli ora), (''Contract Compilation'', compile_contracts ora),
      (''Move Syntax Tests'', test_move_syntax ora), (''Basic Functionality'', test_basic_functionality)]"

definition simple_main :: "proc_oracle \<Rightarrow> ('z world_scheme, bool) pyst" where
  "simple_main ora =
     pbind (run_tests (simple_tests ora) []) (\<lambda>results.
       preturn (length (filter snd results) = length results))"

section \<open>Lemmas\<close>

lemma step_up_run:
  "\<exists>b. ptry (pbind (pget cwd) (\<lambda>d. pbind chdir_parent (\<lambda>_.
          pbind (run_proc ora argv tm) (\<lambda>result. pbind (chdir d) (\<lambda>_. preturn (fst result = 0))))))
        (\<lambda>_. preturn False) w
   = (Inr b, w\<lparr>proc_log := proc_log w @ [mk_call (butlast (cwd w)) argv tm],
               cwd := (case ora (proc_log w) (mk_call (butlast (cwd w)) argv tm) of
                         Completed _ _ _ \<Rightarrow> cwd w | _ \<Rightarrow> butlast (cwd w))\<rparr>)"
  by (cases "ora (proc_log w) (mk_call (butlast (cwd w)) argv tm)")
     (auto simp: ptry_def run_proc_def spawn_def chdir_def chdir_parent_def py_monad_simps)

lemma check_aptos_cli_log:
  "\<exists>b. check_aptos_cli ora w = (Inr b, w\<lparr>proc_log := proc_log w @ [mk_call (cwd w) [''aptos'', ''--version''] (Some 5)]\<rparr>)"
  by (cases "ora (proc_log w) (mk_call (cwd w) [''aptos'', ''--version''] (Some 5))")
     (auto simp: check_aptos_cli_def ptry_def run_proc_def spawn_def py_monad_simps)

lemma run_tests_Inr:
  "f s = (Inr v, s') \<Longrightarrow> run_tests ((name, f) # ts) results s = run_tests ts (AList.update name v results) s'"
  by (simp add: ptry_def pbind_apply)

text \<open>C9: \<open>main\<close> makes exactly three CLI calls, and the Move tests run in the contracts
  directory (the parent of the starting one) only when the compilation call completed;
  when it timed out, could not find \<open>aptos\<close> or failed to start, \<open>compile_contracts\<close>
  did not step back and the Move tests run two levels above the starting directory.\<close>

theorem simple_move_tests_cwd:
  "length (proc_log (snd (simple_main ora t))) = length (proc_log t) + 3
   \<and> call_cwd (proc_log (snd (simple_main ora t)) ! (length (proc_log t) + 2)) =
     (case ora (proc_log t @ [mk_call (cwd t) [''aptos'', ''--version''] (Some 5)])
               (mk_call (butlast (cwd t)) [''aptos'', ''move'', ''compile'', ''--dev''] (Some 30)) of
        Completed _ _ _ \<Rightarrow> butlast (cwd t)
      | _ \<Rightarrow> butlast (butlast (cwd t)))"
proof -
  obtain b1 where c1: "check_aptos_cli ora t = (Inr b1, t\<lparr>proc_log := proc_log t @ [mk_call (cwd t) [''aptos'', ''--version''] (Some 5)]\<rparr>)"
    using check_aptos_cli_log by blast
  let ?t1 = "t\<lparr>proc_log := proc_log t @ [mk_call (cwd t) [''aptos'', ''--version''] (Some 5)]\<rparr>"
  let ?d2 = "case ora (proc_log ?t1) (mk_call (butlast (cwd ?t1)) [''aptos'', ''move'', ''compile'', ''--dev''] (Some 30)) of
               Completed _ _ _ \<Rightarrow> cwd ?t1 | _ \<Rightarrow> butlast (cwd ?t1)"
  let ?t2 = "?t1\<lparr>proc_log := proc_log ?t1 @ [mk_call (butlast (cwd ?t1)) [''aptos'', ''move'', ''compile'', ''--dev''] (Some 30)],
                cwd := ?d2\<rparr>"
  obtain b2 where c2: "compile_contracts ora ?t1 = (Inr b2, ?t2)"
    using step_up_run [of ora "[''aptos'', ''move'', ''compile'', ''--dev'']" "Some 30" ?t1]
    by (auto simp: compile_contracts_def)
  let ?t3 = "?t2\<lparr>proc_log := proc_log ?t2 @ [mk_call (butlast (cwd ?t2)) [''aptos'', ''move'', ''test'', ''--dev''] (Some 45)],
                cwd := (case ora (proc_log ?t2) (mk_call (butlast (cwd ?t2)) [''aptos'', ''move'', ''test'', ''--dev''] (Some 45)) of
                         Completed _ _ _ \<Rightarrow> cwd ?t2 | _ \<Rightarrow> butlast (cwd ?t2))\<rparr>"
  obtain b3 where c3: "test_move_syntax ora ?t2 = (Inr b3, ?t3)"
    using step_up_run [of ora "[''aptos'', ''move'', ''test'', ''--dev'']" "Some 45" ?t2]
    by (auto simp: test_move_syntax_def)
  have r: "run_tests (simple_tests ora) [] t = run_tests [(''Basic Functionality'', test_basic_functionality)]
             (AList.update ''Move Syntax Tests'' b3 (AList.update ''Contract Compilation'' b2
               (AList.update ''Aptos CLI Check'' b1 []))) ?t3"
    unfolding simple_tests_def
    by (simp only: run_tests_Inr [where f = "check_aptos_cli ora" and s = t, OF c1]
        run_tests_Inr [where f = "compile_contracts ora" and s = ?t1, OF c2]
        run_tests_Inr [where f = "test_move_syntax ora" and s = ?t2, OF c3])
  have "snd (simple_main ora t) = ?t3"
    by (simp add: simple_main_def pbind_apply r test_basic_functionality_def ptry_def)
  then show ?thesis
    by (cases "ora (proc_log ?t1) (mk_call (butlast (cwd ?t1)) [''aptos'', ''move'', ''compile'', ''--dev''] (Some 30))")
       (simp_all add: nth_append mk_call_def)
qed

text \<open>C14: the test loop shared by \<open>simple_test.py\<close> and \<open>quick_test.py\<close>
  (\<open>for test_name, test_func in tests: try: results[test_name] = test_func() except
  Exception: results[test_name] = False\<close>) never lets an exception escape, and, the test
  names being distinct and new to the dictionary, it records every test exactly once,
  in the order of the list, after the entries already there.\<close>

theorem run_tests_records_all:
  assumes "distinct (map fst ts)" "set (map fst ts) \<inter> set (map fst results) = {}"
  shows "\<exists>res s'. run_tests ts results s = (Inr res, s') \<and> map fst res = map fst results @ map fst ts"
  using assms
proof (induction ts arbitrary: results s)
  case Nil then show ?case by (simp add: py_monad_simps)
next
  case (Cons t ts)
  obtain name f where t: "t = (name, f)" by fastforce
  obtain v s1 where f: "ptry f (\<lambda>_. preturn False) s = (Inr v, s1)"
    using ptry_handled [of f False s] by blast
  have "distinct (map fst ts)" using Cons.prems by simp
  moreover have "set (map fst ts) \<inter> set (map fst (AList.update name v results)) = {}"
    using Cons.prems by (auto simp: t update_fresh)
  ultimately obtain res s' where "run_tests ts (AList.update name v results) s1 = (Inr res, s')"
      and "map fst res = map fst (AList.update name v results) @ map fst ts"
    using Cons.IH by blast
  then show ?case using Cons.prems f by (auto simp: t pbind_apply update_fresh)
qed

theorem run_tests_records_all_witness:
  "\<exists>res s'. run_tests (simple_tests (\<lambda>_ _. Completed 0 [] []) :: (string \<times> (world, bool) pyst) list) []
              \<lparr>cwd = [''src'', ''tests''], proc_log = []\<rparr> = (Inr res, s')
     \<and> map fst res = [''Aptos CLI Check'', ''Contract Compilation'', ''Move Syntax Tests'', ''Basic Functionality'']"
  using run_tests_records_all [of "simple_tests (\<lambda>_ _. Completed 0 [] [])" "[]"
          "\<lparr>cwd = [''src'', ''tests''], proc_log = []\<rparr>"]
  by (simp add: simple_tests_def)

end
