(* ===== verification/QuickTest.thy ===== *)
theory QuickTest
  imports SimpleTest
begin

text \<open>
  \<open>src/contracts/tests/quick_test.py\<close>: \<open>run_command\<close> hands a command line to the shell
  in the directory \<open>os.path.dirname(os.path.abspath(__file__)) + "/.."\<close>, the parent
  of the script's directory \<open>sdir\<close> (\<open>butlast sdir\<close>, the path the operating system
  resolves), and turns every exception into a failed result. \<open>main\<close> first checks that
  \<open>Move.toml\<close> exists in the process's working directory (the file system is the
  predicate \<open>fs\<close> on paths), then runs three tests with the loop of \<open>simple_test.py\<close>
  (\<open>run_tests\<close>). The \<open>print\<close> calls are not modelled (a UTF-8 stdout, on which
  they cannot raise), but the expression
  \<open>stdout.split('Total tests:')[1].split(';')[0].strip()\<close> inside one of them is,
  since its indexing could raise.
\<close>

definition run_command ::
  "proc_oracle \<Rightarrow> string list \<Rightarrow> string \<Rightarrow> nat \<Rightarrow> ('z world_scheme, bool \<times> string \<times> string) pyst" where
  "run_command ora sdir command timeout =
     ptry (pbind (run_shell ora (butlast sdir) command (Some timeout)) (\<lambda>result.
           preturn (fst result = 0, fst (snd result), snd (snd result))))
          (\<lambda>e. preturn (False, [], if e = TimeoutExpired then ''Command timed out'' else exc_message e))"

definition quick_test_compilation :: "proc_oracle \<Rightarrow> string list \<Rightarrow> ('z world_scheme, bool) pyst" where
  "quick_test_compilation ora sdir =
     pbind (run_command ora sdir ''aptos move compile --dev'' 30) (\<lambda>(success, stdout, stderr).
       preturn success)"

text \<open>\<open>stdout.split('Total tests:')[1].split(';')[0].strip()\<close>\<close>

definition total_tests_field :: "string \<Rightarrow> string py_result" where
  "total_tests_field stdout =
     (case py_index (py_split stdout ''Total tests:'') 1 of
        Inl e \<Rightarrow> Inl e
      | Inr rest \<Rightarrow> map_sum id py_strip (py_index (py_split rest '';'') 0))"

definition quick_test_move_tests :: "proc_oracle \<Rightarrow> string list \<Rightarrow> ('z world_scheme, bool) pyst" where
  "quick_test_move_tests ora sdir =
     pbind (run_command ora sdir ''aptos move test --dev'' 30) (\<lambda>(success, stdout, stderr).
       if success
       then pbind (if py_in ''Total tests:'' stdout
                   then (case total_tests_field stdout of Inl e \<Rightarrow> praise e | Inr _ \<Rightarrow> preturn ())
                   else preturn ()) (\<lambda>_.
            preturn True)
       else preturn False)"

definition quick_test_specific_functions :: "('s, bool) pyst" where
  "quick_test_specific_functions = preturn True"

definition quick_tests :: "proc_oracle \<Rightarrow> string list \<Rightarrow> (string \<times> ('z world_scheme, bool) pyst) list" where
  "quick_tests ora sdir =
     [(''Contract Compilation'', quick_test_compilation ora sdir),
      (''Move Unit Tests'', quick_test_move_tests ora sdir),
      (''Function Logic'', quick_test_specific_functions)]"

definition quick_main ::
  "proc_oracle \<Rightarrow> (string list \<Rightarrow> bool) \<Rightarrow> string list \<Rightarrow> ('z world_scheme, bool) pyst" where
  "quick_main ora fs sdir =
     pbind (pget cwd) (\<lambda>d.
       if \<not> fs (d @ [''Move.toml'']) then preturn False
       else pbind (run_tests (quick_tests ora sdir) []) (\<lambda>results.
              preturn (length (filter snd results) = length results)))"

section \<open>Lemmas\<close>

lemma run_command_log:
  "\<exists>r. run_command ora sdir cmd tmo w =
     (Inr r, w\<lparr>proc_log := proc_log w @ [\<lparr>call_cwd = butlast sdir, call_argv = [cmd], call_shell = True,
                                           call_timeout = Some tmo\<rparr>]\<rparr>)"
  by (cases "ora (proc_log w) \<lparr>call_cwd = butlast sdir, call_argv = [cmd], call_shell = True, call_timeout = Some tmo\<rparr>")
     (auto simp: run_command_def run_shell_def spawn_def ptry_def py_monad_simps)

lemma total_tests_field_safe: "py_in ''Total tests:'' s \<Longrightarrow> \<exists>x. total_tests_field s = Inr x"
proof -
  assume "py_in ''Total tests:'' s"
  then have "Suc 0 < length (py_split s ''Total tests:'')"
    by (simp add: py_split_def split_from_two_iff)
  moreover obtain y ys where "py_split (py_split s ''Total tests:'' ! 1) '';'' = y # ys"
    by (metis py_split_def split_from_nonempty neq_Nil_conv)
  ultimately show ?thesis by (simp add: total_tests_field_def py_index_def)
qed

text \<open>C10: \<open>test_move_tests\<close> never raises: the index \<open>[1]\<close> is taken only after
  \<open>'Total tests:' in stdout\<close>, which gives the split at least two pieces, and
  \<open>[0]\<close> of a split always exists; every exception of the CLI call is caught in
  \<open>run_command\<close>.\<close>

theorem quick_move_tests_total:
  "\<exists>b. fst (quick_test_move_tests ora sdir t) = Inr b"
proof -
  obtain r where rc: "run_command ora sdir ''aptos move test --dev'' 30 t =
     (Inr r, t\<lparr>proc_log := proc_log t @ [\<lparr>call_cwd = butlast sdir, call_argv = [''aptos move test --dev''],
                                           call_shell = True, call_timeout = Some 30\<rparr>]\<rparr>)"
    using run_command_log by blast
  obtain ok out err where r: "r = (ok, out, err)" by (cases r) auto
  show ?thesis
    using total_tests_field_safe [of out]
    by (cases "py_in ''Total tests:'' out")
       (auto simp: quick_test_move_tests_def pbind_apply rc r split: sum.split)
qed

text \<open>C11: when \<open>Move.toml\<close> is not in the process's working directory (the script is
  started from its own \<open>tests\<close> directory), \<open>main\<close> fails at once without running
  anything, although every command \<open>run_command\<close> would issue runs in the parent of the
  script's directory, independently of the working directory.\<close>

theorem quick_main_needs_manifest:
  "\<not> fs (cwd t @ [''Move.toml'']) \<Longrightarrow>
   quick_main ora fs sdir t = (Inr False, t)
   \<and> (\<forall>cmd tmo. call_cwd (last (proc_log (snd (run_command ora sdir cmd tmo t)))) = butlast sdir)"
proof -
  assume "\<not> fs (cwd t @ [''Move.toml''])"
  moreover have "call_cwd (last (proc_log (snd (run_command ora sdir cmd tmo t)))) = butlast sdir" for cmd tmo
    using run_command_log [of ora sdir cmd tmo t] by auto
  ultimately show ?thesis by (simp add: quick_main_def)
qed

theorem quick_main_needs_manifest_witness:
  "quick_main (\<lambda>_ _. Completed 0 [] []) (\<lambda>p. p = [''contracts'', ''Move.toml'']) [''contracts'', ''tests'']
     \<lparr>cwd = [''contracts'', ''tests''], proc_log = []\<rparr>
   = (Inr False, \<lparr>cwd = [''contracts'', ''tests''], proc_log = []\<rparr>)"
  using quick_main_needs_manifest [of "\<lambda>p. p = [''contracts'', ''Move.toml'']"
      "\<lparr>cwd = [''contracts'', ''tests''], proc_log = []\<rparr>" "\<lambda>_ _. Completed 0 [] []" "[''contracts'', ''tests'']"]
  by simp

end
