(* ===== verification/Spec2Isabelle.thy ===== *)
theory Spec2Isabelle
  imports ScenarioRuns Summary MockSuite QuickTest
begin

text \<open>
  \<^bold>\<open>A verification library for Bill-Split-Aptos.\<close>

  \<^emph>\<open>The program.\<close> The repository is a Web3 bill-splitting app on Aptos. Its sources
  under \<open>src/contracts\<close> are Python: \<open>scripts/test_multiple_signers.py\<close> drives the
  \<open>bill_splitter\<close> Move contract through the Aptos CLI (create accounts, fund them from
  the faucet, publish, initialise, mint test USDC, then for a scenario call
  \<open>create_bill_session\<close>, \<open>confirm_participants\<close>, \<open>sign_bill_agreement\<close> for every
  participant and \<open>submit_payment\<close> for every participant);
  \<open>tests/test_multiple_signers.py\<close> is a mock suite over fake accounts;
  \<open>tests/simple_test.py\<close> and \<open>tests/quick_test.py\<close> compile and test the Move package
  through the CLI; \<open>script.py\<close> prints a summary of the project. The scripts and the
  contract interact only through the CLI: each call is an argument vector, the chain
  answers with a return code. The Move contract is not part of \<open>src/\<close>; its behaviour
  is modelled from the specification of the repository.

  \<^emph>\<open>Library layout.\<close>
  \<^item> \<open>Prelude\<close>: Python built-ins (\<open>strip\<close>, \<open>in\<close>, \<open>split\<close>, \<open>join\<close>, indexing,
    \<open>//\<close>, \<open>upper\<close>, hex and decimal formatting), the exception datatype \<open>py_exc\<close>,
    and the statement monad \<open>pyst\<close> (state passing with exceptions that keep the
    state reached; \<open>ptry\<close> is \<open>try\<close>/\<open>except\<close>), with the lemmas the components share.
  \<^item> \<open>Process\<close>: the operating system as the scripts see it: the working directory
    (\<open>os.chdir\<close>) and \<open>subprocess.run\<close> with an argument list (\<open>run_proc\<close>) or a
    shell command in a given directory (\<open>run_shell\<close>); the outcome of a call is an oracle
    over the history of calls (the CLI and the chain behind it are stateful), and every
    call is logged in \<open>proc_log\<close>. \<open>try_restore_cwd\<close>: a body wrapped as the mock
    suite wraps it always ends in the directory it started from.
  \<^item> \<open>BillSession\<close> (specification-modelled): participant registry, threshold
    approval tracker, payment ledger and the session state machine
    Draft / AwaitingApproval / AwaitingPayment / Settled / Cancelled / Expired, each
    operation returning an error of \<open>bill_error\<close> or the new session with its events,
    the lazy expiry wrapper \<open>guarded\<close>, and the session invariant \<open>wf_session\<close>
    (cached counters equal their recomputation, unique identities, positive owed
    amounts, capacity, and per-state conditions) preserved by every operation.
  \<^item> \<open>SessionRegistry\<close> (specification-modelled): sessions keyed by id, the
    \<open>request\<close> datatype of inbound operations, \<open>registry_step\<close>, the event log, the
    ledger-transfer collaborator \<open>transfer_fn\<close>, and \<open>reachable\<close> registries as an
    inductive set; the invariant holds in every reachable registry; refused requests
    change nothing; requests to one session never touch another; quorum is monotone;
    terminal sessions are immutable.
  \<^item> \<open>Tester\<close>: \<open>scripts/test_multiple_signers.py\<close> method by method over the
    \<open>tester\<close> record (an extension of the world): account parsing and creation,
    deployment, initialisation, minting, the scenario drivers and \<open>main\<close>; the account
    parser's loop is shown equal to a declarative reading (\<open>account_lines_ref\<close>).
  \<^item> \<open>Chain\<close> (CLI syntax and contract entry functions specification-modelled): how an
    \<open>aptos move run\<close> argument vector is read (\<open>parse_move_run\<close>, typed arguments with
    the \<open>u64\<close> range check \<open>arg_u64\<close>, \<open>classify\<close>), the requests each entry function
    issues (\<open>call_requests\<close>), atomic transactions (\<open>run_txn\<close>), and the chain as the
    replay of the call log (\<open>chain_state\<close>) behind the oracle \<open>chain_oracle\<close>. Every
    chain state is a reachable registry.
  \<^item> \<open>ScenarioRuns\<close>: what the calls of \<open>_execute_test_scenario\<close> do to the chain,
    stage by stage (create, confirm and sign, pay).
  \<^item> \<open>Summary\<close>: \<open>script.py\<close>, its data literals and its \<open>print\<close> calls, with
    \<open>sys.stdout\<close> as a byte string and its encoding (UTF-8, Latin-1 or ASCII) as a
    parameter: code points that the encoding cannot represent raise
    \<open>UnicodeEncodeError\<close> before anything is written.
  \<^item> \<open>MockSuite\<close>: \<open>tests/test_multiple_signers.py\<close> (the \<open>MockMultiSignerTester\<close>
    class over the world extended with its attributes, and \<open>main\<close>).
  \<^item> \<open>SimpleTest\<close> and \<open>QuickTest\<close>: \<open>tests/simple_test.py\<close> and
    \<open>tests/quick_test.py\<close>, the results dictionaries as association lists.
  \<^item> This theory: the properties that span components.

  \<^emph>\<open>What is proved, by group.\<close>
  \<^enum> The scenario driver against the contract model (C1, C2, C13, C15, C16): the calls
    \<open>_execute_test_scenario\<close> issues and their decoding into contract calls (a
    refinement of the CLI level by the entry-function level), what the session
    reaches (all signatures reach the quorum; equal payments of \<open>total // n\<close> settle
    exactly when \<open>n\<close> divides the total); only the create call's return code is
    looked at; a total outside the \<open>u64\<close> range is refused after one call and changes
    nothing; a run changes no session but its own (a frame property: every call it
    sends names its own session id, and calls naming one session leave the others
    alone, \<open>chain_replay_other\<close>).
  \<^enum> The tester's parsing and error paths (C3, C4, C5, C12): the account output parser
    reads back what the CLI prints and equals its declarative reading; a failed account
    creation ends in \<open>AttributeError\<close>; the medium scenario's threshold.
  \<^enum> The mock suite (C6-C8): its CLI tests restore the working directory on every
    path, \<open>main\<close> exits 0 exactly when every test reported success, mock addresses
    are 64 hex digits and distinct.
  \<^enum> \<open>simple_test.py\<close> and \<open>quick_test.py\<close> (C9-C11, C14): their shared test loop
    never lets an exception escape and records each test once, in order; where the
    working directory is after the Move test (not restored on a timeout); that the
    Move-test check never raises; and that a missing \<open>Move.toml\<close> in the current
    directory stops the quick suite although its commands run in the script's parent
    directory.
  \<^enum> \<open>script.py\<close> has no input; its model is checked by running it
    (\<open>script_completes_utf8\<close>: 57 lines on a UTF-8 stdout; \<open>script_fails_non_utf8\<close>:
    \<open>UnicodeEncodeError\<close> on the first line under Latin-1 or ASCII).

  \<^emph>\<open>Bounds and fuel.\<close> No definition uses fuel: every loop of the sources runs over a
  finite list (participants, accounts, output lines, tests), so every operation is a
  total \<open>fun\<close> or \<open>primrec\<close>. The chain's clock is the index of the call in the log.
  Machine integers occur only as the contract's \<open>u64\<close> arguments, checked by
  \<open>arg_u64\<close>; Python integers are \<open>int\<close>.

  \<^emph>\<open>Not modelled.\<close> The \<open>print\<close> calls of the test scripts. They write to stdout
  only, which none of the scripts reads back, but they can raise: every script prints
  emoji, and on a stdout that cannot encode them the print raises
  \<open>UnicodeEncodeError\<close>, as \<open>script_fails_non_utf8\<close> shows for \<open>script.py\<close>. The
  models of the test scripts therefore describe a run on a stdout that encodes every
  printed character (UTF-8); on any other stdout, a print outside a \<open>try\<close> aborts
  the script at the first emoji, so properties such as "never raises" (C6, C10) hold
  for a UTF-8 stdout only. Also not modelled: the Aptos CLI beyond the calls the
  scripts make (answers to other commands are an unconstrained oracle), the network,
  key management and the cryptography of signatures.
\<close>

section \<open>The scenario driver against the contract\<close>

text \<open>C1: run against the chain, \<open>_execute_test_scenario\<close> on a well-formed scenario
  (distinct participants with their own keys, between 2 and 100 of them, a threshold in
  \<open>[1, n]\<close>, a fresh session id, a contract split of the total into positive shares,
  transfers that succeed and a session that does not expire during the run) returns
  \<open>True\<close>, and afterwards the session on the chain has collected exactly the required
  signatures and is \<open>Settled\<close> exactly when the number of participants divides the
  total: each participant pays \<open>total // n\<close>, so any remainder leaves the bill unpaid.\<close>

theorem scenario_settles_iff_divides:
  assumes other: "cli_available other"
    and adm: "admin_account t = Some a" "address a = Some (contract_addr cfg)" "CHR '':'' \<notin> set (contract_addr cfg)"
    and mer: "merchant_account t = Some m" "private_key m = Some mk"
    and ps: "\<forall>p \<in> set (sc_participants sc). \<exists>ad key. address p = Some ad \<and> private_key p = Some key
               \<and> signer_of cfg key = ad \<and> CHR '','' \<notin> set ad"
      "distinct (map address (sc_participants sc))"
    and n: "2 \<le> length (sc_participants sc)" "length (sc_participants sc) \<le> max_participants"
    and req: "sc_required sc = int q" "1 \<le> q" "q \<le> length (sc_participants sc)"
    and tot: "sc_total sc = int T" "T < 2 ^ 64"
    and sh: "length (shares cfg T (length (sc_participants sc))) = length (sc_participants sc)"
      "\<forall>x \<in> set (shares cfg T (length (sc_participants sc))). 0 < x"
      "sum_list (shares cfg T (length (sc_participants sc))) = T"
    and ttl: "2 * length (sc_participants sc) + 2 \<le> ttl cfg"
    and xfer: "\<forall>sid i amt. transfer cfg sid i amt"
    and fresh: "sessions (chain_state cfg (proc_log t)) (scenario_session_id sc now) = None"
  shows "\<exists>t' s. execute_test_scenario (chain_oracle cfg other) now sc t = (Inr True, t')
           \<and> sessions (chain_state cfg (proc_log t')) (scenario_session_id sc now) = Some s
           \<and> approvals_count s = q
           \<and> (state s = Settled \<longleftrightarrow> length (sc_participants sc) dvd T)"
proof -
  let ?ps = "sc_participants sc" and ?sid = "scenario_session_id sc now" and ?net = "network t"
  let ?ids = "map (the \<circ> address) ?ps" and ?n = "length (sc_participants sc)"
  let ?h0 = "proc_log t" and ?d = "cwd t" and ?ora = "chain_oracle cfg other"
  let ?c = "\<lambda>xs. mk_call ?d (map the xs) None"
  let ?cr = "create_session_argv a (Some mk) ?net ?sid sc (py_join '','' ?ids)"
  let ?cf = "confirm_argv a (Some mk) ?net ?sid"
  let ?amt = "T div ?n"
  note I = scenario_ids [OF ps]
  have q64: "q < 2 ^ 64" using req(3) n(2) by (simp add: max_participants_def)
  have len: "length ?ids = ?n" by simp
  have l: "2 \<le> length ?ids" "length ?ids \<le> max_participants"
    "length (shares cfg T (length ?ids)) = length ?ids" "\<forall>x \<in> set (shares cfg T (length ?ids)). 0 < x"
    "0 < ttl cfg" using n sh ttl by simp_all
  from scenario_create [OF adm(2,3) tot req(1) q64 refl, where k = "length ?h0" and d = ?d and mk = mk
         and net = ?net and sid = ?sid and r = "chain_state cfg ?h0"] I l fresh
  have C: "(\<exists>i cc. classify cfg (map the ?cr) = BillCall i cc)
         \<and> fst (chain_apply cfg (length ?h0) (?c ?cr) (chain_state cfg ?h0))
         \<and> sessions (snd (chain_apply cfg (length ?h0) (?c ?cr) (chain_state cfg ?h0))) ?sid
           = Some ((new_session ?sid (sc_description sc) q (length ?h0) (length ?h0 + ttl cfg))\<lparr>participants := map (\<lambda>(i, nm, amt).
                      \<lparr>identity = i, display_name = nm, owed_amount = amt, has_approved = False, paid_amount = 0\<rparr>)
                    (zip ?ids (zip (participant_names ''Participant_'' ?n) (shares cfg T ?n)))\<rparr>)"
    by simp
  obtain i cc where cl: "classify cfg (map the ?cr) = BillCall i cc" using C by blast
  let ?r1 = "snd (chain_apply cfg (length ?h0) (?c ?cr) (chain_state cfg ?h0))"
  have created: "?ora ?h0 (?c ?cr) = Completed 0 [] []"
    using cl C by (simp add: chain_oracle_def mk_call_def)
  have "private_key m \<noteq> None" "\<forall>p \<in> set ?ps. address p \<noteq> None \<and> private_key p \<noteq> None" "?ps \<noteq> []"
    using mer(2) I n(1) by auto
  from execute_test_scenario_calls [OF chain_oracle_available [OF other] adm(1) mer(1) this,
         where now = now and out = "[]" and err = "[]"]
  have run: "execute_test_scenario ?ora now sc t = (Inr True,
      t\<lparr>proc_log := ?h0 @ ?c ?cr # ?c ?cf # map (\<lambda>p. ?c (sign_argv a ?net ?sid p)) ?ps
                          @ map (\<lambda>p. ?c (pay_argv a ?net ?sid (int ?amt) p)) ?ps\<rparr>)"
    using created mer(2) tot(1) by (simp add: comp_def zdiv_int)
  define S1 where "S1 = (new_session ?sid (sc_description sc) q (length ?h0) (length ?h0 + ttl cfg))\<lparr>participants := map (\<lambda>(i, nm, amt).
                      \<lparr>identity = i, display_name = nm, owed_amount = amt, has_approved = False, paid_amount = 0\<rparr>)
                    (zip ?ids (zip (participant_names ''Participant_'' ?n) (shares cfg T ?n)))\<rparr>"
  have r1: "sessions ?r1 ?sid = Some S1" using C by (simp add: S1_def)
  have "length (participant_names ''Participant_'' ?n) = length ?ids" "length (shares cfg T ?n) = length ?ids"
    using sh(1) by (simp_all add: participant_names_def)
  note LP = listed_participants [OF this]
  have pids: "map identity (participants S1) = ?ids" using LP by (simp add: S1_def)
  have "list_all (\<lambda>p. \<not> has_approved p) (participants S1)"
    by (simp add: S1_def list_all_iff split: prod.splits)
  have keys: "\<forall>p \<in> set ?ps. \<exists>key. private_key p = Some key \<and> signer_of cfg key = the (address p)"
    using I by blast
  have st1: "state S1 = Draft" "approvals_count S1 = 0" "payments_total S1 = 0"
    "required_signatures S1 = q" "expires_at S1 = length ?h0 + ttl cfg"
    by (simp_all add: S1_def new_session_def)
  have e1: "Suc (length ?h0) + Suc ?n \<le> expires_at S1" using st1(5) ttl by simp
  have dist: "distinct ?ids" using I by simp
  from scenario_approve [OF adm(2,3) keys pids dist r1 st1(1,2) \<open>list_all _ _\<close> n(1),
         where d = ?d and mk = mk and net = ?net and k = "Suc (length ?h0)"] req(2,3) st1(4) e1
  obtain S3 where S3: "sessions (chain_replay cfg (Suc (length ?h0)) (?c ?cf # map (\<lambda>p. ?c (sign_argv a ?net ?sid p)) ?ps) ?r1) ?sid = Some S3"
    "state S3 = AwaitingPayment" "approvals_count S3 = q" "total_amount S3 = total_owed S1"
    "payments_total S3 = 0" "map identity (participants S3) = ?ids" "expires_at S3 = expires_at S1"
    by (auto simp: confirm_argv_def pids st1(3))
  have tot1: "total_owed S1 = T" using LP sh(3) by (simp add: S1_def total_owed_def)
  have "0 < T" using sh(1-3) n(1) sum_positive [of "shares cfg T ?n"] by fastforce
  then have "payments_total S3 < total_amount S3" using S3(4,5) tot1 by simp
  moreover have "set ?ids \<subseteq> set (map identity (participants S3))" using S3(6) by simp
  moreover have "Suc (length ?h0) + Suc ?n + ?n \<le> expires_at S3" using S3(7) st1(5) ttl by simp
  moreover have "?amt < 2 ^ 64" using tot(2) by (meson div_le_dividend le_less_trans)
  ultimately obtain S4 where S4: "sessions (chain_replay cfg (Suc (length ?h0) + Suc ?n) (map (\<lambda>p. ?c (pay_argv a ?net ?sid (int ?amt) p)) ?ps)
        (chain_replay cfg (Suc (length ?h0)) (?c ?cf # map (\<lambda>p. ?c (sign_argv a ?net ?sid p)) ?ps) ?r1)) ?sid = Some S4"
    "state S4 = Settled \<longleftrightarrow> 0 < ?amt \<and> T \<le> 0 + ?n * ?amt" "approvals_count S4 = q"
    using scenario_pay [OF adm(2,3) keys S3(1,2), where amt = ?amt and d = ?d and net = ?net
            and k = "Suc (length ?h0) + Suc ?n"] xfer S3(3-5) tot1 by auto
  have "chain_state cfg (?h0 @ ?c ?cr # ?c ?cf # map (\<lambda>p. ?c (sign_argv a ?net ?sid p)) ?ps
                          @ map (\<lambda>p. ?c (pay_argv a ?net ?sid (int ?amt) p)) ?ps)
        = chain_replay cfg (Suc (length ?h0) + Suc ?n) (map (\<lambda>p. ?c (pay_argv a ?net ?sid (int ?amt) p)) ?ps)
            (chain_replay cfg (Suc (length ?h0)) (?c ?cf # map (\<lambda>p. ?c (sign_argv a ?net ?sid p)) ?ps) ?r1)"
    using chain_replay_append [of cfg "Suc (length ?h0)" "?c ?cf # map (\<lambda>p. ?c (sign_argv a ?net ?sid p)) ?ps"]
    by (simp add: chain_state_def chain_replay_append)
  with run S4 equal_shares_settle [OF \<open>0 < T\<close>, of ?n] show ?thesis by auto
qed

theorem scenario_settles_iff_divides_witness:
  "\<exists>t' s. execute_test_scenario
            (chain_oracle \<lparr>contract_addr = ''0xad'', signer_of = (\<lambda>k. if k = ''k1'' then ''0xa1'' else ''0xa2''),
                           shares = (\<lambda>t n. replicate n (t div n)), ttl = 100, transfer = (\<lambda>_ _ _. True)\<rparr>
                          (\<lambda>_ _. Completed 0 [] [])) 5
            \<lparr>sc_name = ''g'', sc_participants = [\<lparr>address = Some ''0xa1'', private_key = Some ''k1'', balance = 0\<rparr>,
                 \<lparr>address = Some ''0xa2'', private_key = Some ''k2'', balance = 0\<rparr>],
             sc_total = 10, sc_required = 2, sc_description = ''d''\<rparr>
            ((new_tester ''testnet'' [])\<lparr>admin_account := Some \<lparr>address = Some ''0xad'', private_key = Some ''ka'', balance = 0\<rparr>,
               merchant_account := Some \<lparr>address = Some ''0xme'', private_key = Some ''km'', balance = 0\<rparr>\<rparr>)
          = (Inr True, t')
        \<and> sessions (chain_state \<lparr>contract_addr = ''0xad'', signer_of = (\<lambda>k. if k = ''k1'' then ''0xa1'' else ''0xa2''),
                           shares = (\<lambda>t n. replicate n (t div n)), ttl = 100, transfer = (\<lambda>_ _ _. True)\<rparr>
                      (proc_log t'))
             (scenario_session_id
               \<lparr>sc_name = ''g'', sc_participants = [\<lparr>address = Some ''0xa1'', private_key = Some ''k1'', balance = 0\<rparr>,
                   \<lparr>address = Some ''0xa2'', private_key = Some ''k2'', balance = 0\<rparr>],
                sc_total = 10, sc_required = 2, sc_description = ''d''\<rparr> 5) = Some s
        \<and> approvals_count s = 2 \<and> state s = Settled"
  using scenario_settles_iff_divides [where other = "\<lambda>_ _. Completed 0 [] []"
      and cfg = "\<lparr>contract_addr = ''0xad'', signer_of = (\<lambda>k. if k = ''k1'' then ''0xa1'' else ''0xa2''),
                           shares = (\<lambda>t n. replicate n (t div n)), ttl = 100, transfer = (\<lambda>_ _ _. True)\<rparr>"
      and now = 5 and q = 2 and T = 10 and mk = "''km''"
      and a = "\<lparr>address = Some ''0xad'', private_key = Some ''ka'', balance = 0\<rparr>"
      and m = "\<lparr>address = Some ''0xme'', private_key = Some ''km'', balance = 0\<rparr>"
      and sc = "\<lparr>sc_name = ''g'', sc_participants = [\<lparr>address = Some ''0xa1'', private_key = Some ''k1'', balance = 0\<rparr>,
                 \<lparr>address = Some ''0xa2'', private_key = Some ''k2'', balance = 0\<rparr>],
             sc_total = 10, sc_required = 2, sc_description = ''d''\<rparr>"
      and t = "(new_tester ''testnet'' [])\<lparr>admin_account := Some \<lparr>address = Some ''0xad'', private_key = Some ''ka'', balance = 0\<rparr>,
               merchant_account := Some \<lparr>address = Some ''0xme'', private_key = Some ''km'', balance = 0\<rparr>\<rparr>"]
  by (simp add: cli_available_def new_tester_def max_participants_def chain_state_def empty_registry_def
      numeral_2_eq_2 [symmetric] sum_list_replicate)

section \<open>Bounds and frame of a scenario run on the chain\<close>

text \<open>C13: the bill total travels as a \<open>u64\<close> argument: a negative total (rendered
  with a minus sign) or one of \<open>2^64\<close> or more is refused by the CLI, so
  \<open>_execute_test_scenario\<close> returns \<open>False\<close> after its first call and the chain is
  unchanged.\<close>

theorem scenario_total_out_of_range:
  assumes adm: "admin_account t = Some a" "address a = Some (contract_addr cfg)" "CHR '':'' \<notin> set (contract_addr cfg)"
    and mer: "merchant_account t = Some m" "private_key m = Some mk"
    and ps: "\<forall>p \<in> set (sc_participants sc). address p \<noteq> None"
    and range: "sc_total sc < 0 \<or> 2 ^ 64 \<le> sc_total sc"
  shows "fst (execute_test_scenario (chain_oracle cfg other) now sc t) = Inr False
         \<and> length (proc_log (snd (execute_test_scenario (chain_oracle cfg other) now sc t))) = Suc (length (proc_log t))
         \<and> chain_state cfg (proc_log (snd (execute_test_scenario (chain_oracle cfg other) now sc t)))
           = chain_state cfg (proc_log t)"
proof -
  let ?c = "mk_call (cwd t) (map the (create_session_argv a (private_key m) (network t)
           (scenario_session_id sc now) sc (py_join '','' (map (the \<circ> address) (sc_participants sc))))) None"
  have bad: "classify cfg (call_argv ?c) = BadCall"
    using classify_create_bad_total [OF adm(2,3) range] mer(2) by (simp add: mk_call_def)
  then have "chain_oracle cfg other (proc_log t) ?c = Completed 1 [] []"
    by (simp add: chain_oracle_def)
  moreover have "private_key m \<noteq> None" using mer(2) by simp
  ultimately have "execute_test_scenario (chain_oracle cfg other) now sc t = (Inr False, t\<lparr>proc_log := proc_log t @ [?c]\<rparr>)"
    using execute_test_scenario_refused [where ora = "chain_oracle cfg other" and now = now and sc = sc and t = t
        and a = a and m = m and rc = 1 and out = "[]" and err = "[]"] adm(1) mer(1) ps by simp
  with bad
  show ?thesis by (simp add: chain_state_def chain_replay_append chain_apply_def)
qed

theorem scenario_total_out_of_range_witness:
  "fst (execute_test_scenario
          (chain_oracle \<lparr>contract_addr = ''0xad'', signer_of = (\<lambda>k. k), shares = (\<lambda>t n. replicate n (t div n)),
                         ttl = 100, transfer = (\<lambda>_ _ _. True)\<rparr> (\<lambda>_ _. Completed 0 [] [])) 5
          \<lparr>sc_name = ''g'', sc_participants = [\<lparr>address = Some ''0xa1'', private_key = Some ''k1'', balance = 0\<rparr>],
           sc_total = -10, sc_required = 1, sc_description = ''d''\<rparr>
          ((new_tester ''testnet'' [])\<lparr>admin_account := Some \<lparr>address = Some ''0xad'', private_key = Some ''ka'', balance = 0\<rparr>,
             merchant_account := Some \<lparr>address = Some ''0xme'', private_key = Some ''km'', balance = 0\<rparr>\<rparr>))
   = Inr False"
  using scenario_total_out_of_range [where cfg = "\<lparr>contract_addr = ''0xad'', signer_of = (\<lambda>k. k),
        shares = (\<lambda>t n. replicate n (t div n)), ttl = 100, transfer = (\<lambda>_ _ _. True)\<rparr>"
      and a = "\<lparr>address = Some ''0xad'', private_key = Some ''ka'', balance = 0\<rparr>"
      and m = "\<lparr>address = Some ''0xme'', private_key = Some ''km'', balance = 0\<rparr>" and mk = "''km''"
      and sc = "\<lparr>sc_name = ''g'', sc_participants = [\<lparr>address = Some ''0xa1'', private_key = Some ''k1'', balance = 0\<rparr>],
           sc_total = -10, sc_required = 1, sc_description = ''d''\<rparr>"
      and t = "(new_tester ''testnet'' [])\<lparr>admin_account := Some \<lparr>address = Some ''0xad'', private_key = Some ''ka'', balance = 0\<rparr>,
             merchant_account := Some \<lparr>address = Some ''0xme'', private_key = Some ''km'', balance = 0\<rparr>\<rparr>"
      and other = "\<lambda>_ _. Completed 0 [] []" and now = 5]
  by simp

section \<open>The scripts' calls refine the contract's entry-function calls\<close>

text \<open>C15: on a scenario whose \<open>create_bill_session\<close> call succeeds, the command lines
  \<open>_execute_test_scenario\<close> hands to the CLI, read as the CLI reads them, are exactly the
  intended sequence of contract calls: the merchant creates the session with the total,
  the participants' addresses, the names \<open>Participant_i\<close> and the threshold, and confirms
  it; then every participant signs, in order; then every participant pays
  \<open>total // n\<close>, in order. The hypotheses are those under which the arguments are
  well formed: keys present, addresses free of the separators, numbers in the \<open>u64\<close>
  range.\<close>

theorem scenario_calls_decode:
  assumes avail: "cli_available ora"
    and adm: "admin_account t = Some a" "address a = Some (contract_addr cfg)" "CHR '':'' \<notin> set (contract_addr cfg)"
    and mer: "merchant_account t = Some m" "private_key m = Some mk"
    and ps: "\<forall>p \<in> set (sc_participants sc). \<exists>ad key. address p = Some ad \<and> private_key p = Some key \<and> CHR '','' \<notin> set ad"
      "sc_participants sc \<noteq> []"
    and tot: "sc_total sc = int T" "T < 2 ^ 64" and req: "sc_required sc = int q" "q < 2 ^ 64"
    and created: "ora (proc_log t) (mk_call (cwd t) (map the (create_session_argv a (Some mk) (network t)
           (scenario_session_id sc now) sc (py_join '','' (map (the \<circ> address) (sc_participants sc))))) None)
        = Completed 0 out err"
  shows "\<exists>t'. execute_test_scenario ora now sc t = (Inr True, t')
     \<and> map (classify cfg \<circ> call_argv) (drop (length (proc_log t)) (proc_log t')) =
         BillCall (signer_of cfg mk) (CallCreate (scenario_session_id sc now) T (sc_description sc)
              (map (the \<circ> address) (sc_participants sc)) (participant_names ''Participant_'' (length (sc_participants sc))) q)
       # BillCall (signer_of cfg mk) (CallConfirm (scenario_session_id sc now))
       # map (\<lambda>p. BillCall (signer_of cfg (the (private_key p))) (CallSign (scenario_session_id sc now))) (sc_participants sc)
       @ map (\<lambda>p. BillCall (signer_of cfg (the (private_key p)))
                   (CallPay (scenario_session_id sc now) (T div length (sc_participants sc)))) (sc_participants sc)"
proof -
  let ?ps = "sc_participants sc" and ?sid = "scenario_session_id sc now" and ?net = "network t"
  let ?ids = "map (the \<circ> address) ?ps" and ?n = "length (sc_participants sc)"
  let ?c = "\<lambda>xs. mk_call (cwd t) (map the xs) None"
  let ?xs = "[create_session_argv a (Some mk) ?net ?sid sc (py_join '','' ?ids), confirm_argv a (Some mk) ?net ?sid]
             @ map (sign_argv a ?net ?sid) ?ps @ map (pay_argv a ?net ?sid (int (T div ?n))) ?ps"
  have pk: "\<forall>p \<in> set ?ps. address p \<noteq> None \<and> private_key p \<noteq> None" using ps(1) by fastforce
  from execute_test_scenario_calls [OF avail adm(1) mer(1) _ pk ps(2), where now = now and out = out and err = err]
  have run: "execute_test_scenario ora now sc t = (Inr True, t\<lparr>proc_log := proc_log t @ map ?c ?xs\<rparr>)"
    using created mer(2) tot(1) by (simp add: zdiv_int)
  have eq: "map (classify cfg \<circ> call_argv) (map ?c ?xs) = map (classify cfg \<circ> map the) ?xs"
    by (simp add: mk_call_def comp_def)
  note dec = trans [OF eq scenario_argv_decode [OF adm(2,3) ps tot req, where mk = mk and net = ?net and sid = ?sid]]
  from run dec show ?thesis by simp
qed

theorem scenario_calls_decode_witness:
  "\<exists>t'. execute_test_scenario (\<lambda>_ _. Completed 0 [] []) 5 \<lparr>sc_name = ''g'', sc_participants = [\<lparr>address = Some ''0xa1'', private_key = Some ''k1'', balance = 0\<rparr>, \<lparr>address = Some ''0xa2'', private_key = Some ''k2'', balance = 0\<rparr>], sc_total = 10, sc_required = 2, sc_description = ''d''\<rparr> ((new_tester ''testnet'' [])\<lparr>admin_account := Some \<lparr>address = Some ''0xad'', private_key = Some ''ka'', balance = 0\<rparr>, merchant_account := Some \<lparr>address = Some ''0xme'', private_key = Some ''km'', balance = 0\<rparr>\<rparr>) = (Inr True, t')
     \<and> map (classify \<lparr>contract_addr = ''0xad'', signer_of = (\<lambda>k. if k = ''k1'' then ''0xa1'' else ''0xa2''), shares = (\<lambda>t n. replicate n (t div n)), ttl = 100, transfer = (\<lambda>_ _ _. True)\<rparr> \<circ> call_argv) (drop 0 (proc_log t')) =
         [BillCall ''0xa2'' (CallCreate (scenario_session_id \<lparr>sc_name = ''g'', sc_participants = [\<lparr>address = Some ''0xa1'', private_key = Some ''k1'', balance = 0\<rparr>, \<lparr>address = Some ''0xa2'', private_key = Some ''k2'', balance = 0\<rparr>], sc_total = 10, sc_required = 2, sc_description = ''d''\<rparr> 5) 10 ''d'' [''0xa1'', ''0xa2''] (participant_names ''Participant_'' 2) 2),
          BillCall ''0xa2'' (CallConfirm (scenario_session_id \<lparr>sc_name = ''g'', sc_participants = [\<lparr>address = Some ''0xa1'', private_key = Some ''k1'', balance = 0\<rparr>, \<lparr>address = Some ''0xa2'', private_key = Some ''k2'', balance = 0\<rparr>], sc_total = 10, sc_required = 2, sc_description = ''d''\<rparr> 5)),
          BillCall ''0xa1'' (CallSign (scenario_session_id \<lparr>sc_name = ''g'', sc_participants = [\<lparr>address = Some ''0xa1'', private_key = Some ''k1'', balance = 0\<rparr>, \<lparr>address = Some ''0xa2'', private_key = Some ''k2'', balance = 0\<rparr>], sc_total = 10, sc_required = 2, sc_description = ''d''\<rparr> 5)),
          BillCall ''0xa2'' (CallSign (scenario_session_id \<lparr>sc_name = ''g'', sc_participants = [\<lparr>address = Some ''0xa1'', private_key = Some ''k1'', balance = 0\<rparr>, \<lparr>address = Some ''0xa2'', private_key = Some ''k2'', balance = 0\<rparr>], sc_total = 10, sc_required = 2, sc_description = ''d''\<rparr> 5)),
          BillCall ''0xa1'' (CallPay (scenario_session_id \<lparr>sc_name = ''g'', sc_participants = [\<lparr>address = Some ''0xa1'', private_key = Some ''k1'', balance = 0\<rparr>, \<lparr>address = Some ''0xa2'', private_key = Some ''k2'', balance = 0\<rparr>], sc_total = 10, sc_required = 2, sc_description = ''d''\<rparr> 5) 5),
          BillCall ''0xa2'' (CallPay (scenario_session_id \<lparr>sc_name = ''g'', sc_participants = [\<lparr>address = Some ''0xa1'', private_key = Some ''k1'', balance = 0\<rparr>, \<lparr>address = Some ''0xa2'', private_key = Some ''k2'', balance = 0\<rparr>], sc_total = 10, sc_required = 2, sc_description = ''d''\<rparr> 5) 5)]"
  using scenario_calls_decode [where ora = "\<lambda>_ _. Completed 0 [] []" and cfg = "\<lparr>contract_addr = ''0xad'', signer_of = (\<lambda>k. if k = ''k1'' then ''0xa1'' else ''0xa2''), shares = (\<lambda>t n. replicate n (t div n)), ttl = 100, transfer = (\<lambda>_ _ _. True)\<rparr>"
      and now = 5 and q = 2 and T = 10 and mk = "''km''" and out = "[]" and err = "[]"
      and a = "\<lparr>address = Some ''0xad'', private_key = Some ''ka'', balance = 0\<rparr>"
      and m = "\<lparr>address = Some ''0xme'', private_key = Some ''km'', balance = 0\<rparr>"
      and sc = "\<lparr>sc_name = ''g'', sc_participants = [\<lparr>address = Some ''0xa1'', private_key = Some ''k1'', balance = 0\<rparr>, \<lparr>address = Some ''0xa2'', private_key = Some ''k2'', balance = 0\<rparr>], sc_total = 10, sc_required = 2, sc_description = ''d''\<rparr>" and t = "(new_tester ''testnet'' [])\<lparr>admin_account := Some \<lparr>address = Some ''0xad'', private_key = Some ''ka'', balance = 0\<rparr>, merchant_account := Some \<lparr>address = Some ''0xme'', private_key = Some ''km'', balance = 0\<rparr>\<rparr>"]
  by (simp add: cli_available_def new_tester_def numeral_2_eq_2 [symmetric])

text \<open>C16: run against the chain, \<open>_execute_test_scenario\<close> changes no session
  other than its own \<open>scenario_session_id\<close>, whether the create call is accepted (then
  every later call, confirmation, signatures and payments, names the same session id)
  or refused (then the driver stops after it). The hypotheses are those under which
  the arguments are well formed, as for the decoding of the calls.\<close>

theorem scenario_touches_own_session:
  assumes other: "cli_available other"
    and adm: "admin_account t = Some a" "address a = Some (contract_addr cfg)" "CHR '':'' \<notin> set (contract_addr cfg)"
    and mer: "merchant_account t = Some m" "private_key m = Some mk"
    and ps: "\<forall>p \<in> set (sc_participants sc). \<exists>ad key. address p = Some ad \<and> private_key p = Some key \<and> CHR '','' \<notin> set ad"
      "sc_participants sc \<noteq> []"
    and tot: "sc_total sc = int T" "T < 2 ^ 64" and req: "sc_required sc = int q" "q < 2 ^ 64"
  shows "\<exists>b t'. execute_test_scenario (chain_oracle cfg other) now sc t = (Inr b, t')
     \<and> (\<forall>sid. sid \<noteq> scenario_session_id sc now \<longrightarrow>
            sessions (chain_state cfg (proc_log t')) sid = sessions (chain_state cfg (proc_log t)) sid)"
proof -
  let ?ps = "sc_participants sc" and ?sid = "scenario_session_id sc now" and ?net = "network t"
  let ?ids = "map (the \<circ> address) ?ps" and ?n = "length (sc_participants sc)"
  let ?ora = "chain_oracle cfg other" and ?h0 = "proc_log t"
  let ?c = "\<lambda>xs. mk_call (cwd t) (map the xs) None"
  let ?cr = "create_session_argv a (Some mk) ?net ?sid sc (py_join '','' ?ids)"
  let ?xs = "[?cr, confirm_argv a (Some mk) ?net ?sid] @ map (sign_argv a ?net ?sid) ?ps
             @ map (pay_argv a ?net ?sid (int (T div ?n))) ?ps"
  note D = scenario_argv_decode [OF adm(2,3) ps tot req, where mk = mk and net = ?net and sid = ?sid]
  have own: "\<forall>c \<in> set (map ?c ?xs). \<forall>i cc. classify cfg (call_argv c) = BillCall i cc \<longrightarrow> call_sid cc = ?sid"
    by (rule scenario_calls_name_sid [OF adm(2,3) ps tot req])
  have cr: "classify cfg (call_argv (?c ?cr)) = BillCall (signer_of cfg mk) (CallCreate ?sid T (sc_description sc) ?ids
              (participant_names ''Participant_'' ?n) q)"
    using arg_cong [OF D, of hd] by (simp add: mk_call_def)
  have pk: "\<forall>p \<in> set ?ps. address p \<noteq> None \<and> private_key p \<noteq> None" using ps(1) by fastforce
  obtain rc where rc: "?ora ?h0 (?c ?cr) = Completed rc [] []"
    using oracle_bill [OF cr] by blast
  show ?thesis
  proof (cases "rc = 0")
    case True
    from execute_test_scenario_calls [OF chain_oracle_available [OF other] adm(1) mer(1) _ pk ps(2),
           where now = now and out = "[]" and err = "[]"]
    have run: "execute_test_scenario ?ora now sc t = (Inr True, t\<lparr>proc_log := ?h0 @ map ?c ?xs\<rparr>)"
      using rc True mer(2) tot(1) by (simp add: zdiv_int)
    have "\<forall>sid. sid \<noteq> ?sid \<longrightarrow> sessions (chain_state cfg (?h0 @ map ?c ?xs)) sid = sessions (chain_state cfg ?h0) sid"
      using frame_log [OF own] by blast
    with run show ?thesis by auto
  next
    case False
    have run: "execute_test_scenario ?ora now sc t = (Inr False, t\<lparr>proc_log := ?h0 @ map ?c [?cr]\<rparr>)"
      using execute_test_scenario_refused [where ora = ?ora and now = now and sc = sc and t = t
          and a = a and m = m and rc = rc and out = "[]" and err = "[]"] adm(1) mer pk rc False by simp
    have "\<forall>c \<in> set (map ?c [?cr]). \<forall>i cc. classify cfg (call_argv c) = BillCall i cc \<longrightarrow> call_sid cc = ?sid"
      using own by simp
    then have "\<forall>sid. sid \<noteq> ?sid \<longrightarrow> sessions (chain_state cfg (?h0 @ map ?c [?cr])) sid = sessions (chain_state cfg ?h0) sid"
      using frame_log by blast
    with run show ?thesis by auto
  qed
qed

theorem scenario_touches_own_session_witness:
  "\<exists>b t'. execute_test_scenario (chain_oracle \<lparr>contract_addr = ''0xad'', signer_of = (\<lambda>k. if k = ''k1'' then ''0xa1'' else ''0xa2''), shares = (\<lambda>t n. replicate n (t div n)), ttl = 100, transfer = (\<lambda>_ _ _. True)\<rparr> (\<lambda>_ _. Completed 0 [] [])) 5 \<lparr>sc_name = ''g'', sc_participants = [\<lparr>address = Some ''0xa1'', private_key = Some ''k1'', balance = 0\<rparr>, \<lparr>address = Some ''0xa2'', private_key = Some ''k2'', balance = 0\<rparr>], sc_total = 10, sc_required = 2, sc_description = ''d''\<rparr> ((new_tester ''testnet'' [])\<lparr>admin_account := Some \<lparr>address = Some ''0xad'', private_key = Some ''ka'', balance = 0\<rparr>, merchant_account := Some \<lparr>address = Some ''0xme'', private_key = Some ''km'', balance = 0\<rparr>\<rparr>) = (Inr b, t')
     \<and> (\<forall>sid. sid \<noteq> scenario_session_id \<lparr>sc_name = ''g'', sc_participants = [\<lparr>address = Some ''0xa1'', private_key = Some ''k1'', balance = 0\<rparr>, \<lparr>address = Some ''0xa2'', private_key = Some ''k2'', balance = 0\<rparr>], sc_total = 10, sc_required = 2, sc_description = ''d''\<rparr> 5 \<longrightarrow>
            sessions (chain_state \<lparr>contract_addr = ''0xad'', signer_of = (\<lambda>k. if k = ''k1'' then ''0xa1'' else ''0xa2''), shares = (\<lambda>t n. replicate n (t div n)), ttl = 100, transfer = (\<lambda>_ _ _. True)\<rparr> (proc_log t')) sid = sessions (chain_state \<lparr>contract_addr = ''0xad'', signer_of = (\<lambda>k. if k = ''k1'' then ''0xa1'' else ''0xa2''), shares = (\<lambda>t n. replicate n (t div n)), ttl = 100, transfer = (\<lambda>_ _ _. True)\<rparr> []) sid)"
  using scenario_touches_own_session [where other = "\<lambda>_ _. Completed 0 [] []" and cfg = "\<lparr>contract_addr = ''0xad'', signer_of = (\<lambda>k. if k = ''k1'' then ''0xa1'' else ''0xa2''), shares = (\<lambda>t n. replicate n (t div n)), ttl = 100, transfer = (\<lambda>_ _ _. True)\<rparr>"
      and now = 5 and q = 2 and T = 10 and mk = "''km''"
      and a = "\<lparr>address = Some ''0xad'', private_key = Some ''ka'', balance = 0\<rparr>"
      and m = "\<lparr>address = Some ''0xme'', private_key = Some ''km'', balance = 0\<rparr>"
      and sc = "\<lparr>sc_name = ''g'', sc_participants = [\<lparr>address = Some ''0xa1'', private_key = Some ''k1'', balance = 0\<rparr>, \<lparr>address = Some ''0xa2'', private_key = Some ''k2'', balance = 0\<rparr>], sc_total = 10, sc_required = 2, sc_description = ''d''\<rparr>" and t = "(new_tester ''testnet'' [])\<lparr>admin_account := Some \<lparr>address = Some ''0xad'', private_key = Some ''ka'', balance = 0\<rparr>, merchant_account := Some \<lparr>address = Some ''0xme'', private_key = Some ''km'', balance = 0\<rparr>\<rparr>"]
  by (simp add: cli_available_def new_tester_def)

end
